theory Spec2Isabelle
  imports Complex_Main
begin

section \<open>Python values\<close>

text \<open>
  A Python \<open>str\<close> is a sequence of Unicode code points, so it is modelled as a list of
  code points; \<open>u\<close> turns an ASCII literal of the source into such a list. Slicing and
  \<open>len\<close> then count what Python counts.
\<close>

type_synonym pystr = "nat list"

definition u :: "string \<Rightarrow> pystr" where
  "u s = map of_char s"

text \<open>
  The values stored in the telemetry dictionary. A Python \<open>float\<close> is modelled by the
  real number it denotes (no rounding).
\<close>

datatype pyval =
    PNone
  | PBool bool
  | PInt int
  | PFloat real
  | PStr pystr
  | PDict "(pystr \<times> pyval) list"

type_synonym pydict = "pystr \<rightharpoonup> pyval"

text \<open>
  The exceptions of the model are all instances of Python's \<open>Exception\<close>, so each of them is
  caught by \<open>except Exception\<close>. \<open>FileNotFoundError\<close> and \<open>ProcessLookupError\<close> are the
  two subclasses of \<open>OSError\<close> that the source names in a handler; \<open>OSError\<close> stands for
  the others.
\<close>

datatype py_exc =
    RuntimeError pystr
  | ValueError pystr
  | TypeError pystr
  | KeyError pystr
  | ProcessLookupError
  | FileNotFoundError pystr
  | TimeoutExpired pystr
  | OSError pystr
  | OverflowError pystr
  | HTTPException nat pystr

section \<open>collections.deque with maxlen\<close>

text \<open>
  \<open>deque.append\<close> on a bounded deque: the item is added on the right and, when the deque
  has grown beyond \<open>maxlen\<close>, one item is discarded from the left.
\<close>

definition deque_append :: "nat \<Rightarrow> 'a \<Rightarrow> 'a list \<Rightarrow> 'a list" where
  "deque_append maxlen x xs =
     (if maxlen = 0 then xs
      else (let ys = xs @ [x] in if maxlen < length ys then tl ys else ys))"

text \<open>The slice \<open>xs[start:]\<close> for any integer \<open>start\<close>.\<close>

definition py_slice_from :: "int \<Rightarrow> 'a list \<Rightarrow> 'a list" where
  "py_slice_from start xs =
     (let n = int (length xs);
          i = (if start < 0 then max (start + n) 0 else min start n)
      in drop (nat i) xs)"

section \<open>The shared state store (backend/state.py)\<close>

record event =
  ts :: int
  level :: pystr
  src :: pystr
  code :: pystr
  msg :: pystr

text \<open>The payload \<open>{"type": "event", "event": event}\<close> handed to the broadcast hook.\<close>

record ws_payload =
  ptype :: pystr
  pevent :: event

text \<open>
  \<open>SharedState\<close>. The broadcast hook is a callable that returns or raises. Two fields
  stand for the world outside the dataclass: \<open>clock\<close> is what \<open>time.time()\<close> reads, and
  \<open>ws_sent\<close> lists the calls made to the hook, each with whether the lock was held at
  the call. \<open>lock_held\<close> is the state of \<open>_lock\<close>.
\<close>

record shared_state =
  ws_broadcast :: "(ws_payload \<Rightarrow> py_exc option) option"
  status :: pystr
  process_pids :: "pystr \<rightharpoonup> nat option"
  session_id :: "pystr option"
  scenario :: pystr
  ramp_params :: "pydict option"
  session_start_time :: real
  telemetry :: pydict
  rtt_samples :: "real list"
  events :: "event list"
  errors :: "event list"
  last_telemetry_ts :: real
  last_heartbeat_ts :: real
  lock_held :: bool
  clock :: real
  ws_sent :: "(ws_payload \<times> bool) list"

text \<open>The default telemetry dictionary of the dataclass field.\<close>

definition default_telemetry_items :: "(pystr \<times> pyval) list" where
  "default_telemetry_items =
    [(u ''commanded_pct'', PInt 0), (u ''commanded_w'', PFloat 0), (u ''received_mw'', PFloat 0),
     (u ''efficiency_pct'', PFloat 0), (u ''link_quality_pct'', PInt 0), (u ''rtt_ms'', PFloat 0),
     (u ''granted'', PBool False), (u ''deny_reason'', PNone), (u ''grants_total'', PInt 0),
     (u ''denies_total'', PInt 0), (u ''seq'', PInt 0), (u ''voltage_mv'', PInt 0),
     (u ''current_ma'', PInt 0), (u ''soc_pct'', PFloat 0), (u ''temp_cdeg'', PInt 0),
     (u ''distance_m'', PFloat 0), (u ''roll_deg'', PFloat 0), (u ''pitch_deg'', PFloat 0),
     (u ''yaw_deg'', PFloat 0), (u ''gps_lat_deg'', PNone), (u ''gps_lon_deg'', PNone),
     (u ''gps_alt_m'', PNone), (u ''gps_rel_alt_m'', PNone), (u ''home_lat_deg'', PNone),
     (u ''home_lon_deg'', PNone), (u ''panel_target_azimuth_deg'', PFloat 0),
     (u ''panel_target_elevation_deg'', PFloat 0), (u ''panel_gimbal_azimuth_deg'', PFloat 0),
     (u ''panel_gimbal_elevation_deg'', PFloat 0), (u ''panel_relative_azimuth_deg'', PFloat 0),
     (u ''panel_misalignment_deg'', PFloat 0), (u ''panel_efficiency_factor'', PFloat 1),
     (u ''relay_udp_to_ser_total'', PInt 0), (u ''relay_ser_to_udp_total'', PInt 0),
     (u ''laser_connected'', PBool False), (u ''laser_avg_power_w'', PFloat 0),
     (u ''laser_peak_power_w'', PFloat 0), (u ''laser_case_temperature_c'', PFloat 0),
     (u ''laser_board_temperature_c'', PFloat 0), (u ''laser_setpoint_pct'', PFloat 0),
     (u ''laser_status_flags'', PDict []), (u ''laser_status_word'', PInt 0),
     (u ''laser_device_id'', PStr (u ''Unknown'')),
     (u ''laser_firmware_revision'', PStr (u ''Unknown'')),
     (u ''laser_emission_on'', PBool False), (u ''laser_power_supply_on'', PBool False),
     (u ''laser_alarm_critical'', PBool False), (u ''laser_alarm_overheat'', PBool False),
     (u ''laser_error'', PNone), (u ''laser_output_power_w'', PFloat 0),
     (u ''laser_temperature_c'', PFloat 0)]"

definition default_telemetry :: pydict where
  "default_telemetry = map_of default_telemetry_items"

text \<open>The dictionary literal that \<open>start_session\<close> assigns to \<open>self.telemetry\<close>.\<close>

definition session_telemetry_items :: "(pystr \<times> pyval) list" where
  "session_telemetry_items =
    [(u ''commanded_pct'', PInt 0), (u ''commanded_w'', PFloat 0), (u ''received_mw'', PFloat 0),
     (u ''efficiency_pct'', PFloat 0), (u ''link_quality_pct'', PInt 0), (u ''rtt_ms'', PFloat 0),
     (u ''granted'', PBool False), (u ''deny_reason'', PNone), (u ''grants_total'', PInt 0),
     (u ''denies_total'', PInt 0), (u ''seq'', PInt 0), (u ''voltage_mv'', PInt 0),
     (u ''current_ma'', PInt 0), (u ''soc_pct'', PFloat 0), (u ''temp_cdeg'', PInt 0),
     (u ''distance_m'', PFloat 0), (u ''roll_deg'', PFloat 0), (u ''pitch_deg'', PFloat 0),
     (u ''yaw_deg'', PFloat 0), (u ''relay_udp_to_ser_total'', PInt 0),
     (u ''relay_ser_to_udp_total'', PInt 0),
     (u ''laser_connected'', PBool False), (u ''laser_avg_power_w'', PFloat 0),
     (u ''laser_peak_power_w'', PFloat 0), (u ''laser_commanded_w'', PFloat 0),
     (u ''laser_case_temperature_c'', PFloat 0), (u ''laser_board_temperature_c'', PFloat 0),
     (u ''laser_setpoint_pct'', PFloat 0), (u ''laser_status_flags'', PDict []),
     (u ''laser_status_word'', PInt 0), (u ''laser_device_id'', PStr (u ''Unknown'')),
     (u ''laser_firmware_revision'', PStr (u ''Unknown'')),
     (u ''laser_emission_on'', PBool False), (u ''laser_power_supply_on'', PBool False),
     (u ''laser_alarm_critical'', PBool False), (u ''laser_alarm_overheat'', PBool False),
     (u ''laser_error'', PNone), (u ''laser_output_power_w'', PFloat 0),
     (u ''laser_temperature_c'', PFloat 0)]"

definition session_telemetry :: pydict where
  "session_telemetry = map_of session_telemetry_items"

text \<open>
  A freshly constructed \<open>SharedState\<close>: the field defaults of the dataclass, with the given
  hook and wall-clock time.
\<close>

definition SharedState :: "(ws_payload \<Rightarrow> py_exc option) option \<Rightarrow> real \<Rightarrow> shared_state" where
  "SharedState hook t =
     \<lparr> ws_broadcast = hook,
       status = u ''DISCONNECTED'',
       process_pids = [u ''ground'' \<mapsto> None, u ''air'' \<mapsto> None, u ''relay'' \<mapsto> None],
       session_id = None,
       scenario = u ''Unknown'',
       ramp_params = None,
       session_start_time = 0,
       telemetry = default_telemetry,
       rtt_samples = [],
       events = [],
       errors = [],
       last_telemetry_ts = 0,
       last_heartbeat_ts = 0,
       lock_held = False,
       clock = t,
       ws_sent = [] \<rparr>"

text \<open>\<open>async with lock:\<close> around a block that only changes the state.\<close>

definition with_lock :: "(shared_state \<Rightarrow> shared_state) \<Rightarrow> shared_state \<Rightarrow> shared_state" where
  "with_lock body s = (body (s\<lparr>lock_held := True\<rparr>))\<lparr>lock_held := False\<rparr>"

text \<open>
  The comparison \<open>data["rtt_ms"] > 0\<close>: defined on numbers (a \<open>bool\<close> is an \<open>int\<close>), a
  \<open>TypeError\<close> on the other values.
\<close>

fun py_num :: "pyval \<Rightarrow> real option" where
  "py_num (PInt i) = Some (real_of_int i)"
| "py_num (PFloat r) = Some r"
| "py_num (PBool b) = Some (if b then 1 else 0)"
| "py_num _ = None"

definition update_telemetry :: "pydict \<Rightarrow> shared_state \<Rightarrow> py_exc option \<times> shared_state" where
  "update_telemetry data s =
     (let s1 = s\<lparr>lock_held := True\<rparr>;
          s2 = s1\<lparr>telemetry := telemetry s1 ++ data, last_telemetry_ts := clock s1\<rparr>
      in case data (u ''rtt_ms'') of
           None \<Rightarrow> (None, s2\<lparr>lock_held := False\<rparr>)
         | Some v \<Rightarrow>
             (case py_num v of
                None \<Rightarrow> (Some (TypeError (u ''> not supported'')), s2\<lparr>lock_held := False\<rparr>)
              | Some r \<Rightarrow>
                  (None,
                   (if 0 < r then s2\<lparr>rtt_samples := deque_append 100 r (rtt_samples s2)\<rparr> else s2)
                     \<lparr>lock_held := False\<rparr>)))"

definition start_session :: "pystr \<Rightarrow> pystr \<Rightarrow> pydict \<Rightarrow> shared_state \<Rightarrow> shared_state" where
  "start_session sid scen params =
     with_lock (\<lambda>s. s\<lparr> session_id := Some sid,
                       scenario := scen,
                       ramp_params := Some params,
                       session_start_time := clock s,
                       telemetry := session_telemetry,
                       events := [],
                       rtt_samples := [],
                       errors := [] \<rparr>)"

definition get_telemetry_snapshot :: "shared_state \<Rightarrow> pydict" where
  "get_telemetry_snapshot s = telemetry s"

text \<open>
  \<open>add_event\<close>: the critical section builds and appends the event; the hook is called after
  the lock is released, inside \<open>try ... except Exception\<close>. The result carries the exception
  that leaves \<open>add_event\<close>, if any.
\<close>

definition make_event :: "pystr \<Rightarrow> pystr \<Rightarrow> pystr \<Rightarrow> pystr \<Rightarrow> shared_state \<Rightarrow> event" where
  "make_event lv sr cd m s =
     \<lparr> ts = \<lfloor>clock s * 1000\<rfloor>, level = lv, src = sr, code = cd, msg = take 200 m \<rparr>"

definition add_event ::
  "pystr \<Rightarrow> pystr \<Rightarrow> pystr \<Rightarrow> pystr \<Rightarrow> shared_state \<Rightarrow> py_exc option \<times> shared_state" where
  "add_event lv sr cd m s =
     (let ev = make_event lv sr cd m s;
          s1 = with_lock (\<lambda>s. let s' = s\<lparr>events := deque_append 500 ev (events s)\<rparr>
                               in if lv \<in> set [u ''ERROR'', u ''WARN'']
                                  then s'\<lparr>errors := deque_append 50 ev (errors s')\<rparr>
                                  else s') s
      in case ws_broadcast s1 of
           None \<Rightarrow> (None, s1)
         | Some hook \<Rightarrow>
             (let p = \<lparr> ptype = u ''event'', pevent = ev \<rparr>;
                  s2 = s1\<lparr>ws_sent := ws_sent s1 @ [(p, lock_held s1)]\<rparr>
              in case hook p of
                   None \<Rightarrow> (None, s2)
                 | Some e \<Rightarrow> (None, s2)))"

definition get_recent_events :: "int \<Rightarrow> shared_state \<Rightarrow> event list" where
  "get_recent_events count s = py_slice_from (- count) (events s)"

definition set_status :: "pystr \<Rightarrow> shared_state \<Rightarrow> py_exc option \<times> shared_state" where
  "set_status new_status s =
     (let old_status = status s;
          s1 = with_lock (\<lambda>s. s\<lparr>status := new_status\<rparr>) s
      in add_event (u ''INFO'') (u ''server'') (u ''STATUS_CHANGE'')
           (u ''Status changed from '' @ old_status @ u '' to '' @ new_status) s1)"

definition set_process_pid :: "pystr \<Rightarrow> nat option \<Rightarrow> shared_state \<Rightarrow> shared_state" where
  "set_process_pid process_name pid =
     with_lock (\<lambda>s. s\<lparr>process_pids := (process_pids s)(process_name \<mapsto> pid)\<rparr>)"

text \<open>
  \<open>update_laser_telemetry\<close>: \<open>dict.get\<close> with a default, on the decoder's dictionary. The
  status flags are themselves a dictionary; \<open>.get\<close> on another value is an
  \<open>AttributeError\<close>, of which the model keeps the message only.
\<close>

definition dict_get :: "pydict \<Rightarrow> pystr \<Rightarrow> pyval \<Rightarrow> pyval" where
  "dict_get d k dflt = (case d k of None \<Rightarrow> dflt | Some v \<Rightarrow> v)"

definition update_laser_telemetry :: "pydict \<Rightarrow> shared_state \<Rightarrow> py_exc option \<times> shared_state" where
  "update_laser_telemetry laser_data s =
     (let s1 = s\<lparr>lock_held := True\<rparr>;
          status_flags = dict_get laser_data (u ''status_flags'') (PDict [])
      in case status_flags of
           PDict fl \<Rightarrow>
             (let flags = map_of fl in
              (None,
               s1\<lparr> telemetry := telemetry s1 ++
                    [ u ''laser_connected'' \<mapsto> dict_get laser_data (u ''connected'') (PBool False),
                      u ''laser_avg_power_w'' \<mapsto> dict_get laser_data (u ''avg_power_w'') (PFloat 0),
                      u ''laser_peak_power_w'' \<mapsto> dict_get laser_data (u ''peak_power_w'') (PFloat 0),
                      u ''laser_commanded_w'' \<mapsto> dict_get laser_data (u ''commanded_w'') (PFloat 0),
                      u ''laser_case_temperature_c'' \<mapsto>
                        dict_get laser_data (u ''case_temperature_c'') (PFloat 0),
                      u ''laser_board_temperature_c'' \<mapsto>
                        dict_get laser_data (u ''board_temperature_c'') (PFloat 0),
                      u ''laser_setpoint_pct'' \<mapsto> dict_get laser_data (u ''setpoint_pct'') (PFloat 0),
                      u ''laser_status_flags'' \<mapsto> status_flags,
                      u ''laser_status_word'' \<mapsto> dict_get laser_data (u ''status_word'') (PInt 0),
                      u ''laser_device_id'' \<mapsto>
                        dict_get laser_data (u ''device_id'') (PStr (u ''Unknown'')),
                      u ''laser_firmware_revision'' \<mapsto>
                        dict_get laser_data (u ''firmware_revision'') (PStr (u ''Unknown'')),
                      u ''laser_emission_on'' \<mapsto> dict_get flags (u ''emission_on'') (PBool False),
                      u ''laser_power_supply_on'' \<mapsto>
                        dict_get flags (u ''power_supply_on'') (PBool False),
                      u ''laser_alarm_critical'' \<mapsto> dict_get flags (u ''alarm_critical'') (PBool False),
                      u ''laser_alarm_overheat'' \<mapsto> dict_get flags (u ''alarm_overheat'') (PBool False),
                      u ''laser_error'' \<mapsto> dict_get laser_data (u ''error'') PNone,
                      u ''laser_output_power_w'' \<mapsto> dict_get laser_data (u ''avg_power_w'') (PFloat 0),
                      u ''laser_temperature_c'' \<mapsto>
                        dict_get laser_data (u ''case_temperature_c'') (PFloat 0) ],
                   lock_held := False \<rparr>))
         | _ \<Rightarrow> (Some (TypeError (u ''object has no attribute get'')), s1\<lparr>lock_held := False\<rparr>))"

definition get_session_duration :: "shared_state \<Rightarrow> real" where
  "get_session_duration s =
     (if session_start_time s = 0 then 0 else clock s - session_start_time s)"

text \<open>
  \<open>numpy.percentile(a, q)\<close> with numpy's default method, which its documentation calls
  \<open>linear\<close>: the array is sorted, the percentile sits at the virtual index
  \<open>q / 100 * (n - 1)\<close>, and the result interpolates between the two neighbouring elements
  by the fractional part of that index.
\<close>

definition np_percentile :: "real list \<Rightarrow> real \<Rightarrow> real" where
  "np_percentile a q =
     (let arr = sort a;
          n = length arr;
          virtual_index = q / 100 * real (n - 1);
          j = nat \<lfloor>virtual_index\<rfloor>;
          g = virtual_index - real j;
          lo = arr ! j;
          hi = arr ! min (Suc j) (n - 1)
      in lo + (hi - lo) * g)"

definition calculate_rtt_percentiles :: "shared_state \<Rightarrow> real \<times> real" where
  "calculate_rtt_percentiles s =
     (if length (rtt_samples s) < 10 then (0, 0)
      else (let samples = rtt_samples s
            in (np_percentile samples 95, np_percentile samples 99)))"

text \<open>
  The percentile as the specification words it, linear interpolation between closest ranks:
  with the \<open>N\<close> values sorted and numbered from 1, the \<open>p\<close>-th percentile has rank
  \<open>x = p / 100 * (N - 1) + 1\<close>; its value lies between the values of ranks \<open>k = \<lfloor>x\<rfloor>\<close>
  and \<open>k + 1\<close>, at the fraction \<open>x - k\<close> of the way, and is the last value when \<open>k = N\<close>.
\<close>

definition closest_ranks_percentile :: "real list \<Rightarrow> real \<Rightarrow> real" where
  "closest_ranks_percentile xs p =
     (let v = sort xs;
          N = length v;
          x = p / 100 * (real N - 1) + 1;
          k = nat \<lfloor>x\<rfloor>;
          f = x - real_of_int \<lfloor>x\<rfloor>
      in if N \<le> k then v ! (N - 1)
         else v ! (k - 1) + f * (v ! k - v ! (k - 1)))"

text \<open>
  The states the store can be in: a constructed store, changed only by its own methods, by
  the transport layer installing its hook, and by time passing.
\<close>

inductive reachable :: "shared_state \<Rightarrow> bool" where
  r_init: "reachable (SharedState hook t)"
| r_update_telemetry: "reachable s \<Longrightarrow> reachable (snd (update_telemetry data s))"
| r_update_laser_telemetry: "reachable s \<Longrightarrow> reachable (snd (update_laser_telemetry data s))"
| r_start_session: "reachable s \<Longrightarrow> reachable (start_session sid scen params s)"
| r_add_event: "reachable s \<Longrightarrow> reachable (snd (add_event lv sr cd m s))"
| r_set_status: "reachable s \<Longrightarrow> reachable (snd (set_status st s))"
| r_set_process_pid: "reachable s \<Longrightarrow> reachable (set_process_pid name pid s)"
| r_set_hook: "reachable s \<Longrightarrow> reachable (s\<lparr>ws_broadcast := hook\<rparr>)"
| r_tick: "reachable s \<Longrightarrow> reachable (s\<lparr>clock := t\<rparr>)"

section \<open>Regular expressions of the line decoders\<close>

text \<open>
  The patterns of \<open>parsers.py\<close> use literals, the classes \<open>\s\<close>, \<open>\d\<close>, \<open>\w\<close>,
  \<open>[\d.]\<close> and \<open>[-\d.]\<close> under the greedy quantifiers \<open>*\<close>, \<open>+\<close> and \<open>?\<close>, named groups,
  optional non-capturing groups and one alternation. They are kept as data, and matched
  the way \<open>re\<close> matches: leftmost, each quantifier taking as much as it can and giving back
  on failure. The classes are the ASCII ones, which is the text the role processes print;
  the degree sign and the check marks occur as literals only.
\<close>

datatype cls = Space | Digit | Word | DigitDot | SignDigitDot

fun in_cls :: "cls \<Rightarrow> nat \<Rightarrow> bool" where
  "in_cls Space c = (c = 32 \<or> (9 \<le> c \<and> c \<le> 13))"
| "in_cls Digit c = (48 \<le> c \<and> c \<le> 57)"
| "in_cls Word c = ((48 \<le> c \<and> c \<le> 57) \<or> (65 \<le> c \<and> c \<le> 90) \<or> (97 \<le> c \<and> c \<le> 122) \<or> c = 95)"
| "in_cls DigitDot c = ((48 \<le> c \<and> c \<le> 57) \<or> c = 46)"
| "in_cls SignDigitDot c = (c = 45 \<or> (48 \<le> c \<and> c \<le> 57) \<or> c = 46)"

text \<open>
  \<open>Rep c n\<close> is the class \<open>c\<close> repeated at least \<open>n\<close> times (\<open>c*\<close> is \<open>Rep c 0\<close>, \<open>c+\<close> is
  \<open>Rep c 1\<close>), \<open>One c\<close> a single character of the class, \<open>Grp name r\<close> the group
  \<open>(?P<name>r)\<close>, \<open>Opt r\<close> the group \<open>(?:r)?\<close>, \<open>Alt r1 r2\<close> the choice \<open>r1|r2\<close>. \<open>Begin\<close> and
  \<open>End\<close> mark the two ends of a group while it is being matched.
\<close>

datatype rx =
    Lit pystr
  | Rep cls nat
  | One cls
  | Grp string "rx list"
  | Opt "rx list"
  | Alt "rx list" "rx list"
  | Begin string
  | End string

fun weight :: "rx \<Rightarrow> nat" where
  "weight (Grp n r) = 3 + sum_list (map weight r)"
| "weight (Opt r) = 1 + sum_list (map weight r)"
| "weight (Alt r1 r2) = 1 + sum_list (map weight r1) + sum_list (map weight r2)"
| "weight _ = 1"

text \<open>
  A match in progress: the groups closed so far with their text, and for each group that
  is open the input that was left when it opened.
\<close>

record captures =
  closed :: "(string \<times> pystr) list"
  opened :: "(string \<times> pystr) list"

definition close_group :: "string \<Rightarrow> pystr \<Rightarrow> captures \<Rightarrow> captures" where
  "close_group n s c =
     (case map_of (opened c) n of
        None \<Rightarrow> c
      | Some start \<Rightarrow> c\<lparr>closed := (n, take (length start - length s) start) # closed c\<rparr>)"

function rx_match :: "rx list \<Rightarrow> pystr \<Rightarrow> captures \<Rightarrow> captures option" where
  "rx_match [] s c = Some c"
| "rx_match (Lit l # rs) s c =
     (if take (length l) s = l then rx_match rs (drop (length l) s) c else None)"
| "rx_match (Rep k n # rs) s c =
     (case s of
        [] \<Rightarrow> (if n = 0 then rx_match rs s c else None)
      | x # t \<Rightarrow>
          (if in_cls k x
           then (case rx_match (Rep k (n - 1) # rs) t c of
                   Some c' \<Rightarrow> Some c'
                 | None \<Rightarrow> (if n = 0 then rx_match rs s c else None))
           else (if n = 0 then rx_match rs s c else None)))"
| "rx_match (One k # rs) s c =
     (case s of
        [] \<Rightarrow> None
      | x # t \<Rightarrow> (if in_cls k x then rx_match rs t c else None))"
| "rx_match (Grp n r # rs) s c = rx_match (Begin n # r @ End n # rs) s c"
| "rx_match (Opt r # rs) s c =
     (case rx_match (r @ rs) s c of
        Some c' \<Rightarrow> Some c'
      | None \<Rightarrow> rx_match rs s c)"
| "rx_match (Alt r1 r2 # rs) s c =
     (case rx_match (r1 @ rs) s c of
        Some c' \<Rightarrow> Some c'
      | None \<Rightarrow> rx_match (r2 @ rs) s c)"
| "rx_match (Begin n # rs) s c = rx_match rs s (c\<lparr>opened := (n, s) # opened c\<rparr>)"
| "rx_match (End n # rs) s c = rx_match rs s (close_group n s c)"
  by pat_completeness auto
termination
  by (relation "measures [\<lambda>(rs, s, c). sum_list (map weight rs), \<lambda>(rs, s, c). length s]") auto

text \<open>\<open>pattern.search(line)\<close>: the first position of the line at which the pattern matches.\<close>

fun rx_search :: "rx list \<Rightarrow> pystr \<Rightarrow> captures option" where
  "rx_search r [] = rx_match r [] \<lparr>closed = [], opened = []\<rparr>"
| "rx_search r (x # t) =
     (case rx_match r (x # t) \<lparr>closed = [], opened = []\<rparr> of
        Some c \<Rightarrow> Some c
      | None \<Rightarrow> rx_search r t)"

text \<open>\<open>match.group(name)\<close>: the text of the group, \<open>None\<close> when the group took no part.\<close>

definition group :: "captures \<Rightarrow> string \<Rightarrow> pystr option" where
  "group m n = map_of (closed m) n"

section \<open>Conversions\<close>

text \<open>\<open>str(n)\<close> of an integer, as the f-strings print it.\<close>

fun digits_of :: "nat \<Rightarrow> pystr" where
  "digits_of n = (if n < 10 then [48 + n] else digits_of (n div 10) @ [48 + n mod 10])"

declare digits_of.simps [simp del]

definition str_int :: "int \<Rightarrow> pystr" where
  "str_int i = (if i < 0 then 45 # digits_of (nat (- i)) else digits_of (nat i))"

text \<open>
  \<open>int(s)\<close> and \<open>float(s)\<close> on what a group hands them: \<open>None\<close> is a \<open>TypeError\<close>, text
  that is not a number a \<open>ValueError\<close>. The text of a group is made of ASCII digits, dots
  and minus signs, on which \<open>int\<close> accepts a sign and digits, and \<open>float\<close> a sign and
  digits with at most one dot and at least one digit. \<open>int\<close> refuses more than 4300 digits
  (the default of \<open>sys.set_int_max_str_digits\<close>) with a \<open>ValueError\<close> of its own. \<open>float\<close>
  refuses no number: beyond the range of a double it returns \<open>inf\<close>, where the model keeps
  the real number.
\<close>

definition digit_val :: "pystr \<Rightarrow> nat" where
  "digit_val ds = foldl (\<lambda>acc d. 10 * acc + (d - 48)) 0 ds"

definition all_digits :: "pystr \<Rightarrow> bool" where
  "all_digits ds = list_all (in_cls Digit) ds"

definition unsigned_int :: "pystr \<Rightarrow> int option" where
  "unsigned_int ds = (if ds \<noteq> [] \<and> all_digits ds then Some (int (digit_val ds)) else None)"

definition int_max_str_digits :: nat where
  "int_max_str_digits = 4300"

definition py_int :: "pystr option \<Rightarrow> py_exc + int" where
  "py_int g =
     (case g of
        None \<Rightarrow> Inl (TypeError (u ''int() argument must be a string''))
      | Some s \<Rightarrow>
          (let ds = (case s of [] \<Rightarrow> [] | x # t \<Rightarrow> (if x = 45 \<or> x = 43 then t else s))
           in if all_digits ds \<and> int_max_str_digits < length ds
              then Inl (ValueError
                     (u ''Exceeds the limit (4300 digits) for integer string conversion: value has '' @
                      str_int (int (length ds)) @
                      u '' digits; use sys.set_int_max_str_digits() to increase the limit''))
              else
                (case (case s of
                         [] \<Rightarrow> None
                       | x # t \<Rightarrow> (if x = 45 then map_option uminus (unsigned_int t)
                                   else if x = 43 then unsigned_int t
                                   else unsigned_int s)) of
                   None \<Rightarrow>
                     Inl (ValueError
                            (u ''invalid literal for int() with base 10: '' @ [39] @ s @ [39]))
                 | Some i \<Rightarrow> Inr i)))"

definition unsigned_float :: "pystr \<Rightarrow> real option" where
  "unsigned_float s =
     (let ip = takeWhile (in_cls Digit) s;
          rest = dropWhile (in_cls Digit) s
      in case rest of
           [] \<Rightarrow> (if ip = [] then None else Some (real (digit_val ip)))
         | x # fp \<Rightarrow>
             (if x = 46 \<and> all_digits fp \<and> (ip \<noteq> [] \<or> fp \<noteq> [])
              then Some (real (digit_val ip) + real (digit_val fp) / 10 ^ length fp)
              else None))"

definition py_float :: "pystr option \<Rightarrow> py_exc + real" where
  "py_float g =
     (case g of
        None \<Rightarrow> Inl (TypeError (u ''float() argument must be a string''))
      | Some s \<Rightarrow>
          (case (case s of
                   [] \<Rightarrow> None
                 | x # t \<Rightarrow> (if x = 45 then map_option uminus (unsigned_float t)
                             else if x = 43 then unsigned_float t
                             else unsigned_float s)) of
             None \<Rightarrow> Inl (ValueError (u ''could not convert string to float: '' @ [39] @ s @ [39]))
           | Some r \<Rightarrow> Inr r))"

text \<open>The truth value of \<open>match.group(name)\<close> in an \<open>if\<close>: a group that matched text.\<close>

definition truthy :: "pystr option \<Rightarrow> bool" where
  "truthy g = (case g of None \<Rightarrow> False | Some s \<Rightarrow> s \<noteq> [])"

text \<open>Sequencing of conversions that may raise.\<close>

definition then_exc :: "py_exc + 'a \<Rightarrow> ('a \<Rightarrow> py_exc + 'b) \<Rightarrow> py_exc + 'b" where
  "then_exc r f = (case r of Inl e \<Rightarrow> Inl e | Inr x \<Rightarrow> f x)"

text \<open>A group that is mandatory in its pattern, used as text in an f-string.\<close>

definition group_str :: "captures \<Rightarrow> string \<Rightarrow> pystr" where
  "group_str m n = (case group m n of None \<Rightarrow> u ''None'' | Some s \<Rightarrow> s)"

section \<open>The ground decoder (GroundParser)\<close>

definition ground_telemetry_pattern :: "rx list" where
  "ground_telemetry_pattern =
     [Lit (u ''[''), Rep Space 0, Grp ''pct'' [Rep Digit 1], Lit (u ''%]''),
      Rep Space 1, Lit (u ''Cmd:''), Rep Space 0, Grp ''cmd_w'' [Rep DigitDot 1], Lit (u ''W''),
      Rep Space 1, Lit (u ''|''), Rep Space 1, Lit (u ''Rcv:''), Rep Space 0,
        Grp ''rcv_mw'' [Rep DigitDot 1], Lit (u ''mW''),
      Rep Space 1, Lit (u ''|''), Rep Space 1, Lit (u ''Eff:''), Rep Space 0,
        Grp ''eff'' [Rep DigitDot 1], Lit (u ''%''),
      Rep Space 1, Lit (u ''|''), Rep Space 1, Lit (u ''LQ:''), Rep Space 0,
        Grp ''lq'' [Rep Digit 1], Lit (u ''%''),
      Rep Space 1, Lit (u ''|''), Rep Space 1, Lit (u ''RTT:''), Rep Space 0,
        Grp ''rtt'' [Rep DigitDot 1], Lit (u ''ms''),
      Rep Space 1, Lit (u ''|''), Rep Space 1, Lit (u ''G/D:''), Rep Space 0,
        Grp ''grants'' [Rep Digit 1], Lit (u ''/''), Grp ''denies'' [Rep Digit 1],
      Opt [Rep Space 1, Lit (u ''(''), Grp ''grant_rate'' [Rep DigitDot 1], Lit (u ''%)'')],
      Opt [Rep Space 1, Lit (u ''|''), Rep Space 1, Lit (u ''d=''),
           Grp ''dist'' [Rep DigitDot 1], Lit (u ''m'')],
      Opt [Rep Space 1, Lit (u ''r=''), Grp ''roll'' [Rep SignDigitDot 1], Lit [176]],
      Opt [Rep Space 1, Lit (u ''p=''), Grp ''pitch'' [Rep SignDigitDot 1], Lit [176]]]"

definition ground_deny_pattern :: "rx list" where
  "ground_deny_pattern =
     [Lit (u ''DENY received:''), Rep Space 1,
      Lit (u ''seq=''), Grp ''seq'' [Rep Digit 1], Rep Space 1,
      Lit (u ''reason=''), Grp ''reason'' [Rep Word 1]]"

definition ramp_level_pattern :: "rx list" where
  "ramp_level_pattern =
     [Lit (u ''[RAMP]''), Rep Space 1, Lit (u ''Level''), Rep Space 1,
      Grp ''current'' [Rep Digit 1], Lit (u ''/''), Grp ''total'' [Rep Digit 1], Lit (u '':''),
      Rep Space 1, Grp ''pct'' [Rep Digit 1], Lit (u ''%'')]"

definition battery_pattern :: "rx list" where
  "battery_pattern =
     [Lit (u ''BAT:''), Grp ''voltage'' [Rep Digit 1], Lit (u ''mV''), Rep Space 1,
      Grp ''current'' [Opt [Lit (u ''-'')], Rep Digit 1], Lit (u ''mA''), Rep Space 1,
      Grp ''temp'' [Rep Digit 1], Lit (u ''cdeg'')]"

text \<open>
  The dictionary \<open>data\<close> that the telemetry branch builds from a match: the eight mandatory
  fields, then each of distance, roll and pitch whose group matched. A conversion that
  raises ends the branch before anything is merged.
\<close>

definition ground_telemetry_data :: "captures \<Rightarrow> py_exc + pydict" where
  "ground_telemetry_data m =
     then_exc (py_int (group m ''pct'')) (\<lambda>pct.
     then_exc (py_float (group m ''cmd_w'')) (\<lambda>cmd_w.
     then_exc (py_float (group m ''rcv_mw'')) (\<lambda>rcv_mw.
     then_exc (py_float (group m ''eff'')) (\<lambda>eff.
     then_exc (py_int (group m ''lq'')) (\<lambda>lq.
     then_exc (py_float (group m ''rtt'')) (\<lambda>rtt.
     then_exc (py_int (group m ''grants'')) (\<lambda>grants.
     then_exc (py_int (group m ''denies'')) (\<lambda>denies.
     let data = [ u ''commanded_pct'' \<mapsto> PInt pct,
                  u ''commanded_w'' \<mapsto> PFloat cmd_w,
                  u ''received_mw'' \<mapsto> PFloat rcv_mw,
                  u ''efficiency_pct'' \<mapsto> PFloat eff,
                  u ''link_quality_pct'' \<mapsto> PInt lq,
                  u ''rtt_ms'' \<mapsto> PFloat rtt,
                  u ''grants_total'' \<mapsto> PInt grants,
                  u ''denies_total'' \<mapsto> PInt denies ]
     in
     then_exc (if truthy (group m ''dist'')
               then then_exc (py_float (group m ''dist'')) (\<lambda>d. Inr (data(u ''distance_m'' \<mapsto> PFloat d)))
               else Inr data) (\<lambda>data.
     then_exc (if truthy (group m ''roll'')
               then then_exc (py_float (group m ''roll'')) (\<lambda>r. Inr (data(u ''roll_deg'' \<mapsto> PFloat r)))
               else Inr data) (\<lambda>data.
     (if truthy (group m ''pitch'')
      then then_exc (py_float (group m ''pitch'')) (\<lambda>p. Inr (data(u ''pitch_deg'' \<mapsto> PFloat p)))
      else Inr data)))))))))))"

text \<open>The integer stored under a key of \<open>data\<close> (\<open>data["grants_total"]\<close>).\<close>

definition int_item :: "pydict \<Rightarrow> pystr \<Rightarrow> int" where
  "int_item d k = (case d k of Some (PInt i) \<Rightarrow> i | _ \<Rightarrow> 0)"

definition ground_parse_line :: "pystr \<Rightarrow> shared_state \<Rightarrow> py_exc option \<times> shared_state" where
  "ground_parse_line line s =
     (case rx_search ground_telemetry_pattern line of
        Some m \<Rightarrow>
          (case ground_telemetry_data m of
             Inl e \<Rightarrow> (Some e, s)
           | Inr data \<Rightarrow>
               (case update_telemetry data s of
                  (Some e, s1) \<Rightarrow> (Some e, s1)
                | (None, s1) \<Rightarrow>
                    (let grants = int_item data (u ''grants_total'');
                         denies = int_item data (u ''denies_total'');
                         total' = grants + denies
                     in if 0 < total'
                        then update_telemetry
                               [u ''grant_rate_pct'' \<mapsto>
                                  PFloat (real_of_int grants / real_of_int total' * 100)] s1
                        else (None, s1))))
      | None \<Rightarrow>
     (case rx_search ground_deny_pattern line of
        Some m \<Rightarrow>
          add_event (u ''WARN'') (u ''ground'') (u ''DENY_RECEIVED'')
            (u ''Seq '' @ group_str m ''seq'' @ u '': '' @ group_str m ''reason'') s
      | None \<Rightarrow>
     (case rx_search ramp_level_pattern line of
        Some m \<Rightarrow>
          (case then_exc (py_int (group m ''current'')) (\<lambda>current.
                then_exc (py_int (group m ''total'')) (\<lambda>total'.
                then_exc (py_int (group m ''pct'')) (\<lambda>pct. Inr (current, total')))) of
             Inl e \<Rightarrow> (Some e, s)
           | Inr (current, total') \<Rightarrow>
               update_telemetry
                 [ u ''ramp_level_current'' \<mapsto> PInt current,
                   u ''ramp_level_total'' \<mapsto> PInt total',
                   u ''ramp_level_str'' \<mapsto> PStr (str_int current @ u ''/'' @ str_int total') ] s)
      | None \<Rightarrow>
     (case rx_search battery_pattern line of
        Some m \<Rightarrow>
          (case then_exc (py_int (group m ''voltage'')) (\<lambda>voltage.
                then_exc (py_int (group m ''current'')) (\<lambda>current.
                then_exc (py_int (group m ''temp'')) (\<lambda>temp. Inr (voltage, current, temp)))) of
             Inl e \<Rightarrow> (Some e, s)
           | Inr (voltage, current, temp) \<Rightarrow>
               update_telemetry
                 [ u ''voltage_mv'' \<mapsto> PInt voltage,
                   u ''current_ma'' \<mapsto> PInt current,
                   u ''temp_cdeg'' \<mapsto> PInt temp ] s)
      | None \<Rightarrow> (None, s)))))"

section \<open>The air decoder (AirParser)\<close>

text \<open>The state of an \<open>AirParser\<close>: the throttle of its GRANT events.\<close>

record air_parser =
  last_grant_event_time :: real
  grant_event_throttle_seconds :: real

definition AirParser :: air_parser where
  "AirParser = \<lparr> last_grant_event_time = 0, grant_event_throttle_seconds = 5 \<rparr>"

definition grant_pattern :: "rx list" where
  "grant_pattern =
     [Lit ([10003] @ u '' GRANT''), Rep Space 1,
      Lit (u ''seq=''), Grp ''seq'' [Rep Digit 1], Rep Space 1, Lit (u ''|''), Rep Space 1,
      Lit (u ''Cmd:''), Grp ''cmd_w'' [Rep DigitDot 1], Lit (u ''W''),
        Rep Space 1, Lit (u ''|''), Rep Space 1,
      Lit (u ''Rcv:''), Grp ''rcv_mw'' [Rep DigitDot 1], Lit (u ''mW''),
        Rep Space 1, Lit (u ''|''), Rep Space 1,
      Lit (u ''Eff:''), Grp ''eff'' [Rep DigitDot 1], Lit (u ''%''),
        Rep Space 1, Lit (u ''|''), Rep Space 1,
      Lit (u ''d=''), Grp ''dist'' [Rep DigitDot 1], Lit (u ''m''),
        Rep Space 1, Lit (u ''|''), Rep Space 1,
      Lit (u ''r=''), Grp ''roll'' [Rep SignDigitDot 1], Lit [176], Rep Space 1,
      Lit (u ''p=''), Grp ''pitch'' [Rep SignDigitDot 1], Lit [176]]"

definition air_deny_pattern :: "rx list" where
  "air_deny_pattern =
     [Lit ([10007] @ u '' DENY''), Rep Space 1,
      Lit (u ''seq=''), Grp ''seq'' [Rep Digit 1], Rep Space 1, Lit (u ''|''), Rep Space 1,
      Grp ''reason'' [Rep Word 1], Rep Space 1, Lit (u ''|''), Rep Space 1,
      Lit (u ''r=''), Grp ''roll'' [Rep SignDigitDot 1], Lit [176], Rep Space 1,
      Lit (u ''p=''), Grp ''pitch'' [Rep SignDigitDot 1], Lit [176],
      Opt [Rep Space 1, Lit (u ''|''), Rep Space 1, Lit (u ''att_err=''),
           Grp ''att_err'' [Rep DigitDot 1], Lit [176]]]"

definition px4_gate_pattern :: "rx list" where
  "px4_gate_pattern =
     [Lit (u ''PX4 gate:''), Rep Space 1,
      Lit (u ''hb=''), Grp ''hb'' [One Digit], Rep Space 1,
      Lit (u ''armed=''), Grp ''armed'' [One Digit], Rep Space 1,
      Lit (u ''ekf=''), Grp ''ekf'' [One Digit], Rep Space 1,
      Lit (u ''cone=''), Grp ''cone'' [One Digit]]"

definition px4_alt_pattern :: "rx list" where
  "px4_alt_pattern =
     [Lit (u ''[air]''), Rep Space 1, Lit (u ''PX4''), Rep Space 1, Lit (u ''ALT''), Rep Space 1,
      Lit (u ''rel=''), Grp ''rel'' [Rep SignDigitDot 1], Lit (u ''m'')]"

definition px4_bat_pattern :: "rx list" where
  "px4_bat_pattern =
     [Lit (u ''[air]''), Rep Space 1, Lit (u ''PX4''), Rep Space 1, Lit (u ''BAT''), Rep Space 1,
      Lit (u ''V=''), Grp ''v'' [Rep Digit 1], Lit (u ''mV''), Rep Space 1,
      Lit (u ''I=''), Grp ''i'' [Opt [Lit (u ''-'')], Rep Digit 1], Lit (u ''mA''), Rep Space 1,
      Lit (u ''rem=''), Grp ''rem'' [Opt [Lit (u ''-'')], Rep Digit 1], Lit (u ''%'')]"

definition home_set_pattern :: "rx list" where
  "home_set_pattern =
     [Lit (u ''[air]''), Rep Space 1, Lit (u ''Home''), Rep Space 1, Lit (u ''set:''), Rep Space 1,
      Grp ''lat'' [Rep SignDigitDot 1], Lit (u '',''), Rep Space 1,
      Grp ''lon'' [Rep SignDigitDot 1]]"

text \<open>The dictionary \<open>data\<close> of the GRANT branch, in the order the literal evaluates.\<close>

definition grant_data :: "captures \<Rightarrow> py_exc + pydict" where
  "grant_data m =
     then_exc (py_float (group m ''dist'')) (\<lambda>dist.
     then_exc (py_float (group m ''roll'')) (\<lambda>roll.
     then_exc (py_float (group m ''pitch'')) (\<lambda>pitch.
     then_exc (py_int (group m ''seq'')) (\<lambda>seq.
       Inr [ u ''granted'' \<mapsto> PBool True,
             u ''deny_reason'' \<mapsto> PNone,
             u ''distance_m'' \<mapsto> PFloat dist,
             u ''roll_deg'' \<mapsto> PFloat roll,
             u ''pitch_deg'' \<mapsto> PFloat pitch,
             u ''seq'' \<mapsto> PInt seq ]))))"

text \<open>
  \<open>(roll**2 + pitch**2)**0.5\<close>. \<open>float_max\<close> is the largest double. \<open>x**2\<close> raises
  \<open>OverflowError\<close> when \<open>x\<close> is finite and its square is beyond the doubles; the square of
  \<open>inf\<close>, which \<open>float\<close> returns for a number beyond the doubles, is \<open>inf\<close>. The sum and
  the square root raise nothing: a sum beyond the doubles is \<open>inf\<close>, and so is its root.
\<close>

definition float_max :: real where
  "float_max = 2 ^ 1024 - 2 ^ 971"

definition float_square :: "real \<Rightarrow> py_exc + real" where
  "float_square x =
     (if \<bar>x\<bar> \<le> float_max \<and> float_max < x\<^sup>2
      then Inl (OverflowError (u ''(34, '' @ [39] @ u ''Numerical result out of range'' @ [39] @ u '')''))
      else Inr (x\<^sup>2))"

definition attitude_error :: "real \<Rightarrow> real \<Rightarrow> py_exc + real" where
  "attitude_error roll pitch =
     then_exc (float_square roll) (\<lambda>roll2.
     then_exc (float_square pitch) (\<lambda>pitch2. Inr (sqrt (roll2 + pitch2))))"

definition deny_data :: "captures \<Rightarrow> py_exc + pydict" where
  "deny_data m =
     then_exc (py_float (group m ''roll'')) (\<lambda>roll.
     then_exc (py_float (group m ''pitch'')) (\<lambda>pitch.
     then_exc (py_int (group m ''seq'')) (\<lambda>seq.
       Inr [ u ''granted'' \<mapsto> PBool False,
             u ''deny_reason'' \<mapsto> PStr (group_str m ''reason''),
             u ''roll_deg'' \<mapsto> PFloat roll,
             u ''pitch_deg'' \<mapsto> PFloat pitch,
             u ''seq'' \<mapsto> PInt seq ])))"

definition air_parse_line ::
  "pystr \<Rightarrow> air_parser \<times> shared_state \<Rightarrow> py_exc option \<times> air_parser \<times> shared_state" where
  "air_parse_line line ps =
     (let self = fst ps; s = snd ps in
      case rx_search grant_pattern line of
        Some m \<Rightarrow>
          (case grant_data m of
             Inl e \<Rightarrow> (Some e, self, s)
           | Inr data \<Rightarrow>
               (case update_telemetry data s of
                  (Some e, s1) \<Rightarrow> (Some e, self, s1)
                | (None, s1) \<Rightarrow>
                    (case then_exc (py_float (group m ''roll'')) (\<lambda>roll.
                          then_exc (py_float (group m ''pitch'')) (\<lambda>pitch. Inr (roll, pitch))) of
                       Inl e \<Rightarrow> (Some e, self, s1)
                     | Inr (roll, pitch) \<Rightarrow>
                         (case attitude_error roll pitch of
                            Inl e \<Rightarrow> (Some e, self, s1)
                          | Inr att \<Rightarrow>
                         (case update_telemetry [u ''cone_violation'' \<mapsto> PBool (12 < att)] s1 of
                            (Some e, s2) \<Rightarrow> (Some e, self, s2)
                          | (None, s2) \<Rightarrow>
                              (let current_time = clock s2;
                                   time_since_last_event = current_time - last_grant_event_time self
                               in if grant_event_throttle_seconds self \<le> time_since_last_event
                                  then (case add_event (u ''INFO'') (u ''air'') (u ''GRANT'')
                                               (u ''Seq '' @ group_str m ''seq'' @ u '': '' @
                                                group_str m ''cmd_w'' @ u ''W @ '' @
                                                group_str m ''dist'' @ u ''m'') s2 of
                                          (e, s3) \<Rightarrow>
                                            (e, self\<lparr>last_grant_event_time := current_time\<rparr>, s3))
                                  else (None, self, s2)))))))
      | None \<Rightarrow>
     (case rx_search air_deny_pattern line of
        Some m \<Rightarrow>
          (case deny_data m of
             Inl e \<Rightarrow> (Some e, self, s)
           | Inr data \<Rightarrow>
               (case update_telemetry data s of
                  (Some e, s1) \<Rightarrow> (Some e, self, s1)
                | (None, s1) \<Rightarrow>
                    (case (if truthy (group m ''att_err'')
                           then (case py_float (group m ''att_err'') of
                                   Inl e \<Rightarrow> (Some e, s1)
                                 | Inr att \<Rightarrow>
                                     update_telemetry [u ''cone_violation'' \<mapsto> PBool (12 < att)] s1)
                           else (None, s1)) of
                       (Some e, s2) \<Rightarrow> (Some e, self, s2)
                     | (None, s2) \<Rightarrow>
                         (let msg0 = u ''Seq '' @ group_str m ''seq'' @ u '': '' @ group_str m ''reason'';
                              msg1 = (if truthy (group m ''att_err'')
                                      then msg0 @ u '' (attitude '' @ group_str m ''att_err'' @
                                           [176] @ u '' > cone)''
                                      else msg0)
                          in case add_event (u ''WARN'') (u ''air'') (group_str m ''reason'') msg1 s2 of
                               (e, s3) \<Rightarrow> (e, self, s3)))))
      | None \<Rightarrow>
     (case rx_search px4_alt_pattern line of
        Some m \<Rightarrow>
          (case py_float (group m ''rel'') of
             Inl e \<Rightarrow> (Some e, self, s)
           | Inr rel \<Rightarrow>
               (case update_telemetry [u ''rel_alt_m'' \<mapsto> PFloat rel] s of
                  (e, s1) \<Rightarrow> (e, self, s1)))
      | None \<Rightarrow>
     (case rx_search px4_bat_pattern line of
        Some m \<Rightarrow>
          (case then_exc (py_int (group m ''v'')) (\<lambda>vbatt.
                then_exc (py_int (group m ''i'')) (\<lambda>ibatt.
                then_exc (py_int (group m ''rem'')) (\<lambda>rem. Inr (vbatt, ibatt, rem)))) of
             Inl e \<Rightarrow> (Some e, self, s)
           | Inr (vbatt, ibatt, rem) \<Rightarrow>
               (case update_telemetry
                       [ u ''voltage_mv'' \<mapsto> PInt vbatt,
                         u ''current_ma'' \<mapsto> PInt ibatt,
                         u ''battery_remaining_pct'' \<mapsto> (if rem < 0 then PNone else PInt rem) ] s of
                  (e, s1) \<Rightarrow> (e, self, s1)))
      | None \<Rightarrow>
     (case rx_search home_set_pattern line of
        Some m \<Rightarrow>
          (case then_exc (py_float (group m ''lat'')) (\<lambda>home_lat.
                then_exc (py_float (group m ''lon'')) (\<lambda>home_lon. Inr (home_lat, home_lon))) of
             Inl e \<Rightarrow> (Some e, self, s)
           | Inr (home_lat, home_lon) \<Rightarrow>
               (case update_telemetry
                       [ u ''home_lat_deg'' \<mapsto> PFloat home_lat,
                         u ''home_lon_deg'' \<mapsto> PFloat home_lon ] s of
                  (e, s1) \<Rightarrow> (e, self, s1)))
      | None \<Rightarrow>
     (case rx_search px4_gate_pattern line of
        Some m \<Rightarrow>
          (if group m ''cone'' = Some (u ''0'')
           then (case add_event (u ''WARN'') (u ''air'') (u ''PX4_CONE_VIOLATION'')
                        (u ''Attitude outside '' @ [177] @ u ''12'' @ [176] @ u '' cone'') s of
                   (e, s1) \<Rightarrow> (e, self, s1))
           else (None, self, s))
      | None \<Rightarrow> (None, self, s)))))))"

section \<open>The relay decoder (RelayParser)\<close>

record relay_parser =
  last_event_time :: real
  event_throttle_seconds :: real

definition RelayParser :: relay_parser where
  "RelayParser = \<lparr> last_event_time = 0, event_throttle_seconds = 5 \<rparr>"

definition counter_pattern :: "rx list" where
  "counter_pattern =
     [Grp ''direction'' [Alt [Lit (u ''UDP->SER'')] [Lit (u ''SER->UDP'')]], Lit (u '':''),
        Rep Space 1,
      Lit (u ''queue=''), Grp ''queue'' [Rep Digit 1], Rep Space 1,
      Lit (u ''total=''), Grp ''total'' [Rep Digit 1], Rep Space 1,
      Lit (u ''last=''), Grp ''msg_type'' [Rep Word 1]]"

definition drop_pattern :: "rx list" where
  "drop_pattern = [Lit (u ''Dropped packet:''), Rep Space 1, Grp ''msg_type'' [Rep Word 1]]"

text \<open>\<open>p in s\<close> on strings.\<close>

fun contains :: "pystr \<Rightarrow> pystr \<Rightarrow> bool" where
  "contains p [] = (p = [])"
| "contains p (x # t) = (take (length p) (x # t) = p \<or> contains p t)"

definition relay_parse_line ::
  "pystr \<Rightarrow> relay_parser \<times> shared_state \<Rightarrow> py_exc option \<times> relay_parser \<times> shared_state" where
  "relay_parse_line line ps =
     (let self = fst ps; s = snd ps in
      case rx_search counter_pattern line of
        Some m \<Rightarrow>
          (let direction = group_str m ''direction'' in
           case then_exc (py_int (group m ''queue'')) (\<lambda>queue.
                then_exc (py_int (group m ''total'')) (\<lambda>total'. Inr (queue, total'))) of
             Inl e \<Rightarrow> (Some e, self, s)
           | Inr (queue, total') \<Rightarrow>
               (let msg_type = group_str m ''msg_type'';
                    key_prefix = (if contains (u ''UDP->SER'') direction
                                  then u ''relay_udp_to_ser'' else u ''relay_ser_to_udp'')
                in case update_telemetry
                          [ key_prefix @ u ''_total'' \<mapsto> PInt total',
                            key_prefix @ u ''_queue'' \<mapsto> PInt queue,
                            key_prefix @ u ''_last_msg'' \<mapsto> PStr msg_type ] s of
                     (Some e, s1) \<Rightarrow> (Some e, self, s1)
                   | (None, s1) \<Rightarrow>
                       (let current_time = clock s1;
                            time_since_last_event = current_time - last_event_time self;
                            throttled =
                              (if event_throttle_seconds self \<le> time_since_last_event
                               then (case add_event (u ''INFO'') (u ''relay'') msg_type
                                            (u ''[mav_relay] '' @ direction @ u '': queue='' @
                                             str_int queue @ u '' total='' @ str_int total' @
                                             u '' last='' @ msg_type) s1 of
                                       (e, s2) \<Rightarrow> (e, self\<lparr>last_event_time := current_time\<rparr>, s2))
                               else (None, self, s1))
                        in case throttled of
                             (Some e, self1, s2) \<Rightarrow> (Some e, self1, s2)
                           | (None, self1, s2) \<Rightarrow>
                               (if 20 < queue
                                then (case add_event (u ''WARN'') (u ''relay'') (u ''HIGH_QUEUE_DEPTH'')
                                             (direction @ u '' queue depth: '' @ str_int queue) s2 of
                                        (e, s3) \<Rightarrow> (e, self1, s3))
                                else (None, self1, s2)))))
      | None \<Rightarrow>
     (case rx_search drop_pattern line of
        Some m \<Rightarrow>
          (case add_event (u ''INFO'') (u ''relay'') (u ''PACKET_DROPPED'')
                  (u ''Dropped: '' @ group_str m ''msg_type'' @ u '' (drill simulation)'') s of
             (e, s1) \<Rightarrow> (e, self, s1))
      | None \<Rightarrow> (None, self, s)))"

section \<open>Example lines\<close>

text \<open>
  The ground telemetry line and the air GRANT line of the specification's testable
  properties (the lines of \<open>test_parsers\<close>), a ground line with 9 grants and 1 deny, a GRANT
  line with roll and pitch of 10 degrees, and for each decoder a line that its pattern
  matches although one captured number has two dots.
\<close>

definition ground_example_line :: pystr where
  "ground_example_line =
     u ''[ 45%] Cmd:225.0W | Rcv:45000.0mW | Eff:20.0% | LQ:92% | RTT:34.5ms | G/D:450/89 (83%) | d=42.1m r=35.2''
       @ [176] @ u '' p=-8.1'' @ [176]"

definition ground_nine_one_line :: pystr where
  "ground_nine_one_line =
     u ''[ 10%] Cmd:50.0W | Rcv:1000.0mW | Eff:2.0% | LQ:100% | RTT:12.0ms | G/D:9/1''"

definition ground_two_dots_line :: pystr where
  "ground_two_dots_line =
     u ''[ 45%] Cmd:1.2.3W | Rcv:45000.0mW | Eff:20.0% | LQ:92% | RTT:34.5ms | G/D:450/89''"

definition air_example_line :: pystr where
  "air_example_line =
     u ''[air] '' @ [10003] @
     u '' GRANT seq=123 | Cmd:100W | Rcv:40000.0mW | Eff:40.0% | d=50.0m | r=0.0'' @ [176] @
     u '' p=0.0'' @ [176]"

definition air_tilted_line :: pystr where
  "air_tilted_line =
     u ''[air] '' @ [10003] @
     u '' GRANT seq=124 | Cmd:100W | Rcv:40000.0mW | Eff:40.0% | d=50.0m | r=10.0'' @ [176] @
     u '' p=10.0'' @ [176]"

definition air_two_dots_line :: pystr where
  "air_two_dots_line =
     u ''[air] '' @ [10003] @
     u '' GRANT seq=125 | Cmd:100W | Rcv:40000.0mW | Eff:40.0% | d=5.0.0m | r=0.0'' @ [176] @
     u '' p=0.0'' @ [176]"

section \<open>The process supervisor\<close>

text \<open>
  \<open>ProcessSupervisor\<close> of \<open>supervisor.py\<close> and the \<open>/ramp/start\<close> handler of \<open>main.py\<close>. The
  model runs one coroutine at a time, from its call to its return, on the supervisor object and
  the store. What the operating system, the child processes and the drone controller answer is
  given by an \<open>environment\<close>; the calls made on them are logged in the order in which they are
  made. The monitor tasks that \<open>start_relay\<close>, \<open>start_air\<close> and \<open>start_ground\<close> create run
  concurrently in the program; here they are only entered in the task list, and the status tasks
  that the drone controller schedules through \<open>on_status\<close> are not part of the model.
\<close>

text \<open>\<open>str(e)\<close> of an exception, as the f-strings of the source print it.\<close>

fun exc_str :: "py_exc \<Rightarrow> pystr" where
  "exc_str (RuntimeError m) = m"
| "exc_str (ValueError m) = m"
| "exc_str (TypeError m) = m"
| "exc_str (KeyError k) = [39] @ k @ [39]"
| "exc_str ProcessLookupError = []"
| "exc_str (FileNotFoundError m) = m"
| "exc_str (TimeoutExpired m) = m"
| "exc_str (OSError m) = m"
| "exc_str (OverflowError m) = m"
| "exc_str (HTTPException c m) = str_int (int c) @ u '': '' @ m"

text \<open>The keys of \<open>self.processes\<close>.\<close>

datatype role = Ground | Air | Relay | Socat

fun role_name :: "role \<Rightarrow> pystr" where
  "role_name Ground = u ''ground''"
| "role_name Air = u ''air''"
| "role_name Relay = u ''relay''"
| "role_name Socat = u ''socat''"

text \<open>
  A \<open>subprocess.Popen\<close> object: its pid, and what \<open>poll()\<close> returns when a coroutine of the
  model starts (\<open>None\<close> while the child runs).
\<close>

record popen =
  pid :: nat
  returncode :: "int option"

datatype signal = SIGTERM | SIGKILL

text \<open>The outcome of \<open>subprocess.run(["pgrep", "-f", pattern], ...)\<close>.\<close>

datatype completed = PgrepRaises py_exc | CompletedProcess int pystr

datatype call =
    Pgrep pystr
  | Kill int
  | Spawn role
  | Killpg nat signal
  | Pkill
  | Sleep real
  | Connect
  | OffboardStop
  | Land

text \<open>
  The environment. \<open>spawn\<close> is \<open>subprocess.Popen\<close> for the command of a role: it raises or
  returns the pid of the child. \<open>os_killpg pid sig\<close> is
  \<open>os.killpg(os.getpgid(pid), sig)\<close>. \<open>exits_at pid = Some k\<close> says that the child, once it has
  been sent \<open>SIGTERM\<close>, is seen exited from the \<open>k\<close>-th \<open>poll()\<close> on (counted from 0);
  \<open>None\<close>, that it ignores the signal. The three \<open>drone\<close> fields are \<open>PX4Controller.connect\<close>,
  \<open>stop_offboard\<close> and \<open>land\<close>: each returns or raises.
\<close>

record environment =
  pgrep :: "pystr \<Rightarrow> completed"
  getpid :: int
  os_kill :: "int \<Rightarrow> py_exc option"
  which_socat :: bool
  spawn :: "role \<Rightarrow> py_exc + nat"
  os_killpg :: "nat \<Rightarrow> signal \<Rightarrow> py_exc option"
  exits_at :: "nat \<Rightarrow> nat option"
  pkill :: "py_exc option"
  utcnow :: pystr
  drone_connect :: "py_exc option"
  drone_stop_offboard :: "py_exc option"
  drone_land :: "py_exc option"

text \<open>
  The supervisor object, with the module's \<open>state\<close> singleton and the log of calls. A monitor
  task is named by its position in \<open>_monitor_tasks\<close> at the time it is created.
\<close>

record supervisor =
  state :: shared_state
  processes :: "role \<Rightarrow> popen option"
  air_p :: air_parser
  relay_p :: relay_parser
  monitor_tasks :: "nat list"
  self_session_id :: "pystr option"
  shutting_down :: bool
  calls :: "call list"

definition ProcessSupervisor :: "shared_state \<Rightarrow> supervisor" where
  "ProcessSupervisor s =
     \<lparr> state = s,
       processes = (\<lambda>name. None),
       air_p = AirParser,
       relay_p = RelayParser,
       monitor_tasks = [],
       self_session_id = None,
       shutting_down = False,
       calls = [] \<rparr>"

subsection \<open>Coroutines\<close>

text \<open>
  A coroutine returns a value, raises, or stays pending for ever at an \<open>await\<close>. A pending
  coroutine is resumed by no handler: neither \<open>except\<close> nor \<open>finally\<close> runs.
\<close>

datatype 'a outcome = Return 'a | Raise py_exc | Pending

type_synonym 'a coro = "supervisor \<Rightarrow> 'a outcome \<times> supervisor"

definition ret :: "'a \<Rightarrow> 'a coro" where
  "ret x w = (Return x, w)"

definition raise :: "py_exc \<Rightarrow> 'a coro" where
  "raise e w = (Raise e, w)"

definition then_with :: "'a coro \<Rightarrow> ('a \<Rightarrow> 'b coro) \<Rightarrow> 'b coro" where
  "then_with m k w =
     (case m w of
        (Return x, w') \<Rightarrow> k x w'
      | (Raise e, w') \<Rightarrow> (Raise e, w')
      | (Pending, w') \<Rightarrow> (Pending, w'))"

definition andthen :: "'a coro \<Rightarrow> 'b coro \<Rightarrow> 'b coro" where
  "andthen m k = then_with m (\<lambda>x. k)"

fun block :: "unit coro list \<Rightarrow> unit coro" where
  "block [] = ret ()"
| "block (c # cs) = andthen c (block cs)"

definition if_then :: "(supervisor \<Rightarrow> bool) \<Rightarrow> unit coro \<Rightarrow> unit coro" where
  "if_then b c w = (if b w then c w else (Return (), w))"

text \<open>\<open>try: m except Exception as e: h e\<close> and \<open>try: m finally: fin\<close>.\<close>

definition try_except :: "'a coro \<Rightarrow> (py_exc \<Rightarrow> 'a coro) \<Rightarrow> 'a coro" where
  "try_except m h w =
     (case m w of
        (Raise e, w') \<Rightarrow> h e w'
      | (r, w') \<Rightarrow> (r, w'))"

definition try_finally :: "'a coro \<Rightarrow> unit coro \<Rightarrow> 'a coro" where
  "try_finally m fin w =
     (case m w of
        (Pending, w') \<Rightarrow> (Pending, w')
      | (r, w') \<Rightarrow>
          (case fin w' of
             (Return x, w'') \<Rightarrow> (r, w'')
           | (Raise e, w'') \<Rightarrow> (Raise e, w'')
           | (Pending, w'') \<Rightarrow> (Pending, w'')))"

text \<open>A method of the store, a change of the supervisor's own fields, and a call on a collaborator.\<close>

definition on_state :: "(shared_state \<Rightarrow> py_exc option \<times> shared_state) \<Rightarrow> unit coro" where
  "on_state f w =
     (case f (state w) of
        (None, s') \<Rightarrow> (Return (), w\<lparr>state := s'\<rparr>)
      | (Some e, s') \<Rightarrow> (Raise e, w\<lparr>state := s'\<rparr>))"

definition assign :: "(supervisor \<Rightarrow> supervisor) \<Rightarrow> unit coro" where
  "assign f w = (Return (), f w)"

definition call :: "call \<Rightarrow> py_exc option \<Rightarrow> unit coro" where
  "call c r w =
     ((case r of None \<Rightarrow> Return () | Some e \<Rightarrow> Raise e), w\<lparr>calls := calls w @ [c]\<rparr>)"

definition sleep :: "real \<Rightarrow> unit coro" where
  "sleep seconds = call (Sleep seconds) None"

definition event :: "string \<Rightarrow> pystr \<Rightarrow> string \<Rightarrow> pystr \<Rightarrow> unit coro" where
  "event lv sr cd m = on_state (add_event (u lv) sr (u cd) m)"

definition status_to :: "string \<Rightarrow> unit coro" where
  "status_to new_status = on_state (set_status (u new_status))"

definition set_slot :: "role \<Rightarrow> popen option \<Rightarrow> unit coro" where
  "set_slot name p = assign (\<lambda>w. w\<lparr>processes := (processes w)(name := p)\<rparr>)"

definition set_pid :: "role \<Rightarrow> nat option \<Rightarrow> unit coro" where
  "set_pid name p = assign (\<lambda>w. w\<lparr>state := set_process_pid (role_name name) p (state w)\<rparr>)"

subsection \<open>The drone controller\<close>

definition px4_connect :: "environment \<Rightarrow> unit coro" where
  "px4_connect env = call Connect (drone_connect env)"

definition px4_offboard_stop :: "environment \<Rightarrow> unit coro" where
  "px4_offboard_stop env = call OffboardStop (drone_stop_offboard env)"

definition px4_land :: "environment \<Rightarrow> unit coro" where
  "px4_land env = call Land (drone_land env)"

subsection \<open>Stale processes\<close>

text \<open>
  \<open>str.strip()\<close> and \<open>str.split('\n')\<close> on the output of \<open>pgrep\<close>, which is ASCII: the
  white space stripped is the ASCII white space.
\<close>

definition is_space :: "nat \<Rightarrow> bool" where
  "is_space c = (c \<in> set [9, 10, 11, 12, 13, 28, 29, 30, 31, 32])"

definition strip :: "pystr \<Rightarrow> pystr" where
  "strip s = rev (dropWhile is_space (rev (dropWhile is_space s)))"

fun split_lines :: "pystr \<Rightarrow> pystr list" where
  "split_lines [] = [[]]"
| "split_lines (c # s) =
     (if c = 10 then [] # split_lines s
      else (case split_lines s of l # ls \<Rightarrow> (c # l) # ls | [] \<Rightarrow> [[c]]))"

text \<open>
  The loop over the pids that \<open>pgrep\<close> printed for one pattern; the result is \<open>killed_any\<close>.
  \<open>ProcessLookupError\<close>, \<open>ValueError\<close> and every other exception end the turn of the loop
  only.
\<close>

primrec kill_pids ::
  "environment \<Rightarrow> pystr \<Rightarrow> pystr list \<Rightarrow> bool \<Rightarrow> bool coro" where
  "kill_pids env pattern [] killed_any = ret killed_any"
| "kill_pids env pattern (pid_str # rest) killed_any =
     (if pid_str = [] then kill_pids env pattern rest killed_any
      else
        (case py_int (Some pid_str) of
           Inl e \<Rightarrow> kill_pids env pattern rest killed_any
         | Inr pid' \<Rightarrow>
             (if pid' \<noteq> getpid env
              then then_with
                     (try_except
                        (andthen (call (Kill pid') (os_kill env pid'))
                           (andthen
                              (event ''INFO'' (u ''supervisor'') ''CLEANUP''
                                 (u ''Killed stale process: '' @ pattern @ u '' (PID '' @
                                  str_int pid' @ u '')''))
                              (ret True)))
                        (\<lambda>e. ret killed_any))
                     (kill_pids env pattern rest)
              else kill_pids env pattern rest killed_any)))"

text \<open>
  The loop over the patterns: \<open>TimeoutExpired\<close> and the other exceptions of \<open>pgrep\<close> go on with
  the next pattern, \<open>FileNotFoundError\<close> leaves the loop.
\<close>

primrec cleanup_patterns :: "environment \<Rightarrow> pystr list \<Rightarrow> bool \<Rightarrow> bool coro" where
  "cleanup_patterns env [] killed_any = ret killed_any"
| "cleanup_patterns env (pattern # rest) killed_any =
     (\<lambda>w. case pgrep env pattern of
            PgrepRaises e \<Rightarrow>
              (case e of
                 FileNotFoundError m \<Rightarrow> (Return killed_any, w\<lparr>calls := calls w @ [Pgrep pattern]\<rparr>)
               | _ \<Rightarrow> cleanup_patterns env rest killed_any (w\<lparr>calls := calls w @ [Pgrep pattern]\<rparr>))
          | CompletedProcess rc out \<Rightarrow>
              (if rc = 0 \<and> strip out \<noteq> []
               then then_with (kill_pids env pattern (split_lines (strip out)) killed_any)
                      (cleanup_patterns env rest) (w\<lparr>calls := calls w @ [Pgrep pattern]\<rparr>)
               else cleanup_patterns env rest killed_any (w\<lparr>calls := calls w @ [Pgrep pattern]\<rparr>)))"

definition process_patterns :: "pystr list" where
  "process_patterns =
     [u ''mav_relay.py'', u ''permit_air_power_ramp.py'', u ''permit_ground_power_ramp.py'']"

definition cleanup_old_processes :: "environment \<Rightarrow> unit coro" where
  "cleanup_old_processes env =
     then_with (cleanup_patterns env process_patterns False)
       (\<lambda>killed_any. if killed_any then sleep 1.5 else ret ())"

subsection \<open>Stopping\<close>

definition is_running :: "supervisor \<Rightarrow> bool" where
  "is_running w =
     list_ex (\<lambda>name. case processes w name of None \<Rightarrow> False | Some p \<Rightarrow> returncode p = None)
       [Ground, Air, Relay]"

definition seen_exited :: "environment \<Rightarrow> popen \<Rightarrow> nat \<Rightarrow> bool" where
  "seen_exited env p i = (case exits_at env (pid p) of None \<Rightarrow> False | Some k \<Rightarrow> k \<le> i)"

text \<open>
  The polling loop of \<open>_stop_process\<close> after \<open>SIGTERM\<close>, over the numbers of the polls. The
  result says whether the loop has left the function through its \<open>return\<close>.
\<close>

primrec wait_stop :: "environment \<Rightarrow> role \<Rightarrow> popen \<Rightarrow> nat list \<Rightarrow> bool coro" where
  "wait_stop env name p [] = ret False"
| "wait_stop env name p (i # rest) =
     (if seen_exited env p i
      then andthen
             (event ''INFO'' (role_name name) ''PROCESS_STOP''
                (role_name name @ u '' stopped gracefully''))
             (andthen (set_slot name None) (ret True))
      else andthen (sleep 0.1) (wait_stop env name p rest))"

definition stop_process :: "environment \<Rightarrow> role \<Rightarrow> unit coro" where
  "stop_process env name w =
     (case processes w name of
        None \<Rightarrow> (Return (), w)
      | Some proc \<Rightarrow>
          (if returncode proc \<noteq> None then set_slot name None w
           else
             try_finally
               (try_except
                  (andthen (call (Killpg (pid proc) SIGTERM) (os_killpg env (pid proc) SIGTERM))
                     (then_with (wait_stop env name proc [0..<50])
                        (\<lambda>returned.
                           if returned then ret ()
                           else block
                             [call (Killpg (pid proc) SIGKILL) (os_killpg env (pid proc) SIGKILL),
                              event ''WARN'' (role_name name) ''PROCESS_KILL''
                                (role_name name @
                                 u '' force killed (did not respond to SIGTERM)'')])))
                  (\<lambda>e. if e = ProcessLookupError then ret ()
                       else event ''ERROR'' (u ''server'') ''STOP_ERROR''
                              (u ''Error stopping '' @ role_name name @ u '': '' @ exc_str e)))
               (block [set_slot name None, set_pid name None])
               w))"

definition stop_ground :: "environment \<Rightarrow> unit coro" where
  "stop_ground env = stop_process env Ground"

definition stop_air :: "environment \<Rightarrow> unit coro" where
  "stop_air env = stop_process env Air"

definition stop_relay :: "environment \<Rightarrow> unit coro" where
  "stop_relay env = stop_process env Relay"

text \<open>
  \<open>_stop_virtual_elrs_link\<close>. Its \<open>try\<close> has a \<open>finally\<close> and no \<open>except\<close>, so what
  \<open>os.killpg\<close> raises leaves the function. The link files it removes are not modelled.
\<close>

primrec wait_link :: "environment \<Rightarrow> popen \<Rightarrow> nat list \<Rightarrow> unit coro" where
  "wait_link env p [] = ret ()"
| "wait_link env p (i # rest) =
     (if seen_exited env p i then ret ()
      else andthen (sleep 0.1) (wait_link env p rest))"

definition stop_virtual_elrs_link :: "environment \<Rightarrow> unit coro" where
  "stop_virtual_elrs_link env w =
     (case processes w Socat of
        None \<Rightarrow> (Return (), w)
      | Some proc \<Rightarrow>
          try_finally
            (block
               [if_then (\<lambda>w. returncode proc = None)
                  (block
                     [call (Killpg (pid proc) SIGTERM) (os_killpg env (pid proc) SIGTERM),
                      wait_link env proc [0..<50],
                      if_then (\<lambda>w. \<not> seen_exited env proc 50)
                        (call (Killpg (pid proc) SIGKILL) (os_killpg env (pid proc) SIGKILL))]),
                event ''INFO'' (u ''server'') ''SOCAT_STOP'' (u ''socat PTY bridge stopped'')])
            (set_slot Socat None)
            w)"

text \<open>
  \<open>await asyncio.gather(*self._monitor_tasks, return_exceptions=True)\<close> completes when every
  task of the list is done. The tasks have just been cancelled; but when the list holds the very
  task that runs \<open>stop_all\<close>, the gather waits for its own caller, and never completes. \<open>me\<close> is
  the monitor task in which the coroutine runs, if it runs in one.
\<close>

definition gather_monitor_tasks :: "nat option \<Rightarrow> unit coro" where
  "gather_monitor_tasks me w =
     (case me of
        None \<Rightarrow> (Return (), w)
      | Some task \<Rightarrow> (if task \<in> set (monitor_tasks w) then (Pending, w) else (Return (), w)))"

definition stop_all :: "environment \<Rightarrow> nat option \<Rightarrow> unit coro" where
  "stop_all env me =
     block
       [assign (\<lambda>w. w\<lparr>shutting_down := True\<rparr>),
        status_to ''STOPPING'',
        try_except
          (block
             [px4_offboard_stop env,
              event ''INFO'' (u ''supervisor'') ''PX4_OFFBOARD_STOP''
                (u ''PX4 offboard mode stopped'')])
          (\<lambda>e. event ''WARN'' (u ''supervisor'') ''PX4_OFFBOARD_STOP_FAIL''
                 (u ''Failed to stop offboard: '' @ exc_str e)),
        stop_ground env,
        stop_air env,
        stop_relay env,
        stop_virtual_elrs_link env,
        gather_monitor_tasks me,
        assign (\<lambda>w. w\<lparr>monitor_tasks := []\<rparr>),
        sleep 0.5,
        try_except (call Pkill (pkill env)) (\<lambda>e. ret ()),
        status_to ''READY'',
        assign (\<lambda>w. w\<lparr>shutting_down := False\<rparr>)]"

subsection \<open>Starting\<close>

text \<open>
  \<open>_start_virtual_elrs_link\<close>, and the three \<open>start_...\<close> methods, which differ in the role
  and in the text of the event. A child that has been spawned is running.
\<close>

definition start_virtual_elrs_link :: "environment \<Rightarrow> unit coro" where
  "start_virtual_elrs_link env w =
     (if (case processes w Socat of None \<Rightarrow> False | Some p \<Rightarrow> returncode p = None)
      then (Return (), w)
      else if \<not> which_socat env
      then andthen
             (event ''ERROR'' (u ''server'') ''SOCAT_NOT_FOUND''
                (u ''socat not found. Install with: brew install socat''))
             (raise (RuntimeError (u ''socat not found''))) w
      else
        (case spawn env Socat of
           Inl e \<Rightarrow> (Raise e, w\<lparr>calls := calls w @ [Spawn Socat]\<rparr>)
         | Inr n \<Rightarrow>
             block
               [set_slot Socat (Some \<lparr>pid = n, returncode = None\<rparr>),
                event ''INFO'' (u ''server'') ''SOCAT_START''
                  (u ''socat PTY bridge started (PID '' @ str_int (int n) @ u '')'')]
               (w\<lparr>calls := calls w @ [Spawn Socat]\<rparr>)))"

definition start_process :: "environment \<Rightarrow> role \<Rightarrow> pystr \<Rightarrow> unit coro" where
  "start_process env name title =
     andthen (if_then (\<lambda>w. processes w name \<noteq> None) (stop_process env name))
       (\<lambda>w. case spawn env name of
              Inl e \<Rightarrow> (Raise e, w\<lparr>calls := calls w @ [Spawn name]\<rparr>)
            | Inr n \<Rightarrow>
                block
                  [set_slot name (Some \<lparr>pid = n, returncode = None\<rparr>),
                   set_pid name (Some n),
                   event ''INFO'' (role_name name) ''PROCESS_START''
                     (title @ u '' started (PID '' @ str_int (int n) @ u '')''),
                   assign (\<lambda>w. w\<lparr>monitor_tasks :=
                                     monitor_tasks w @ [length (monitor_tasks w)]\<rparr>)]
                  (w\<lparr>calls := calls w @ [Spawn name]\<rparr>))"

definition start_relay :: "environment \<Rightarrow> unit coro" where
  "start_relay env = start_process env Relay (u ''MAV Relay'')"

definition start_air :: "environment \<Rightarrow> unit coro" where
  "start_air env = start_process env Air (u ''Air node'')"

definition start_ground :: "environment \<Rightarrow> unit coro" where
  "start_ground env = start_process env Ground (u ''Ground station'')"

text \<open>\<open>RampStartRequest\<close> of \<open>models.py\<close>, its validators, and \<open>.dict()\<close>.\<close>

record RampStartRequest =
  min_power_pct :: int
  max_power_pct :: int
  step_pct :: int
  dwell_time_s :: real
  max_power_w :: real
  scenario_name :: pystr

definition valid_request :: "RampStartRequest \<Rightarrow> bool" where
  "valid_request req \<longleftrightarrow>
     1 \<le> min_power_pct req \<and> min_power_pct req \<le> 100 \<and>
     1 \<le> max_power_pct req \<and> max_power_pct req \<le> 100 \<and>
     1 \<le> step_pct req \<and> step_pct req \<le> 100 \<and>
     1 \<le> dwell_time_s req \<and> dwell_time_s req \<le> 60 \<and>
     0 \<le> max_power_w req \<and>
     scenario_name req \<in> set [u ''Hover'', u ''Hold'', u ''Circle'', u ''Square'', u ''Figure8''] \<and>
     min_power_pct req < max_power_pct req"

definition request_dict :: "RampStartRequest \<Rightarrow> pydict" where
  "request_dict req =
     [ u ''min_power_pct'' \<mapsto> PInt (min_power_pct req),
       u ''max_power_pct'' \<mapsto> PInt (max_power_pct req),
       u ''step_pct'' \<mapsto> PInt (step_pct req),
       u ''dwell_time_s'' \<mapsto> PFloat (dwell_time_s req),
       u ''max_power_w'' \<mapsto> PFloat (max_power_w req),
       u ''scenario'' \<mapsto> PStr (scenario_name req) ]"

text \<open>
  \<open>start_all\<close>. The cleanup, the session reset and the status \<open>CONNECTING\<close> come before the
  \<open>try\<close>: they are \<open>start_all_begin\<close>. \<open>start_all_try\<close> is the block of the \<open>try\<close>,
  \<open>start_all_except\<close> its handler.
  \<open>start_all\<close> is called by the request handler, in no monitor task; it returns
  \<open>self.session_id\<close>, an \<open>Optional[str]\<close>.
\<close>

definition start_all_try :: "environment \<Rightarrow> RampStartRequest \<Rightarrow> pystr option coro" where
  "start_all_try env params =
     andthen
       (block
          [event ''INFO'' (u ''supervisor'') ''PX4_CONNECTING'' (u ''Connecting to PX4...''),
           try_except
             (block
                [px4_connect env,
                 event ''INFO'' (u ''supervisor'') ''PX4_CONNECTED''
                   (u ''PX4 connected, telemetry streaming'')])
             (\<lambda>e. event ''WARN'' (u ''supervisor'') ''PX4_CONNECT_FAIL''
                    (u ''PX4 connection failed: '' @ exc_str e)),
           start_virtual_elrs_link env,
           start_relay env,
           sleep 2.0,
           start_air env,
           sleep 2.0,
           start_ground env,
           sleep 1.0,
           status_to ''RAMPING''])
       (\<lambda>w. (Return (self_session_id w), w))"

definition start_all_except :: "environment \<Rightarrow> py_exc \<Rightarrow> pystr option coro" where
  "start_all_except env e =
     andthen
       (block
          [event ''ERROR'' (u ''server'') ''START_FAIL''
             (u ''Experiment start failed: '' @ exc_str e),
           stop_all env None])
       (raise (RuntimeError (u ''Failed to start experiment: '' @ exc_str e)))"

definition start_all_begin :: "environment \<Rightarrow> RampStartRequest \<Rightarrow> unit coro" where
  "start_all_begin env params =
     block
       [cleanup_old_processes env,
        assign (\<lambda>w. w\<lparr>self_session_id := Some (utcnow env)\<rparr>),
        assign (\<lambda>w. w\<lparr>state := start_session (utcnow env) (scenario_name params)
                                  (request_dict params) (state w)\<rparr>),
        status_to ''CONNECTING'']"

definition start_all :: "environment \<Rightarrow> RampStartRequest \<Rightarrow> pystr option coro" where
  "start_all env params =
     andthen (start_all_begin env params)
       (try_except (start_all_try env params) (start_all_except env))"

subsection \<open>Monitoring\<close>

text \<open>
  \<open>parser.parse_line(line)\<close> for the parser of a role, and the loop over the lines that the
  child has printed before its output closed; an empty line is skipped, and what the parser
  raises becomes a \<open>PARSE_ERROR\<close> event.
\<close>

definition outcome_of :: "py_exc option \<Rightarrow> unit outcome" where
  "outcome_of r = (case r of None \<Rightarrow> Return () | Some e \<Rightarrow> Raise e)"

fun parse_line :: "role \<Rightarrow> pystr \<Rightarrow> unit coro" where
  "parse_line Ground line = on_state (ground_parse_line line)"
| "parse_line Air line =
     (\<lambda>w. case air_parse_line line (air_p w, state w) of
            (r, p, s) \<Rightarrow> (outcome_of r, w\<lparr>air_p := p, state := s\<rparr>))"
| "parse_line Relay line =
     (\<lambda>w. case relay_parse_line line (relay_p w, state w) of
            (r, p, s) \<Rightarrow> (outcome_of r, w\<lparr>relay_p := p, state := s\<rparr>))"
| "parse_line Socat line = raise (KeyError (u ''socat''))"

primrec parse_lines :: "role \<Rightarrow> pystr list \<Rightarrow> unit coro" where
  "parse_lines name [] = ret ()"
| "parse_lines name (line # rest) =
     (if line = [] then parse_lines name rest
      else andthen
             (try_except (parse_line name line)
                (\<lambda>e. event ''WARN'' (u ''server'') ''PARSE_ERROR''
                       (u ''Failed to parse '' @ role_name name @ u '' line: '' @ exc_str e)))
             (parse_lines name rest))"

text \<open>\<open>f"{exit_code}"\<close> for what \<open>poll()\<close> returns.\<close>

definition str_exit_code :: "int option \<Rightarrow> pystr" where
  "str_exit_code c = (case c of None \<Rightarrow> u ''None'' | Some i \<Rightarrow> str_int i)"

text \<open>
  \<open>_monitor_process\<close>, run as the task \<open>me\<close>, for a child that prints \<open>lines\<close> and then closes
  its output, after which \<open>proc.poll()\<close> returns the \<open>returncode\<close> of the process object.
  \<open>auto_land\<close> is the first of the three \<open>if name == "ground" and not self._shutting_down\<close>
  blocks, \<open>on_exit\<close> the code that follows the loop.
\<close>

definition auto_land :: "environment \<Rightarrow> nat option \<Rightarrow> unit coro" where
  "auto_land env me =
     block
       [event ''INFO'' (u ''server'') ''AUTO_LAND''
          (u ''Ground experiment complete, initiating landing sequence''),
        try_except
          (block [px4_land env, sleep 5, stop_all env me])
          (\<lambda>e. event ''ERROR'' (u ''server'') ''LAND_FAILED''
                 (u ''Failed to land drone: '' @ exc_str e))]"

definition on_exit :: "environment \<Rightarrow> nat option \<Rightarrow> role \<Rightarrow> int option \<Rightarrow> unit coro" where
  "on_exit env me name exit_code =
     (if exit_code = Some 0
      then event ''INFO'' (role_name name) ''PROCESS_EXIT'' (role_name name @ u '' exited normally'')
      else block
        [event ''ERROR'' (role_name name) ''PROCESS_CRASH''
           (role_name name @ u '' crashed with exit code '' @ str_exit_code exit_code),
         if_then (\<lambda>w. name = Ground \<and> \<not> shutting_down w) (auto_land env me),
         if_then (\<lambda>w. name = Ground \<and> \<not> shutting_down w)
           (block
              [status_to ''READY'',
               stop_air env,
               stop_relay env,
               stop_virtual_elrs_link env]),
         if_then (\<lambda>w. name = Ground \<and> \<not> shutting_down w) (status_to ''SAFE'')])"

definition monitor_process ::
  "environment \<Rightarrow> nat option \<Rightarrow> role \<Rightarrow> pystr list \<Rightarrow> unit coro" where
  "monitor_process env me name lines w =
     (case processes w name of
        None \<Rightarrow> (Return (), w)
      | Some proc \<Rightarrow>
          (if name = Socat then (Raise (KeyError (u ''socat'')), w)
           else
             try_finally
               (try_except
                  (block [parse_lines name lines, on_exit env me name (returncode proc)])
                  (\<lambda>e. event ''ERROR'' (u ''server'') ''MONITOR_ERROR''
                         (u ''Error monitoring '' @ role_name name @ u '': '' @ exc_str e)))
               (block [set_slot name None, set_pid name None])
               w))"

subsection \<open>The request handler\<close>

definition MAX_POWER_W :: real where
  "MAX_POWER_W = 500.0"

text \<open>\<open>start_ramp\<close> of \<open>main.py\<close>; \<open>f"{settings.MAX_POWER_W}"\<close> is \<open>500.0\<close>.\<close>

definition start_ramp :: "environment \<Rightarrow> RampStartRequest \<Rightarrow> pyval coro" where
  "start_ramp env req w =
     (if is_running w
      then (Raise (HTTPException 400 (u ''Ramp already in progress.'')), w)
      else if max_power_w req > MAX_POWER_W
      then (Raise (HTTPException 400 (u ''Exceeds hardware limit (500.0W)'')), w)
      else
        try_except
          (then_with (start_all env req)
             (\<lambda>session_id.
                ret (PDict [(u ''status'', PStr (u ''started'')),
                            (u ''session_id'',
                             (case session_id of None \<Rightarrow> PNone | Some sid \<Rightarrow> PStr sid))])))
          (\<lambda>e. andthen
                 (event ''ERROR'' (u ''server'') ''START_FAILED''
                    (u ''Failed to start ramp: '' @ exc_str e))
                 (raise (HTTPException 500 (exc_str e))))
          w)"

subsection \<open>Observations on a run\<close>

text \<open>The number of landing attempts made so far.\<close>

definition lands :: "supervisor \<Rightarrow> nat" where
  "lands w = length (filter (\<lambda>c. c = Land) (calls w))"

text \<open>The bridge can be torn down: signalling its process group raises nothing.\<close>

definition link_stops :: "environment \<Rightarrow> supervisor \<Rightarrow> bool" where
  "link_stops env w =
     (case processes w Socat of
        None \<Rightarrow> True
      | Some p \<Rightarrow> os_killpg env (pid p) SIGTERM = None \<and> os_killpg env (pid p) SIGKILL = None)"

text \<open>The coroutine runs as a monitor task that is in \<open>_monitor_tasks\<close>.\<close>

definition in_monitor_tasks :: "nat option \<Rightarrow> supervisor \<Rightarrow> bool" where
  "in_monitor_tasks me w = (case me of None \<Rightarrow> False | Some task \<Rightarrow> task \<in> set (monitor_tasks w))"

text \<open>
  \<open>recent m ev w\<close>: the event is among the last \<open>m\<close> entries of the event log.
  \<open>evolves strict k w w'\<close>: from \<open>w\<close> to \<open>w'\<close> at most \<open>k\<close> events have been logged, no
  landing has been attempted and process slots have at most been cleared; when \<open>strict\<close>,
  also the flag, the task list and the status are what they were. \<open>logs strict k c\<close> says
  that every run of the coroutine evolves so; \<open>finishes\<close> and \<open>returns\<close> say how it ends.
\<close>

definition recent :: "nat \<Rightarrow> event \<Rightarrow> supervisor \<Rightarrow> bool" where
  "recent m ev w \<longleftrightarrow> ev \<in> set (drop (length (events (state w)) - m) (events (state w)))"

definition evolves :: "bool \<Rightarrow> nat \<Rightarrow> supervisor \<Rightarrow> supervisor \<Rightarrow> bool" where
  "evolves strict k w w' \<longleftrightarrow>
     (strict \<longrightarrow>
        shutting_down w' = shutting_down w \<and>
        monitor_tasks w' = monitor_tasks w \<and>
        status (state w') = status (state w)) \<and>
     lands w' = lands w \<and>
     (\<forall>name. processes w' name = None \<or> processes w' name = processes w name) \<and>
     (\<forall>ev m. m + k \<le> 500 \<longrightarrow> recent m ev w \<longrightarrow> recent (m + k) ev w')"

definition logs :: "bool \<Rightarrow> nat \<Rightarrow> 'a coro \<Rightarrow> bool" where
  "logs strict k c \<longleftrightarrow> (\<forall>w. evolves strict k w (snd (c w)))"

definition finishes :: "'a coro \<Rightarrow> bool" where
  "finishes c \<longleftrightarrow> (\<forall>w. fst (c w) \<noteq> Pending)"

definition returns :: "unit coro \<Rightarrow> bool" where
  "returns c \<longleftrightarrow> (\<forall>w. fst (c w) = Return ())"

definition succeeds :: "'a coro \<Rightarrow> bool" where
  "succeeds c \<longleftrightarrow> (\<forall>w. \<exists>x. fst (c w) = Return x)"

text \<open>The fields of the supervisor that the decoders do not touch.\<close>

definition same_control :: "supervisor \<Rightarrow> supervisor \<Rightarrow> bool" where
  "same_control w w' \<longleftrightarrow>
     shutting_down w' = shutting_down w \<and> monitor_tasks w' = monitor_tasks w \<and>
     processes w' = processes w \<and> calls w' = calls w"

subsection \<open>Example runs\<close>

text \<open>
  An environment in which every call succeeds, no stale process is found and a child exits at
  once on \<open>SIGTERM\<close>; the same with a drone that cannot land, with no \<open>pgrep\<close> on the
  machine, with no \<open>socat\<close>, and with a relay script that cannot be executed.
\<close>

definition quiet_env :: environment where
  "quiet_env =
     \<lparr> pgrep = (\<lambda>pattern. CompletedProcess 1 []),
       getpid = 1,
       os_kill = (\<lambda>p. None),
       which_socat = True,
       spawn = (\<lambda>name. Inr (case name of Socat \<Rightarrow> 100 | Relay \<Rightarrow> 101 | Air \<Rightarrow> 102 | Ground \<Rightarrow> 103)),
       os_killpg = (\<lambda>p sg. None),
       exits_at = (\<lambda>p. Some 0),
       pkill = None,
       utcnow = u ''20251223_052932'',
       drone_connect = None,
       drone_stop_offboard = None,
       drone_land = None \<rparr>"

definition land_fails_env :: environment where
  "land_fails_env = quiet_env\<lparr>drone_land := Some (RuntimeError (u ''no drone''))\<rparr>"

definition no_pgrep_env :: environment where
  "no_pgrep_env =
     quiet_env\<lparr>pgrep := (\<lambda>pattern. PgrepRaises (FileNotFoundError
       (u ''[Errno 2] No such file or directory: '' @ [39] @ u ''pgrep'' @ [39])))\<rparr>"

definition no_socat_env :: environment where
  "no_socat_env = quiet_env\<lparr>which_socat := False\<rparr>"

definition relay_fails_env :: environment where
  "relay_fails_env =
     quiet_env\<lparr>spawn := (\<lambda>name. case name of
       Socat \<Rightarrow> Inr 100
     | Relay \<Rightarrow> Inl (OSError (u ''[Errno 8] Exec format error''))
     | Air \<Rightarrow> Inr 102
     | Ground \<Rightarrow> Inr 103)\<rparr>"

text \<open>
  A run in progress: the bridge, relay and air are running, the ground process has exited with
  code 1, and the three monitor tasks are in the list, the monitor of ground being task 2.
\<close>

definition ground_crashed :: supervisor where
  "ground_crashed =
     (ProcessSupervisor ((SharedState None 0)\<lparr>status := u ''RAMPING''\<rparr>))
       \<lparr> processes :=
           (\<lambda>name. case name of
              Socat \<Rightarrow> Some \<lparr>pid = 100, returncode = None\<rparr>
            | Relay \<Rightarrow> Some \<lparr>pid = 101, returncode = None\<rparr>
            | Air \<Rightarrow> Some \<lparr>pid = 102, returncode = None\<rparr>
            | Ground \<Rightarrow> Some \<lparr>pid = 103, returncode = Some 1\<rparr>),
         monitor_tasks := [0, 1, 2] \<rparr>"

text \<open>A request that the validators of \<open>RampStartRequest\<close> accept.\<close>

definition example_request :: RampStartRequest where
  "example_request =
     \<lparr> min_power_pct = 10, max_power_pct = 50, step_pct = 10, dwell_time_s = 5,
       max_power_w = 100, scenario_name = u ''Hover'' \<rparr>"

text \<open>A supervisor that has started nothing yet.\<close>

definition idle :: supervisor where
  "idle = ProcessSupervisor (SharedState None 0)"

section \<open>Basic facts\<close>

lemma u_eq_iff [simp]: "u a = u b \<longleftrightarrow> a = b"
proof -
  have "inj (of_char :: char \<Rightarrow> nat)"
    by (rule injI) simp
  then show ?thesis
    unfolding u_def by (simp add: inj_map_eq_map)
qed

lemma deque_append_length:
  "length xs \<le> n \<Longrightarrow> length (deque_append n x xs) \<le> n"
  by (cases xs) (auto simp: deque_append_def Let_def)

lemma length_u [simp]: "length (u s) = length s"
  by (simp add: u_def)

section \<open>The bounded buffers\<close>

lemma deque_append_full:
  "0 < n \<Longrightarrow> length xs = n \<Longrightarrow> deque_append n x xs = tl xs @ [x]"
  by (cases xs) (auto simp: deque_append_def Let_def)

lemma deque_append_room:
  "length xs < n \<Longrightarrow> deque_append n x xs = xs @ [x]"
  by (auto simp: deque_append_def Let_def)

lemma deque_append_bounded:
  "0 < n \<Longrightarrow> length xs \<le> n \<Longrightarrow>
     deque_append n x xs = (if length xs = n then tl xs else xs) @ [x]"
  by (cases "length xs = n") (simp_all add: deque_append_full deque_append_room)

lemma SharedState_fields [simp]:
  "ws_broadcast (SharedState h t) = h" "status (SharedState h t) = u ''DISCONNECTED''"
  "events (SharedState h t) = []" "errors (SharedState h t) = []"
  "rtt_samples (SharedState h t) = []" "clock (SharedState h t) = t"
  "ws_sent (SharedState h t) = []" "telemetry (SharedState h t) = default_telemetry"
  "session_id (SharedState h t) = None" "lock_held (SharedState h t) = False"
  by (simp_all add: SharedState_def)

lemma add_event_raises_nothing: "fst (add_event lv sr cd m s) = None"
  by (auto simp: add_event_def Let_def split: option.splits)

lemma add_event_events:
  "events (snd (add_event lv sr cd m s)) = deque_append 500 (make_event lv sr cd m s) (events s)"
  by (auto simp: add_event_def with_lock_def Let_def split: option.splits)

lemma add_event_errors:
  "errors (snd (add_event lv sr cd m s)) =
     (if lv = u ''ERROR'' \<or> lv = u ''WARN''
      then deque_append 50 (make_event lv sr cd m s) (errors s) else errors s)"
  by (auto simp: add_event_def with_lock_def Let_def split: option.splits)

lemma add_event_rtt:
  "rtt_samples (snd (add_event lv sr cd m s)) = rtt_samples s"
  by (auto simp: add_event_def with_lock_def Let_def split: option.splits)

lemma add_event_ws_sent:
  "ws_sent (snd (add_event lv sr cd m s)) =
     (case ws_broadcast s of
        None \<Rightarrow> ws_sent s
      | Some hook \<Rightarrow>
          ws_sent s @ [(\<lparr>ptype = u ''event'', pevent = make_event lv sr cd m s\<rparr>, False)])"
  by (auto simp: add_event_def with_lock_def Let_def split: option.splits)

lemma update_telemetry_rtt:
  "data (u ''rtt_ms'') = Some v \<Longrightarrow> py_num v = Some r \<Longrightarrow> 0 < r \<Longrightarrow>
     rtt_samples (snd (update_telemetry data s)) = deque_append 100 r (rtt_samples s)"
  by (simp add: update_telemetry_def Let_def)

lemma reachable_bounds:
  "reachable s \<Longrightarrow>
     length (events s) \<le> 500 \<and> length (errors s) \<le> 50 \<and> length (rtt_samples s) \<le> 100"
proof (induction rule: reachable.induct)
  case (r_init hook t)
  then show ?case by (simp add: SharedState_def)
next
  case (r_update_telemetry s data)
  then show ?case
    by (auto simp: update_telemetry_def Let_def deque_append_length split: option.splits)
next
  case (r_update_laser_telemetry s data)
  then show ?case
    by (auto simp: update_laser_telemetry_def Let_def split: pyval.splits)
next
  case (r_start_session s sid scen params)
  then show ?case by (simp add: start_session_def with_lock_def)
next
  case (r_add_event s lv sr cd m)
  then show ?case
    by (simp add: add_event_events add_event_errors add_event_rtt deque_append_length)
next
  case (r_set_status s st)
  then show ?case
    by (simp add: set_status_def Let_def with_lock_def add_event_events add_event_errors
        add_event_rtt deque_append_length)
next
  case (r_set_process_pid s name pid)
  then show ?case by (simp add: set_process_pid_def with_lock_def)
next
  case (r_set_hook s hook)
  then show ?case by simp
next
  case (r_tick s t)
  then show ?case by simp
qed



text \<open>
  C9. In every reachable state the all-events buffer holds at most 500 events, the error
  buffer at most 50 and the RTT buffer at most 100 samples. An append keeps the entries
  already there in their order and puts the new one last; on a full buffer it drops the
  oldest entry and no other.
\<close>

theorem buffers_bounded_fifo:
  assumes "reachable s"
  shows "length (events s) \<le> 500 \<and> length (errors s) \<le> 50 \<and> length (rtt_samples s) \<le> 100 \<and>
    events (snd (add_event lv sr cd m s)) =
      (if length (events s) = 500 then tl (events s) else events s) @ [make_event lv sr cd m s] \<and>
    (lv = u ''WARN'' \<or> lv = u ''ERROR'' \<longrightarrow>
       errors (snd (add_event lv sr cd m s)) =
         (if length (errors s) = 50 then tl (errors s) else errors s) @ [make_event lv sr cd m s]) \<and>
    (data (u ''rtt_ms'') = Some (PFloat r) \<and> 0 < r \<longrightarrow>
       rtt_samples (snd (update_telemetry data s)) =
         (if length (rtt_samples s) = 100 then tl (rtt_samples s) else rtt_samples s) @ [r])"
proof -
  from assms have b: "length (events s) \<le> 500" "length (errors s) \<le> 50"
    "length (rtt_samples s) \<le> 100"
    using reachable_bounds by blast+
  have e: "events (snd (add_event lv sr cd m s)) =
      (if length (events s) = 500 then tl (events s) else events s) @ [make_event lv sr cd m s]"
    using b(1) by (simp only: add_event_events) (rule deque_append_bounded, simp_all)
  have r: "lv = u ''WARN'' \<or> lv = u ''ERROR'' \<Longrightarrow>
       errors (snd (add_event lv sr cd m s)) =
         (if length (errors s) = 50 then tl (errors s) else errors s) @ [make_event lv sr cd m s]"
    using b(2) deque_append_bounded [of 50 "errors s" "make_event lv sr cd m s"]
    by (auto simp: add_event_errors)
  have t: "data (u ''rtt_ms'') = Some (PFloat r) \<and> 0 < r \<Longrightarrow>
       rtt_samples (snd (update_telemetry data s)) =
         (if length (rtt_samples s) = 100 then tl (rtt_samples s) else rtt_samples s) @ [r]"
    using b(3) deque_append_bounded [of 100 "rtt_samples s" r]
      update_telemetry_rtt [of data "PFloat r" r s]
    by auto
  from b e r t show ?thesis by blast
qed

theorem buffers_bounded_fifo_witness:
  "reachable (SharedState None 0) \<and>
   length (events (SharedState None 0)) \<le> 500 \<and>
   events (snd (add_event (u ''ERROR'') (u ''ground'') (u ''PROCESS_CRASH'') (u ''x'')
      (SharedState None 0))) =
     [\<lparr>ts = 0, level = u ''ERROR'', src = u ''ground'', code = u ''PROCESS_CRASH'', msg = u ''x''\<rparr>] \<and>
   errors (snd (add_event (u ''ERROR'') (u ''ground'') (u ''PROCESS_CRASH'') (u ''x'')
      (SharedState None 0))) =
     [\<lparr>ts = 0, level = u ''ERROR'', src = u ''ground'', code = u ''PROCESS_CRASH'', msg = u ''x''\<rparr>] \<and>
   rtt_samples (snd (update_telemetry [u ''rtt_ms'' \<mapsto> PFloat 34.5] (SharedState None 0))) = [34.5]"
  using buffers_bounded_fifo [OF r_init, of None 0 "u ''ERROR''" "u ''ground''"
      "u ''PROCESS_CRASH''" "u ''x''" "[u ''rtt_ms'' \<mapsto> PFloat 34.5]" "34.5"]
  by (simp add: r_init make_event_def)

text \<open>
  C10. \<open>get_recent_events(count)\<close> with \<open>count \<ge> 1\<close> returns the last
  \<open>min(count, stored)\<close> events in the order of the buffer; with \<open>count = 0\<close> the slice
  \<open>[-0:]\<close> is the whole list, so every buffered event is returned (at most 500 of them in
  a reachable state), not the empty list.
\<close>

theorem get_recent_events_spec:
  "(1 \<le> count \<longrightarrow>
      get_recent_events count s = drop (length (events s) - nat count) (events s) \<and>
      length (get_recent_events count s) = min (nat count) (length (events s))) \<and>
   get_recent_events 0 s = events s \<and>
   (reachable s \<longrightarrow> length (get_recent_events 0 s) \<le> 500)"
proof -
  have a: "1 \<le> count \<Longrightarrow>
      get_recent_events count s = drop (length (events s) - nat count) (events s)"
    by (auto simp: get_recent_events_def py_slice_from_def Let_def max_def nat_diff_distrib'
        intro: arg_cong [where f = "\<lambda>k. drop k (events s)"])
  have b: "get_recent_events 0 s = events s"
    by (simp add: get_recent_events_def py_slice_from_def)
  have c: "reachable s \<Longrightarrow> length (get_recent_events 0 s) \<le> 500"
    using reachable_bounds [of s] by (simp add: b)
  have d: "1 \<le> count \<Longrightarrow> length (get_recent_events count s) = min (nat count) (length (events s))"
    using a by auto
  from a b c d show ?thesis by blast
qed

theorem get_recent_events_spec_witness:
  "(1::int) \<le> 1 \<and>
   reachable (snd (add_event (u ''INFO'') (u ''a'') (u ''b'') (u ''c'') (SharedState None 0))) \<and>
   get_recent_events 1
     (snd (add_event (u ''INFO'') (u ''a'') (u ''b'') (u ''c'') (SharedState None 0))) =
     [\<lparr>ts = 0, level = u ''INFO'', src = u ''a'', code = u ''b'', msg = u ''c''\<rparr>] \<and>
   get_recent_events 0
     (snd (add_event (u ''INFO'') (u ''a'') (u ''b'') (u ''c'') (SharedState None 0))) =
     [\<lparr>ts = 0, level = u ''INFO'', src = u ''a'', code = u ''b'', msg = u ''c''\<rparr>]"
  using get_recent_events_spec [of 1
      "snd (add_event (u ''INFO'') (u ''a'') (u ''b'') (u ''c'') (SharedState None 0))"]
    r_add_event [OF r_init, of "u ''INFO''" "u ''a''" "u ''b''" "u ''c''" None 0]
  by (simp add: add_event_events deque_append_def make_event_def)

section \<open>RTT percentiles\<close>

lemma np_percentile_closest_ranks:
  assumes "0 < length a" "0 \<le> q" "q \<le> 100"
  shows "np_percentile a q = closest_ranks_percentile a q"
proof -
  define n where "n = length (sort a)"
  define vi where "vi = q / 100 * real (n - 1)"
  have n: "0 < n" using assms by (simp add: n_def)
  have vi0: "0 \<le> vi" using assms by (simp add: vi_def)
  have vin: "vi \<le> real (n - 1)"
  proof -
    have "q / 100 \<le> 1" using assms by simp
    then have "q / 100 * real (n - 1) \<le> 1 * real (n - 1)"
      by (intro mult_right_mono) simp_all
    then show ?thesis by (simp add: vi_def)
  qed
  have rn: "real n - 1 = real (n - 1)" using n by (simp add: of_nat_diff)
  have fl0: "0 \<le> \<lfloor>vi\<rfloor>" using vi0 by simp
  have jle: "nat \<lfloor>vi\<rfloor> \<le> n - 1"
  proof -
    have "\<lfloor>vi\<rfloor> \<le> int (n - 1)" using vin by (simp add: floor_le_iff)
    then show ?thesis by simp
  qed
  have k: "nat \<lfloor>vi + 1\<rfloor> = Suc (nat \<lfloor>vi\<rfloor>)" using fl0 by (simp add: nat_add_distrib)
  show ?thesis
  proof (cases "nat \<lfloor>vi\<rfloor> = n - 1")
    case True
    then have "real_of_int \<lfloor>vi\<rfloor> = real (n - 1)" using fl0
      by (metis of_int_of_nat_eq int_nat_eq)
    then have "vi = real (n - 1)" using vin
      by (smt (verit) of_int_floor_le)
    with True n show ?thesis
      unfolding np_percentile_def closest_ranks_percentile_def Let_def
        n_def[symmetric] rn vi_def[symmetric] k
      by simp
  next
    case False
    with jle have lt: "Suc (nat \<lfloor>vi\<rfloor>) < n" by simp
    have "real (nat \<lfloor>vi\<rfloor>) = real_of_int \<lfloor>vi\<rfloor>" using fl0 by simp
    with lt show ?thesis
      unfolding np_percentile_def closest_ranks_percentile_def Let_def
        n_def[symmetric] rn vi_def[symmetric] k
      by (simp add: algebra_simps)
  qed
qed

text \<open>
  C7. \<open>calculate_rtt_percentiles\<close> returns (0, 0) while fewer than 10 samples are buffered;
  from 10 samples on it returns the 95th and the 99th percentile of the buffer, and what
  it computes is the percentile by linear interpolation between closest ranks.
\<close>

theorem calculate_rtt_percentiles_spec:
  "(length (rtt_samples s) < 10 \<longrightarrow> calculate_rtt_percentiles s = (0, 0)) \<and>
   (10 \<le> length (rtt_samples s) \<longrightarrow>
      calculate_rtt_percentiles s =
        (closest_ranks_percentile (rtt_samples s) 95, closest_ranks_percentile (rtt_samples s) 99))"
proof -
  have "np_percentile (rtt_samples s) q = closest_ranks_percentile (rtt_samples s) q"
    if "10 \<le> length (rtt_samples s)" "q = 95 \<or> q = 99" for q
    using that by (intro np_percentile_closest_ranks) auto
  then show ?thesis
    by (simp add: calculate_rtt_percentiles_def Let_def)
qed

text \<open>
  Ten samples 1, 2, ..., 10: the 95th percentile is 9.55 and the 99th is 9.91; nine samples
  give (0, 0).
\<close>

theorem calculate_rtt_percentiles_spec_witness:
  "length (rtt_samples ((SharedState None 0)\<lparr>rtt_samples := [1, 2, 3, 4, 5, 6, 7, 8, 9]\<rparr>)) < 10 \<and>
   calculate_rtt_percentiles ((SharedState None 0)\<lparr>rtt_samples := [1, 2, 3, 4, 5, 6, 7, 8, 9]\<rparr>)
     = (0, 0) \<and>
   10 \<le> length (rtt_samples
     ((SharedState None 0)\<lparr>rtt_samples := [3, 1, 2, 10, 5, 6, 7, 8, 9, 4]\<rparr>)) \<and>
   calculate_rtt_percentiles
     ((SharedState None 0)\<lparr>rtt_samples := [3, 1, 2, 10, 5, 6, 7, 8, 9, 4]\<rparr>) = (9.55, 9.91)"
proof -
  have f95: "\<lfloor>(191 / 20 :: real)\<rfloor> = 9" by linarith
  have f99: "\<lfloor>(991 / 100 :: real)\<rfloor> = 9" by linarith
  have srt: "sort [3, 1, 2, 10, 5, 6, 7, 8, 9, 4 :: real] = [1, 2, 3, 4, 5, 6, 7, 8, 9, 10]"
    by (simp add: sort_key_def insort_key.simps)
  show ?thesis
    using calculate_rtt_percentiles_spec
      [of "(SharedState None 0)\<lparr>rtt_samples := [1, 2, 3, 4, 5, 6, 7, 8, 9]\<rparr>"]
      calculate_rtt_percentiles_spec
      [of "(SharedState None 0)\<lparr>rtt_samples := [3, 1, 2, 10, 5, 6, 7, 8, 9, 4]\<rparr>"]
    by (simp add: closest_ranks_percentile_def Let_def srt f95 f99)
qed

section \<open>The session reset\<close>

lemma start_session_fields:
  "session_id (start_session sid scen params s) = Some sid"
  "scenario (start_session sid scen params s) = scen"
  "ramp_params (start_session sid scen params s) = Some params"
  "events (start_session sid scen params s) = []"
  "errors (start_session sid scen params s) = []"
  "rtt_samples (start_session sid scen params s) = []"
  "telemetry (start_session sid scen params s) = session_telemetry"
  by (simp_all add: start_session_def with_lock_def)

lemma telemetry_key_examples:
  "default_telemetry (u ''gps_lat_deg'') = Some PNone"
  "session_telemetry (u ''gps_lat_deg'') = None"
  "default_telemetry (u ''panel_efficiency_factor'') = Some (PFloat 1)"
  "session_telemetry (u ''panel_efficiency_factor'') = None"
  "default_telemetry (u ''laser_commanded_w'') = None"
  "session_telemetry (u ''laser_commanded_w'') = Some (PFloat 0)"
  by (simp_all add: default_telemetry_def default_telemetry_items_def
      session_telemetry_def session_telemetry_items_def)

text \<open>
  C3. \<open>start_session\<close> replaces the session record and empties the three buffers, but the
  dictionary it assigns to the telemetry is not the one the store is constructed with: the GPS,
  home and panel keys of the default dictionary (for instance \<open>gps_lat_deg\<close> and
  \<open>panel_efficiency_factor\<close>) are missing after the reset, and \<open>laser_commanded_w\<close>, which
  the default dictionary does not have, is present. The source announces the assignment as a
  full reset.
\<close>

theorem start_session_telemetry_not_default:
  "session_id (start_session sid scen params s) = Some sid \<and>
   scenario (start_session sid scen params s) = scen \<and>
   ramp_params (start_session sid scen params s) = Some params \<and>
   events (start_session sid scen params s) = [] \<and>
   errors (start_session sid scen params s) = [] \<and>
   rtt_samples (start_session sid scen params s) = [] \<and>
   telemetry (SharedState hook t) (u ''gps_lat_deg'') = Some PNone \<and>
   telemetry (start_session sid scen params s) (u ''gps_lat_deg'') = None \<and>
   telemetry (SharedState hook t) (u ''panel_efficiency_factor'') = Some (PFloat 1) \<and>
   telemetry (start_session sid scen params s) (u ''panel_efficiency_factor'') = None \<and>
   telemetry (SharedState hook t) (u ''laser_commanded_w'') = None \<and>
   telemetry (start_session sid scen params s) (u ''laser_commanded_w'') = Some (PFloat 0) \<and>
   telemetry (start_session sid scen params s) \<noteq> telemetry (SharedState hook t)"
proof -
  have "telemetry (start_session sid scen params s) \<noteq> telemetry (SharedState hook t)"
  proof
    assume "telemetry (start_session sid scen params s) = telemetry (SharedState hook t)"
    then have "session_telemetry (u ''gps_lat_deg'') = default_telemetry (u ''gps_lat_deg'')"
      by (simp add: start_session_fields)
    then show False
      by (simp only: telemetry_key_examples) simp
  qed
  then show ?thesis
    by (simp add: start_session_fields telemetry_key_examples)
qed

section \<open>The line decoders\<close>

lemma then_excE:
  assumes "then_exc r f = Inr y"
  obtains x where "r = Inr x" "f x = Inr y"
  using assms by (cases r) (simp_all add: then_exc_def)

lemma opt_field:
  assumes "(if truthy g then then_exc (py_float g) (\<lambda>d. Inr (d0(k \<mapsto> PFloat d))) else Inr d0) = Inr d1"
  shows "(truthy g \<longrightarrow> (\<exists>d. py_float g = Inr d \<and> d1 = d0(k \<mapsto> PFloat d))) \<and>
         (\<not> truthy g \<longrightarrow> d1 = d0)"
  using assms by (auto split: if_splits elim: then_excE)

lemma opt_field_other:
  assumes "(if truthy g then then_exc (py_float g) (\<lambda>d. Inr (d0(k \<mapsto> PFloat d))) else Inr d0) = Inr d1"
    and "k' \<noteq> k"
  shows "d1 k' = d0 k'"
  using opt_field [OF assms(1)] assms(2) by (cases "truthy g") auto

lemma opt_field_dom:
  assumes "(if truthy g then then_exc (py_float g) (\<lambda>d. Inr (d0(k \<mapsto> PFloat d))) else Inr d0) = Inr d1"
  shows "dom d1 \<subseteq> insert k (dom d0)"
  using opt_field [OF assms(1)] by (cases "truthy g") auto

lemma opt_field_key:
  assumes "(if truthy g then then_exc (py_float g) (\<lambda>d. Inr (d0(k \<mapsto> PFloat d))) else Inr d0) = Inr d1"
    and "d0 k = None"
  shows "(g = None \<longrightarrow> d1 k = None) \<and>
         (truthy g \<longrightarrow> (\<exists>d. py_float g = Inr d \<and> d1 k = Some (PFloat d)))"
  using opt_field [OF assms(1)] assms(2) by (cases "truthy g") (auto simp: truthy_def)

lemma telemetry_data_generic:
  fixes d0 d1 d2 data :: pydict
  assumes d0: "d0 = [k1 \<mapsto> v1, k2 \<mapsto> v2, k3 \<mapsto> v3, k4 \<mapsto> v4, k5 \<mapsto> v5, k6 \<mapsto> v6,
                     k7 \<mapsto> v7, k8 \<mapsto> v8]"
    and o1: "(if truthy gd then then_exc (py_float gd) (\<lambda>d. Inr (d0(kd \<mapsto> PFloat d)))
              else Inr d0) = Inr d1"
    and o2: "(if truthy gr then then_exc (py_float gr) (\<lambda>d. Inr (d1(kr \<mapsto> PFloat d)))
              else Inr d1) = Inr d2"
    and o3: "(if truthy gp then then_exc (py_float gp) (\<lambda>d. Inr (d2(kp \<mapsto> PFloat d)))
              else Inr d2) = Inr data"
    and dis: "distinct [k1, k2, k3, k4, k5, k6, k7, k8, kd, kr, kp]"
  shows "data k1 = Some v1 \<and> data k2 = Some v2 \<and> data k3 = Some v3 \<and> data k4 = Some v4 \<and>
         data k5 = Some v5 \<and> data k6 = Some v6 \<and> data k7 = Some v7 \<and> data k8 = Some v8 \<and>
         (gd = None \<longrightarrow> data kd = None) \<and>
         (truthy gd \<longrightarrow> (\<exists>d. py_float gd = Inr d \<and> data kd = Some (PFloat d))) \<and>
         (gr = None \<longrightarrow> data kr = None) \<and>
         (truthy gr \<longrightarrow> (\<exists>d. py_float gr = Inr d \<and> data kr = Some (PFloat d))) \<and>
         (gp = None \<longrightarrow> data kp = None) \<and>
         (truthy gp \<longrightarrow> (\<exists>d. py_float gp = Inr d \<and> data kp = Some (PFloat d))) \<and>
         dom data \<subseteq> {k1, k2, k3, k4, k5, k6, k7, k8, kd, kr, kp}"
proof -
  have keep: "data k = d0 k" if "k \<noteq> kd" "k \<noteq> kr" "k \<noteq> kp" for k
    using opt_field_other [OF o1 that(1)] opt_field_other [OF o2 that(2)]
      opt_field_other [OF o3 that(3)] by simp
  have dis': "distinct (rev [k1, k2, k3, k4, k5, k6, k7, k8, kd, kr, kp])"
    using dis by (simp only: distinct_rev)
  have m: "data k1 = Some v1" "data k2 = Some v2" "data k3 = Some v3" "data k4 = Some v4"
         "data k5 = Some v5" "data k6 = Some v6" "data k7 = Some v7" "data k8 = Some v8"
    using dis dis' by (simp_all add: keep d0)
  have n0: "d0 kd = None" "d0 kr = None" "d0 kp = None"
    using dis dis' by (simp_all add: d0)
  have kr: "kr \<noteq> kd" "kp \<noteq> kd" "kp \<noteq> kr" "kd \<noteq> kr" "kd \<noteq> kp" "kr \<noteq> kp"
    using dis dis' by simp_all
  have n1: "d1 kr = None" "d1 kp = None"
    using opt_field_other [OF o1 kr(1)] opt_field_other [OF o1 kr(2)] n0 by simp_all
  have n2: "d2 kp = None"
    using opt_field_other [OF o2 kr(3)] n1 by simp
  have e1: "data kd = d1 kd"
    using opt_field_other [OF o2 kr(4)] opt_field_other [OF o3 kr(5)] by simp
  have e2: "data kr = d2 kr"
    using opt_field_other [OF o3 kr(6)] by simp
  have f1: "(gd = None \<longrightarrow> data kd = None) \<and>
         (truthy gd \<longrightarrow> (\<exists>d. py_float gd = Inr d \<and> data kd = Some (PFloat d)))"
    unfolding e1 using o1 n0(1) by (rule opt_field_key)
  have f2: "(gr = None \<longrightarrow> data kr = None) \<and>
         (truthy gr \<longrightarrow> (\<exists>d. py_float gr = Inr d \<and> data kr = Some (PFloat d)))"
    unfolding e2 using o2 n1(1) by (rule opt_field_key)
  have f3: "(gp = None \<longrightarrow> data kp = None) \<and>
         (truthy gp \<longrightarrow> (\<exists>d. py_float gp = Inr d \<and> data kp = Some (PFloat d)))"
    using o3 n2 by (rule opt_field_key)
  have dd: "dom d0 = {k8, k7, k6, k5, k4, k3, k2, k1}"
    unfolding d0 by simp
  have s1: "dom d2 \<subseteq> insert kr (insert kd (dom d0))"
    by (rule order_trans [OF opt_field_dom [OF o2] insert_mono [OF opt_field_dom [OF o1]]])
  have s2: "dom data \<subseteq> insert kp (insert kr (insert kd (dom d0)))"
    by (rule order_trans [OF opt_field_dom [OF o3] insert_mono [OF s1]])
  have eq: "{kp, kr, kd, k8, k7, k6, k5, k4, k3, k2, k1} =
            {k1, k2, k3, k4, k5, k6, k7, k8, kd, kr, kp}"
    by (simp add: insert_commute)
  have dm: "dom data \<subseteq> {k1, k2, k3, k4, k5, k6, k7, k8, kd, kr, kp}"
    using s2 unfolding dd eq .
  from m f1 f2 f3 dm show ?thesis by (intro conjI) (rule m f1 [THEN conjunct1] f1 [THEN conjunct2] f2 [THEN conjunct1] f2 [THEN conjunct2] f3 [THEN conjunct1] f3 [THEN conjunct2] dm)+
qed

lemma update_telemetry_float_rtt:
  "data (u ''rtt_ms'') = Some (PFloat r) \<Longrightarrow>
     fst (update_telemetry data s) = None \<and>
     telemetry (snd (update_telemetry data s)) = telemetry s ++ data"
  by (simp add: update_telemetry_def Let_def)

lemma update_telemetry_no_rtt:
  "data (u ''rtt_ms'') = None \<Longrightarrow>
     fst (update_telemetry data s) = None \<and>
     telemetry (snd (update_telemetry data s)) = telemetry s ++ data"
  by (simp add: update_telemetry_def Let_def)

lemma ground_telemetry_data_shape:
  assumes "ground_telemetry_data m = Inr data"
  obtains pct cmd_w rcv_mw eff lq rtt grants denies d0 d1 d2 where
    "py_int (group m ''pct'') = Inr pct" "py_float (group m ''cmd_w'') = Inr cmd_w"
    "py_float (group m ''rcv_mw'') = Inr rcv_mw" "py_float (group m ''eff'') = Inr eff"
    "py_int (group m ''lq'') = Inr lq" "py_float (group m ''rtt'') = Inr rtt"
    "py_int (group m ''grants'') = Inr grants" "py_int (group m ''denies'') = Inr denies"
    "d0 = [ u ''commanded_pct'' \<mapsto> PInt pct,
            u ''commanded_w'' \<mapsto> PFloat cmd_w,
            u ''received_mw'' \<mapsto> PFloat rcv_mw,
            u ''efficiency_pct'' \<mapsto> PFloat eff,
            u ''link_quality_pct'' \<mapsto> PInt lq,
            u ''rtt_ms'' \<mapsto> PFloat rtt,
            u ''grants_total'' \<mapsto> PInt grants,
            u ''denies_total'' \<mapsto> PInt denies ]"
    "(if truthy (group m ''dist'')
      then then_exc (py_float (group m ''dist'')) (\<lambda>d. Inr (d0(u ''distance_m'' \<mapsto> PFloat d)))
      else Inr d0) = Inr d1"
    "(if truthy (group m ''roll'')
      then then_exc (py_float (group m ''roll'')) (\<lambda>r. Inr (d1(u ''roll_deg'' \<mapsto> PFloat r)))
      else Inr d1) = Inr d2"
    "(if truthy (group m ''pitch'')
      then then_exc (py_float (group m ''pitch'')) (\<lambda>p. Inr (d2(u ''pitch_deg'' \<mapsto> PFloat p)))
      else Inr d2) = Inr data"
  using assms unfolding ground_telemetry_data_def Let_def
  by (elim then_excE) blast

lemma ground_keys_distinct:
  "distinct [u ''commanded_pct'', u ''commanded_w'', u ''received_mw'', u ''efficiency_pct'',
             u ''link_quality_pct'', u ''rtt_ms'', u ''grants_total'', u ''denies_total'',
             u ''distance_m'', u ''roll_deg'', u ''pitch_deg'']"
  by simp


lemma ground_example_match:
  "map_option closed (rx_search ground_telemetry_pattern ground_example_line) = Some
    [(''pitch'', u ''-8.1''), (''roll'', u ''35.2''), (''dist'', u ''42.1''), (''grant_rate'', u ''83''),
     (''denies'', u ''89''), (''grants'', u ''450''), (''rtt'', u ''34.5''), (''lq'', u ''92''),
     (''eff'', u ''20.0''), (''rcv_mw'', u ''45000.0''), (''cmd_w'', u ''225.0''), (''pct'', u ''45'')]"
  by (simp add: ground_example_line_def ground_telemetry_pattern_def u_def close_group_def)

lemma conv_examples:
  "py_int (Some (u ''45'')) = Inr 45" "py_float (Some (u ''225.0'')) = Inr 225"
  "py_float (Some (u ''45000.0'')) = Inr 45000" "py_float (Some (u ''20.0'')) = Inr 20"
  "py_int (Some (u ''92'')) = Inr 92" "py_float (Some (u ''34.5'')) = Inr 34.5"
  "py_int (Some (u ''450'')) = Inr 450" "py_int (Some (u ''89'')) = Inr 89"
  "py_float (Some (u ''42.1'')) = Inr 42.1" "py_float (Some (u ''35.2'')) = Inr 35.2"
  "py_float (Some (u ''-8.1'')) = Inr (- 8.1)"
  by (simp_all add: py_int_def int_max_str_digits_def py_float_def unsigned_int_def unsigned_float_def all_digits_def
      digit_val_def u_def Let_def)

lemma truthy_Some_u [simp]: "truthy (Some (u s)) = (s \<noteq> [])"
  by (simp add: truthy_def u_def)


lemma two_dots_match:
  "map_option closed (rx_search ground_telemetry_pattern ground_two_dots_line) = Some
    [(''denies'', u ''89''), (''grants'', u ''450''), (''rtt'', u ''34.5''), (''lq'', u ''92''),
     (''eff'', u ''20.0''), (''rcv_mw'', u ''45000.0''), (''cmd_w'', u ''1.2.3''), (''pct'', u ''45'')]"
  by (simp add: ground_two_dots_line_def ground_telemetry_pattern_def u_def close_group_def)

lemma two_dots_float:
  "py_float (Some (u ''1.2.3'')) =
     Inl (ValueError (u ''could not convert string to float: '' @ [39] @ u ''1.2.3'' @ [39]))"
  by (simp add: py_float_def unsigned_float_def all_digits_def u_def Let_def)


lemma add_event_telemetry:
  "telemetry (snd (add_event lv sr cd m s)) = telemetry s"
  by (auto simp: add_event_def with_lock_def Let_def split: option.splits)

lemma grant_data_shape:
  assumes "grant_data m = Inr data"
  obtains dist roll pitch seq where
    "py_float (group m ''dist'') = Inr dist" "py_float (group m ''roll'') = Inr roll"
    "py_float (group m ''pitch'') = Inr pitch" "py_int (group m ''seq'') = Inr seq"
    "data = [ u ''granted'' \<mapsto> PBool True,
              u ''deny_reason'' \<mapsto> PNone,
              u ''distance_m'' \<mapsto> PFloat dist,
              u ''roll_deg'' \<mapsto> PFloat roll,
              u ''pitch_deg'' \<mapsto> PFloat pitch,
              u ''seq'' \<mapsto> PInt seq ]"
  using assms unfolding grant_data_def
  by (elim then_excE) auto

lemma float_square_in_range: "x\<^sup>2 \<le> float_max \<Longrightarrow> float_square x = Inr (x\<^sup>2)"
  by (simp add: float_square_def)

lemma attitude_error_in_range:
  "roll\<^sup>2 \<le> float_max \<Longrightarrow> pitch\<^sup>2 \<le> float_max \<Longrightarrow>
     attitude_error roll pitch = Inr (sqrt (roll\<^sup>2 + pitch\<^sup>2))"
  by (simp add: attitude_error_def then_exc_def float_square_in_range)

lemma air_parse_line_grant_steps:
  assumes "rx_search grant_pattern line = Some m"
      and "grant_data m = Inr data"
      and "py_float (group m ''roll'') = Inr roll" "py_float (group m ''pitch'') = Inr pitch"
  shows "attitude_error roll pitch = Inl e \<Longrightarrow>
           fst (air_parse_line line (p, s)) = Some e \<and>
           telemetry (snd (snd (air_parse_line line (p, s)))) = telemetry s ++ data"
    and "attitude_error roll pitch = Inr att \<Longrightarrow>
           fst (air_parse_line line (p, s)) = None \<and>
           telemetry (snd (snd (air_parse_line line (p, s)))) =
             telemetry s ++ data ++ [u ''cone_violation'' \<mapsto> PBool (12 < att)]"
proof -
  from assms(2) obtain dist roll' pitch' seq where
    c: "py_float (group m ''roll'') = Inr roll'" "py_float (group m ''pitch'') = Inr pitch'"
    and d: "data = [ u ''granted'' \<mapsto> PBool True,
              u ''deny_reason'' \<mapsto> PNone,
              u ''distance_m'' \<mapsto> PFloat dist,
              u ''roll_deg'' \<mapsto> PFloat roll',
              u ''pitch_deg'' \<mapsto> PFloat pitch',
              u ''seq'' \<mapsto> PInt seq ]"
    by (rule grant_data_shape)
  have nr: "data (u ''rtt_ms'') = None" by (simp add: d)
  obtain s1 where s1: "update_telemetry data s = (None, s1)" "telemetry s1 = telemetry s ++ data"
    using update_telemetry_no_rtt [of data s, OF nr] by (cases "update_telemetry data s") auto
  have rp: "then_exc (py_float (group m ''roll'')) (\<lambda>roll.
              then_exc (py_float (group m ''pitch'')) (\<lambda>pitch. Inr (roll, pitch))) = Inr (roll, pitch)"
    by (simp add: then_exc_def assms(3,4))
  show "fst (air_parse_line line (p, s)) = Some e \<and>
      telemetry (snd (snd (air_parse_line line (p, s)))) = telemetry s ++ data"
    if "attitude_error roll pitch = Inl e"
    by (simp add: air_parse_line_def assms(1,2) s1 rp that)
  show "fst (air_parse_line line (p, s)) = None \<and>
      telemetry (snd (snd (air_parse_line line (p, s)))) =
        telemetry s ++ data ++ [u ''cone_violation'' \<mapsto> PBool (12 < att)]"
    if att: "attitude_error roll pitch = Inr att"
  proof -
    define cv where "cv = [u ''cone_violation'' \<mapsto> PBool (12 < att)]"
    have nc: "cv (u ''rtt_ms'') = None" by (simp add: cv_def)
    obtain s2 where s2: "update_telemetry cv s1 = (None, s2)" "telemetry s2 = telemetry s1 ++ cv"
      using update_telemetry_no_rtt [of cv s1, OF nc] by (cases "update_telemetry cv s1") auto
    have pl: "air_parse_line line (p, s) =
        (let current_time = clock s2;
             time_since_last_event = current_time - last_grant_event_time p
         in if grant_event_throttle_seconds p \<le> time_since_last_event
            then (case add_event (u ''INFO'') (u ''air'') (u ''GRANT'')
                         (u ''Seq '' @ group_str m ''seq'' @ u '': '' @
                          group_str m ''cmd_w'' @ u ''W @ '' @
                          group_str m ''dist'' @ u ''m'') s2 of
                    (e, s3) \<Rightarrow> (e, p\<lparr>last_grant_event_time := current_time\<rparr>, s3))
            else (None, p, s2))"
      by (simp add: air_parse_line_def assms(1,2) s1 rp att s2 [unfolded cv_def])
    have "fst (air_parse_line line (p, s)) = None \<and>
        telemetry (snd (snd (air_parse_line line (p, s)))) = telemetry s ++ data ++ cv"
      unfolding pl Let_def
      by (simp add: s1 s2 case_prod_beta add_event_raises_nothing add_event_telemetry)
    then show ?thesis
      by (simp add: cv_def)
  qed
qed


text \<open>
  Beyond that range the first merge has been made when \<open>roll**2\<close> or \<open>pitch**2\<close> raises
  \<open>OverflowError\<close>: the decoder raises, and \<open>cone_violation\<close> is not merged.
\<close>

lemma air_parse_line_grant_overflow:
  assumes "rx_search grant_pattern line = Some m"
      and "grant_data m = Inr data"
      and "py_float (group m ''roll'') = Inr roll" "py_float (group m ''pitch'') = Inr pitch"
      and "\<bar>roll\<bar> \<le> float_max" "float_max < roll\<^sup>2"
  shows "fst (air_parse_line line (p, s)) =
           Some (OverflowError
                   (u ''(34, '' @ [39] @ u ''Numerical result out of range'' @ [39] @ u '')'')) \<and>
         telemetry (snd (snd (air_parse_line line (p, s)))) = telemetry s ++ data"
proof -
  have "attitude_error roll pitch =
      Inl (OverflowError (u ''(34, '' @ [39] @ u ''Numerical result out of range'' @ [39] @ u '')''))"
    using assms(5,6) by (simp add: attitude_error_def float_square_def then_exc_def)
  from air_parse_line_grant_steps(1) [OF assms(1-4) this] show ?thesis .
qed

lemma air_example_match:
  "map_option closed (rx_search grant_pattern air_example_line) = Some
    [(''pitch'', u ''0.0''), (''roll'', u ''0.0''), (''dist'', u ''50.0''), (''eff'', u ''40.0''),
     (''rcv_mw'', u ''40000.0''), (''cmd_w'', u ''100''), (''seq'', u ''123'')]"
  by (simp add: air_example_line_def grant_pattern_def u_def close_group_def)

lemma air_tilted_match:
  "map_option closed (rx_search grant_pattern air_tilted_line) = Some
    [(''pitch'', u ''10.0''), (''roll'', u ''10.0''), (''dist'', u ''50.0''), (''eff'', u ''40.0''),
     (''rcv_mw'', u ''40000.0''), (''cmd_w'', u ''100''), (''seq'', u ''124'')]"
  by (simp add: air_tilted_line_def grant_pattern_def u_def close_group_def)

lemma air_two_dots_match:
  "map_option closed (rx_search grant_pattern air_two_dots_line) = Some
    [(''pitch'', u ''0.0''), (''roll'', u ''0.0''), (''dist'', u ''5.0.0''), (''eff'', u ''40.0''),
     (''rcv_mw'', u ''40000.0''), (''cmd_w'', u ''100''), (''seq'', u ''125'')]"
  by (simp add: air_two_dots_line_def grant_pattern_def u_def close_group_def)

lemma air_conv_examples:
  "py_float (Some (u ''0.0'')) = Inr 0" "py_float (Some (u ''50.0'')) = Inr 50"
  "py_float (Some (u ''10.0'')) = Inr 10" "py_int (Some (u ''123'')) = Inr 123"
  "py_int (Some (u ''124'')) = Inr 124"
  "py_float (Some (u ''5.0.0'')) =
     Inl (ValueError (u ''could not convert string to float: '' @ [39] @ u ''5.0.0'' @ [39]))"
  by (simp_all add: py_int_def int_max_str_digits_def py_float_def unsigned_int_def unsigned_float_def all_digits_def
      digit_val_def u_def Let_def)

lemma sqrt_200: "12 < sqrt 200"
  by (rule real_less_rsqrt) simp

lemma float_max_ge: "100 \<le> float_max"
proof -
  have e: "(2::real) ^ 1024 = 2 ^ 53 * 2 ^ 971"
    by (simp add: power_add [symmetric])
  have f: "float_max = (2 ^ 53 - 1) * 2 ^ 971"
    unfolding float_max_def e by (simp add: algebra_simps)
  have a: "(100::real) \<le> 2 ^ 53 - 1"
    by simp
  have b: "(1::real) \<le> 2 ^ 971"
    by (rule one_le_power) simp
  have "(100::real) * 1 \<le> (2 ^ 53 - 1) * 2 ^ 971"
    using a b by (rule mult_mono) simp_all
  then show ?thesis
    unfolding f by simp
qed



section \<open>The supervisor\<close>

subsection \<open>Coroutines\<close>

lemma ret_simp: "ret x w = (Return x, w)"
  by (simp add: ret_def)

lemma raise_simp: "raise e w = (Raise e, w)"
  by (simp add: raise_def)

lemma then_with_Return: "m w = (Return x, w') \<Longrightarrow> then_with m k w = k x w'"
  by (simp add: then_with_def)

lemma then_with_Raise: "m w = (Raise e, w') \<Longrightarrow> then_with m k w = (Raise e, w')"
  by (simp add: then_with_def)

lemma then_with_Pending: "m w = (Pending, w') \<Longrightarrow> then_with m k w = (Pending, w')"
  by (simp add: then_with_def)

lemma andthen_Return: "m w = (Return x, w') \<Longrightarrow> andthen m k w = k w'"
  by (simp add: andthen_def then_with_def)

lemma andthen_Raise: "m w = (Raise e, w') \<Longrightarrow> andthen m k w = (Raise e, w')"
  by (simp add: andthen_def then_with_def)

lemma andthen_Pending: "m w = (Pending, w') \<Longrightarrow> andthen m k w = (Pending, w')"
  by (simp add: andthen_def then_with_def)

lemma block_Nil: "block [] w = (Return (), w)"
  by (simp add: ret_def)

lemma block_Cons_Return: "c w = (Return x, w') \<Longrightarrow> block (c # cs) w = block cs w'"
  by (simp add: andthen_Return)

lemma block_Cons_Raise: "c w = (Raise e, w') \<Longrightarrow> block (c # cs) w = (Raise e, w')"
  by (simp add: andthen_Raise)

lemma block_Cons_Pending: "c w = (Pending, w') \<Longrightarrow> block (c # cs) w = (Pending, w')"
  by (simp add: andthen_Pending)

lemma on_state_None:
  "fst (f (state w)) = None \<Longrightarrow> on_state f w = (Return (), w\<lparr>state := snd (f (state w))\<rparr>)"
  by (cases "f (state w)") (simp add: on_state_def)

lemma set_status_raises_nothing: "fst (set_status x s) = None"
  by (simp add: set_status_def Let_def add_event_raises_nothing)

lemma event_result:
  "event lv sr cd m w = (Return (), w\<lparr>state := snd (add_event (u lv) sr (u cd) m (state w))\<rparr>)"
  by (simp add: event_def on_state_None add_event_raises_nothing)

lemma status_to_result:
  "status_to x w = (Return (), w\<lparr>state := snd (set_status (u x) (state w))\<rparr>)"
  by (simp add: status_to_def on_state_None set_status_raises_nothing)

subsection \<open>Events that stay in the log\<close>

lemma deque_append_recent:
  assumes "m + 1 \<le> n" "x \<in> set (drop (length xs - m) xs)"
  shows "x \<in> set (drop (length (deque_append n e xs) - (m + 1)) (deque_append n e xs))"
proof (cases "n < length xs + 1")
  case False
  then have "deque_append n e xs = xs @ [e]"
    using assms(1) by (simp add: deque_append_def Let_def)
  then show ?thesis
    using assms(2) by simp
next
  case True
  then have d: "deque_append n e xs = tl (xs @ [e])"
    using assms(1) by (simp add: deque_append_def Let_def)
  have "drop (length xs - (m + 1)) (tl (xs @ [e])) = drop (length xs - m) (xs @ [e])"
    using True assms(1) by (simp add: drop_Suc [symmetric] Suc_diff_Suc del: drop_append)
  then show ?thesis
    using assms(2) by (simp add: d)
qed

lemma deque_append_newest:
  "0 < n \<Longrightarrow> e \<in> set (drop (length (deque_append n e xs) - 1) (deque_append n e xs))"
  by (cases xs) (auto simp: deque_append_def Let_def)

lemma recent_mono:
  assumes "recent m ev w" "m \<le> k"
  shows "recent k ev w"
proof -
  have "length (events (state w)) - k \<le> length (events (state w)) - m"
    using assms(2) by simp
  from set_drop_subset_set_drop [OF this, of "events (state w)"] assms(1) show ?thesis
    unfolding recent_def by auto
qed

lemma recent_in_events: "recent m ev w \<Longrightarrow> ev \<in> set (events (state w))"
  unfolding recent_def by (rule in_set_dropD)

subsection \<open>Primitive steps\<close>

lemma add_event_status: "status (snd (add_event lv sr cd m s)) = status s"
  by (auto simp: add_event_def with_lock_def Let_def split: option.splits)

lemma set_status_status: "status (snd (set_status x s)) = x"
  by (simp add: set_status_def Let_def add_event_status with_lock_def)

lemma set_status_events:
  "events (snd (set_status x s)) =
     deque_append 500
       (make_event (u ''INFO'') (u ''server'') (u ''STATUS_CHANGE'')
          (u ''Status changed from '' @ status s @ u '' to '' @ x) s) (events s)"
  by (simp add: set_status_def Let_def add_event_events with_lock_def make_event_def)

lemma call_result:
  "call c r w = ((case r of None \<Rightarrow> Return () | Some e \<Rightarrow> Raise e), w\<lparr>calls := calls w @ [c]\<rparr>)"
  by (simp add: call_def)

lemma sleep_result: "sleep d w = (Return (), w\<lparr>calls := calls w @ [Sleep d]\<rparr>)"
  by (simp add: sleep_def call_def)

lemma set_slot_result:
  "set_slot name p w = (Return (), w\<lparr>processes := (processes w)(name := p)\<rparr>)"
  by (simp add: set_slot_def assign_def)

lemma set_pid_result:
  "set_pid name p w = (Return (), w\<lparr>state := set_process_pid (role_name name) p (state w)\<rparr>)"
  by (simp add: set_pid_def assign_def)

subsection \<open>How coroutines end\<close>

named_theorems ends_intros

lemma returns_finishes: "returns c \<Longrightarrow> finishes c"
  by (simp add: returns_def finishes_def)

lemma finishes_ret [ends_intros]: "finishes (ret x)"
  by (simp add: ret_def raise_def finishes_def)

lemma finishes_raise [ends_intros]: "finishes (raise e)"
  by (simp add: ret_def raise_def finishes_def)

lemma finishes_then_with [ends_intros]:
  assumes "finishes m" "\<And>x. finishes (k x)"
  shows "finishes (then_with m k)"
  unfolding finishes_def
proof
  fix w
  obtain r w' where mw: "m w = (r, w')"
    by (cases "m w")
  have "r \<noteq> Pending"
    using assms(1) mw by (auto simp: finishes_def dest: spec [of _ w])
  then show "fst (then_with m k w) \<noteq> Pending"
    using assms(2) mw by (cases r) (simp_all add: then_with_def finishes_def)
qed

lemma finishes_andthen [ends_intros]: "finishes m \<Longrightarrow> finishes k \<Longrightarrow> finishes (andthen m k)"
  by (simp add: andthen_def finishes_then_with)

lemma finishes_block_Nil [ends_intros]: "finishes (block [])"
  by (simp add: ret_def raise_def finishes_def)

lemma finishes_block_Cons [ends_intros]: "finishes c \<Longrightarrow> finishes (block cs) \<Longrightarrow> finishes (block (c # cs))"
  by (simp add: finishes_andthen)

lemma finishes_if_then [ends_intros]: "finishes c \<Longrightarrow> finishes (if_then b c)"
  by (simp add: finishes_def if_then_def)

lemma finishes_try_except [ends_intros]:
  assumes "finishes m" "\<And>e. finishes (h e)"
  shows "finishes (try_except m h)"
  unfolding finishes_def
proof
  fix w
  obtain r w' where mw: "m w = (r, w')"
    by (cases "m w")
  have "r \<noteq> Pending"
    using assms(1) mw by (auto simp: finishes_def dest: spec [of _ w])
  then show "fst (try_except m h w) \<noteq> Pending"
    using assms(2) mw by (cases r) (simp_all add: try_except_def finishes_def)
qed

lemma finishes_try_finally [ends_intros]:
  assumes "finishes m" "finishes fin"
  shows "finishes (try_finally m fin)"
  unfolding finishes_def
proof
  fix w
  obtain r w' where mw: "m w = (r, w')"
    by (cases "m w")
  obtain r' w'' where fw: "fin w' = (r', w'')"
    by (cases "fin w'")
  have "r \<noteq> Pending"
    using assms(1) mw by (auto simp: finishes_def dest: spec [of _ w])
  moreover have "r' \<noteq> Pending"
    using assms(2) fw by (auto simp: finishes_def dest: spec [of _ w'])
  ultimately show "fst (try_finally m fin w) \<noteq> Pending"
    using mw fw by (cases r; cases r') (simp_all add: try_finally_def)
qed

lemma returns_ret [ends_intros]: "returns (ret ())"
  by (simp add: ret_def raise_def returns_def)

lemma returns_event [ends_intros]: "returns (event lv sr cd m)"
  by (simp add: returns_def event_result)

lemma returns_status_to [ends_intros]: "returns (status_to x)"
  by (simp add: returns_def status_to_result)

lemma returns_assign [ends_intros]: "returns (assign f)"
  by (simp add: returns_def assign_def)

lemma returns_set_slot [ends_intros]: "returns (set_slot name p)"
  by (simp add: set_slot_def returns_assign)

lemma returns_set_pid [ends_intros]: "returns (set_pid name p)"
  by (simp add: set_pid_def returns_assign)

lemma returns_sleep [ends_intros]: "returns (sleep d)"
  by (simp add: returns_def sleep_def call_def)

lemma finishes_call [ends_intros]: "finishes (call c r)"
  by (simp add: finishes_def call_def split: option.split)

lemma returns_andthen [ends_intros]:
  assumes "returns m" "returns k"
  shows "returns (andthen m k)"
  unfolding returns_def
proof
  fix w
  obtain w' where "m w = (Return (), w')"
    using assms(1) by (cases "m w") (auto simp: returns_def dest: spec [of _ w])
  then show "fst (andthen m k w) = Return ()"
    using assms(2) by (simp add: andthen_Return returns_def)
qed

lemma returns_block_Nil [ends_intros]: "returns (block [])"
  by (simp add: ret_def raise_def returns_def)

lemma returns_block_Cons [ends_intros]: "returns c \<Longrightarrow> returns (block cs) \<Longrightarrow> returns (block (c # cs))"
  by (simp add: returns_andthen)

lemma returns_if_then [ends_intros]: "returns c \<Longrightarrow> returns (if_then b c)"
  by (simp add: returns_def if_then_def)

lemma returns_try_except [ends_intros]:
  assumes "finishes m" "\<And>e. returns (h e)"
  shows "returns (try_except m h)"
  unfolding returns_def
proof
  fix w
  obtain r w' where mw: "m w = (r, w')"
    by (cases "m w")
  have "r \<noteq> Pending"
    using assms(1) mw by (auto simp: finishes_def dest: spec [of _ w])
  then show "fst (try_except m h w) = Return ()"
    using assms(2) mw by (cases r) (simp_all add: try_except_def returns_def)
qed

lemma returns_try_finally [ends_intros]:
  assumes "returns m" "returns fin"
  shows "returns (try_finally m fin)"
  unfolding returns_def
proof
  fix w
  obtain w' where mw: "m w = (Return (), w')"
    using assms(1) by (cases "m w") (auto simp: returns_def dest: spec [of _ w])
  obtain w'' where fw: "fin w' = (Return (), w'')"
    using assms(2) by (cases "fin w'") (auto simp: returns_def dest: spec [of _ w'])
  show "fst (try_finally m fin w) = Return ()"
    by (simp add: try_finally_def mw fw)
qed

lemma finishes_event [ends_intros]: "finishes (event lv sr cd m)"
  by (rule returns_finishes) (rule returns_event)

lemma finishes_status_to [ends_intros]: "finishes (status_to x)"
  by (rule returns_finishes) (rule returns_status_to)

lemma finishes_assign [ends_intros]: "finishes (assign f)"
  by (rule returns_finishes) (rule returns_assign)

lemma finishes_set_slot [ends_intros]: "finishes (set_slot name p)"
  by (rule returns_finishes) (rule returns_set_slot)

lemma finishes_set_pid [ends_intros]: "finishes (set_pid name p)"
  by (rule returns_finishes) (rule returns_set_pid)

lemma finishes_sleep [ends_intros]: "finishes (sleep d)"
  by (rule returns_finishes) (rule returns_sleep)

lemma finishes_if [ends_intros]: "finishes c \<Longrightarrow> finishes d \<Longrightarrow> finishes (if p then c else d)"
  by simp

lemma returns_if [ends_intros]: "returns c \<Longrightarrow> returns d \<Longrightarrow> returns (if p then c else d)"
  by simp

lemma returns_call_None: "returns (call c None)"
  by (simp add: returns_def call_def)

subsection \<open>How runs evolve\<close>

lemma evolves_refl: "evolves b 0 w w"
  by (simp add: evolves_def)

lemma evolves_trans:
  assumes "evolves b j w w1" "evolves b k w1 w2"
  shows "evolves b (j + k) w w2"
proof -
  have p: "processes w2 name = None \<or> processes w2 name = processes w name" for name
    using assms unfolding evolves_def by metis
  have r: "recent (m + (j + k)) ev w2" if "m + (j + k) \<le> 500" "recent m ev w" for ev m
  proof -
    have "recent (m + j) ev w1"
      using assms(1) that unfolding evolves_def by simp
    then have "recent (m + j + k) ev w2"
      using assms(2) that(1) unfolding evolves_def by simp
    then show ?thesis
      by (simp add: add.assoc)
  qed
  show ?thesis
    unfolding evolves_def using assms p r by (simp add: evolves_def)
qed

lemma evolves_mono:
  assumes "evolves b j w w'" "j \<le> k"
  shows "evolves b k w w'"
proof -
  have "recent (m + k) ev w'" if "m + k \<le> 500" "recent m ev w" for ev m
  proof -
    have a: "recent (m + j) ev w'"
      using assms that unfolding evolves_def by simp
    have c: "m + j \<le> m + k"
      using assms(2) by simp
    from recent_mono [OF a c] show ?thesis .
  qed
  then show ?thesis
    using assms(1) by (simp add: evolves_def)
qed

lemma evolves_weaken: "evolves True k w w' \<Longrightarrow> evolves b k w w'"
  by (simp add: evolves_def)

lemma evolves_same_events:
  assumes "b \<Longrightarrow> shutting_down w' = shutting_down w \<and> monitor_tasks w' = monitor_tasks w \<and>
      status (state w') = status (state w)"
    "lands w' = lands w"
    "\<And>name. processes w' name = None \<or> processes w' name = processes w name"
    "events (state w') = events (state w)"
  shows "evolves b 0 w w'"
  using assms by (simp add: evolves_def recent_def)

lemma evolves_one_event:
  assumes "b \<Longrightarrow> shutting_down w' = shutting_down w \<and> monitor_tasks w' = monitor_tasks w \<and>
      status (state w') = status (state w)"
    "lands w' = lands w"
    "\<And>name. processes w' name = None \<or> processes w' name = processes w name"
    "events (state w') = deque_append 500 e (events (state w))"
  shows "evolves b 1 w w'"
  using assms deque_append_recent [of _ 500 _ "events (state w)" e]
  by (simp add: evolves_def recent_def)

named_theorems logs_intros

lemma logs_mono: "logs b j c \<Longrightarrow> j \<le> k \<Longrightarrow> logs b k c"
  unfolding logs_def using evolves_mono by blast

lemma logs_weaken: "logs True k c \<Longrightarrow> logs b k c"
  unfolding logs_def using evolves_weaken by blast

lemma logs_ret [logs_intros]: "logs b 0 (ret x)"
  by (simp add: ret_def raise_def logs_def evolves_refl)

lemma logs_raise [logs_intros]: "logs b 0 (raise e)"
  by (simp add: ret_def raise_def logs_def evolves_refl)

lemma logs_then_with [logs_intros]:
  assumes "logs b j m" "\<And>x. logs b k (n x)"
  shows "logs b (j + k) (then_with m n)"
  unfolding logs_def
proof
  fix w
  obtain r w' where mw: "m w = (r, w')"
    by (cases "m w")
  have e: "evolves b j w w'"
    using assms(1) mw by (auto simp: logs_def dest: spec [of _ w])
  show "evolves b (j + k) w (snd (then_with m n w))"
  proof (cases r)
    case (Return x)
    have "evolves b k w' (snd (n x w'))"
      using assms(2) by (simp add: logs_def)
    from evolves_trans [OF e this] show ?thesis
      by (simp add: then_with_def mw Return)
  next
    case (Raise x)
    then show ?thesis
      using evolves_mono [OF e, of "j + k"] by (simp add: then_with_def mw)
  next
    case Pending
    then show ?thesis
      using evolves_mono [OF e, of "j + k"] by (simp add: then_with_def mw)
  qed
qed

lemma logs_andthen [logs_intros]: "logs b j m \<Longrightarrow> logs b k n \<Longrightarrow> logs b (j + k) (andthen m n)"
  by (simp add: andthen_def logs_then_with)

lemma logs_block_Nil [logs_intros]: "logs b 0 (block [])"
  by (simp add: ret_def raise_def logs_def evolves_refl)

lemma logs_block_Cons [logs_intros]:
  "logs b j c \<Longrightarrow> logs b k (block cs) \<Longrightarrow> logs b (j + k) (block (c # cs))"
  by (simp add: logs_andthen)

lemma logs_if_then [logs_intros]: "logs b k c \<Longrightarrow> logs b k (if_then p c)"
  using evolves_mono [OF evolves_refl, of k b] by (simp add: logs_def if_then_def)

lemma logs_if [logs_intros]:
  "logs b j c \<Longrightarrow> logs b k d \<Longrightarrow> logs b (j + k) (if p then c else d)"
  by (cases p) (auto intro: logs_mono)

lemma logs_try_except [logs_intros]:
  assumes "logs b j m" "\<And>e. logs b k (h e)"
  shows "logs b (j + k) (try_except m h)"
  unfolding logs_def
proof
  fix w
  obtain r w' where mw: "m w = (r, w')"
    by (cases "m w")
  have e: "evolves b j w w'"
    using assms(1) mw by (auto simp: logs_def dest: spec [of _ w])
  show "evolves b (j + k) w (snd (try_except m h w))"
  proof (cases r)
    case (Raise x)
    have "evolves b k w' (snd (h x w'))"
      using assms(2) by (simp add: logs_def)
    from evolves_trans [OF e this] show ?thesis
      by (simp add: try_except_def mw Raise)
  next
    case (Return x)
    then show ?thesis
      using evolves_mono [OF e, of "j + k"] by (simp add: try_except_def mw)
  next
    case Pending
    then show ?thesis
      using evolves_mono [OF e, of "j + k"] by (simp add: try_except_def mw)
  qed
qed

lemma logs_try_finally [logs_intros]:
  assumes "logs b j m" "logs b k fin"
  shows "logs b (j + k) (try_finally m fin)"
  unfolding logs_def
proof
  fix w
  obtain r w' where mw: "m w = (r, w')"
    by (cases "m w")
  obtain r' w'' where fw: "fin w' = (r', w'')"
    by (cases "fin w'")
  have e: "evolves b j w w'"
    using assms(1) mw by (auto simp: logs_def dest: spec [of _ w])
  have "evolves b k w' w''"
    using assms(2) fw by (auto simp: logs_def dest: spec [of _ w'])
  from evolves_trans [OF e this] have t: "evolves b (j + k) w w''" .
  show "evolves b (j + k) w (snd (try_finally m fin w))"
    using t evolves_mono [OF e, of "j + k"]
    by (cases r; cases r') (simp_all add: try_finally_def mw fw)
qed

lemma logs_event [logs_intros]: "logs b 1 (event lv sr cd m)"
  unfolding logs_def
  by (intro allI evolves_one_event)
     (simp_all add: event_result lands_def add_event_status add_event_events)

lemma logs_status_to [logs_intros]: "logs False 1 (status_to x)"
  unfolding logs_def
  by (intro allI evolves_one_event)
     (simp_all add: status_to_result lands_def set_status_events)

lemma logs_call [logs_intros]: "c \<noteq> Land \<Longrightarrow> logs b 0 (call c r)"
  unfolding logs_def
  by (intro allI evolves_same_events) (simp_all add: call_def lands_def)

lemma logs_sleep [logs_intros]: "logs b 0 (sleep d)"
  by (simp add: sleep_def logs_call)

lemma logs_clear_slot [logs_intros]: "logs b 0 (set_slot name None)"
  unfolding logs_def
  by (intro allI evolves_same_events) (simp_all add: set_slot_result lands_def)

lemma logs_set_pid [logs_intros]: "logs b 0 (set_pid name p)"
  unfolding logs_def
  by (intro allI evolves_same_events)
     (simp_all add: set_pid_result lands_def set_process_pid_def with_lock_def)

lemma logs_set_flag [logs_intros]: "logs False 0 (assign (\<lambda>w. w\<lparr>shutting_down := v\<rparr>))"
  unfolding logs_def
  by (intro allI evolves_same_events) (simp_all add: assign_def lands_def)

lemma logs_clear_tasks [logs_intros]: "logs False 0 (assign (\<lambda>w. w\<lparr>monitor_tasks := []\<rparr>))"
  unfolding logs_def
  by (intro allI evolves_same_events) (simp_all add: assign_def lands_def)

subsection \<open>Stopping a process\<close>

lemma wait_stop_finishes [ends_intros]: "finishes (wait_stop env name p polls)"
  by (induction polls) (auto intro!: ends_intros)

lemma wait_stop_logs: "logs b 1 (wait_stop env name p polls)"
proof (induction polls)
  case Nil
  have "logs b 1 (ret False)"
    by (rule logs_mono, rule logs_intros, simp)
  then show ?case
    by simp
next
  case (Cons i rest)
  show ?case
  proof (cases "seen_exited env p i")
    case True
    have "logs b 1 (andthen
             (event ''INFO'' (role_name name) ''PROCESS_STOP''
                (role_name name @ u '' stopped gracefully''))
             (andthen (set_slot name None) (ret True)))"
      by (rule logs_mono, (rule logs_intros)+, simp)
    then show ?thesis
      using True by simp
  next
    case False
    have "logs b 1 (andthen (sleep 0.1) (wait_stop env name p rest))"
      by (rule logs_mono, rule logs_intros, rule logs_intros, rule Cons, simp)
    then show ?thesis
      using False by simp
  qed
qed

lemma stop_process_returns [ends_intros]: "returns (stop_process env name)"
  unfolding returns_def
proof
  fix w
  show "fst (stop_process env name w) = Return ()"
  proof (cases "processes w name")
    case None
    then show ?thesis
      by (simp add: stop_process_def)
  next
    case (Some proc)
    have "returns (try_finally
               (try_except
                  (andthen (call (Killpg (pid proc) SIGTERM) (os_killpg env (pid proc) SIGTERM))
                     (then_with (wait_stop env name proc [0..<50])
                        (\<lambda>returned.
                           if returned then ret ()
                           else block
                             [call (Killpg (pid proc) SIGKILL) (os_killpg env (pid proc) SIGKILL),
                              event ''WARN'' (role_name name) ''PROCESS_KILL''
                                (role_name name @
                                 u '' force killed (did not respond to SIGTERM)'')])))
                  (\<lambda>e. if e = ProcessLookupError then ret ()
                       else event ''ERROR'' (u ''server'') ''STOP_ERROR''
                              (u ''Error stopping '' @ role_name name @ u '': '' @ exc_str e)))
               (block [set_slot name None, set_pid name None]))"
      by (intro ends_intros allI)
    then show ?thesis
      using Some by (simp add: stop_process_def returns_def set_slot_result del: upt_Suc)
  qed
qed

lemma stop_process_logs [logs_intros]: "logs b 3 (stop_process env name)"
  unfolding logs_def
proof
  fix w
  show "evolves b 3 w (snd (stop_process env name w))"
  proof (cases "processes w name")
    case None
    then show ?thesis
      using evolves_mono [OF evolves_refl, of 3 b w] by (simp add: stop_process_def)
  next
    case (Some proc)
    have "logs b 3 (try_finally
               (try_except
                  (andthen (call (Killpg (pid proc) SIGTERM) (os_killpg env (pid proc) SIGTERM))
                     (then_with (wait_stop env name proc [0..<50])
                        (\<lambda>returned.
                           if returned then ret ()
                           else block
                             [call (Killpg (pid proc) SIGKILL) (os_killpg env (pid proc) SIGKILL),
                              event ''WARN'' (role_name name) ''PROCESS_KILL''
                                (role_name name @
                                 u '' force killed (did not respond to SIGTERM)'')])))
                  (\<lambda>e. if e = ProcessLookupError then ret ()
                       else event ''ERROR'' (u ''server'') ''STOP_ERROR''
                              (u ''Error stopping '' @ role_name name @ u '': '' @ exc_str e)))
               (block [set_slot name None, set_pid name None]))"
      by (rule logs_mono, (rule logs_intros wait_stop_logs | simp)+)
    moreover have "logs b 3 (set_slot name None)"
      by (rule logs_mono, rule logs_intros, simp)
    ultimately show ?thesis
      using Some by (simp add: stop_process_def logs_def del: upt_Suc)
  qed
qed

lemma stop_process_clears: "processes (snd (stop_process env name w)) name = None"
proof (cases "processes w name")
  case None
  then show ?thesis
    by (simp add: stop_process_def)
next
  case (Some proc)
  define body where "body = try_except
                  (andthen (call (Killpg (pid proc) SIGTERM) (os_killpg env (pid proc) SIGTERM))
                     (then_with (wait_stop env name proc [0..<50])
                        (\<lambda>returned.
                           if returned then ret ()
                           else block
                             [call (Killpg (pid proc) SIGKILL) (os_killpg env (pid proc) SIGKILL),
                              event ''WARN'' (role_name name) ''PROCESS_KILL''
                                (role_name name @
                                 u '' force killed (did not respond to SIGTERM)'')])))
                  (\<lambda>e. if e = ProcessLookupError then ret ()
                       else event ''ERROR'' (u ''server'') ''STOP_ERROR''
                              (u ''Error stopping '' @ role_name name @ u '': '' @ exc_str e))"
  have "returns body"
    unfolding body_def by (intro ends_intros allI)
  then obtain w' where b: "body w = (Return (), w')"
    by (cases "body w") (auto simp: returns_def dest: spec [of _ w])
  have "processes (snd (try_finally body (block [set_slot name None, set_pid name None]) w)) name = None"
    by (simp add: try_finally_def b andthen_def then_with_def set_slot_result set_pid_result ret_def)
  then show ?thesis
    using Some by (simp add: stop_process_def body_def set_slot_result del: upt_Suc)
qed

subsection \<open>Tearing down the bridge\<close>

lemma wait_link_returns [ends_intros]: "returns (wait_link env p polls)"
  by (induction polls) (auto intro!: ends_intros)

lemma wait_link_logs [logs_intros]: "logs b 0 (wait_link env p polls)"
proof (induction polls)
  case Nil
  show ?case
    by (simp add: logs_intros)
next
  case (Cons i rest)
  have "logs b 0 (andthen (sleep 0.1) (wait_link env p rest))"
    by (rule logs_mono, rule logs_intros, rule logs_intros, rule Cons, simp)
  then show ?case
    by (simp add: logs_intros)
qed

lemma stop_link_unfold:
  "processes w Socat = Some proc \<Longrightarrow>
     stop_virtual_elrs_link env w =
       try_finally
         (block
            [if_then (\<lambda>w. returncode proc = None)
               (block
                  [call (Killpg (pid proc) SIGTERM) (os_killpg env (pid proc) SIGTERM),
                   wait_link env proc [0..<50],
                   if_then (\<lambda>w. \<not> seen_exited env proc 50)
                     (call (Killpg (pid proc) SIGKILL) (os_killpg env (pid proc) SIGKILL))]),
             event ''INFO'' (u ''server'') ''SOCAT_STOP'' (u ''socat PTY bridge stopped'')])
         (set_slot Socat None) w"
  by (simp add: stop_virtual_elrs_link_def del: upt_Suc)

lemma stop_link_finishes [ends_intros]: "finishes (stop_virtual_elrs_link env)"
  unfolding finishes_def
proof
  fix w
  show "fst (stop_virtual_elrs_link env w) \<noteq> Pending"
  proof (cases "processes w Socat")
    case None
    then show ?thesis
      by (simp add: stop_virtual_elrs_link_def)
  next
    case (Some proc)
    have "finishes (try_finally
         (block
            [if_then (\<lambda>w. returncode proc = None)
               (block
                  [call (Killpg (pid proc) SIGTERM) (os_killpg env (pid proc) SIGTERM),
                   wait_link env proc [0..<50],
                   if_then (\<lambda>w. \<not> seen_exited env proc 50)
                     (call (Killpg (pid proc) SIGKILL) (os_killpg env (pid proc) SIGKILL))]),
             event ''INFO'' (u ''server'') ''SOCAT_STOP'' (u ''socat PTY bridge stopped'')])
         (set_slot Socat None))"
      by (intro ends_intros returns_finishes [OF wait_link_returns])
    then show ?thesis
      by (simp add: stop_link_unfold [OF Some] finishes_def)
  qed
qed

lemma stop_link_logs [logs_intros]: "logs b 1 (stop_virtual_elrs_link env)"
  unfolding logs_def
proof
  fix w
  show "evolves b 1 w (snd (stop_virtual_elrs_link env w))"
  proof (cases "processes w Socat")
    case None
    then show ?thesis
      using evolves_mono [OF evolves_refl, of 1 b w] by (simp add: stop_virtual_elrs_link_def)
  next
    case (Some proc)
    have "logs b 1 (try_finally
         (block
            [if_then (\<lambda>w. returncode proc = None)
               (block
                  [call (Killpg (pid proc) SIGTERM) (os_killpg env (pid proc) SIGTERM),
                   wait_link env proc [0..<50],
                   if_then (\<lambda>w. \<not> seen_exited env proc 50)
                     (call (Killpg (pid proc) SIGKILL) (os_killpg env (pid proc) SIGKILL))]),
             event ''INFO'' (u ''server'') ''SOCAT_STOP'' (u ''socat PTY bridge stopped'')])
         (set_slot Socat None))"
      by (rule logs_mono, (rule logs_intros | simp)+)
    then show ?thesis
      by (simp add: stop_link_unfold [OF Some] logs_def)
  qed
qed

lemma stop_link_clears: "processes (snd (stop_virtual_elrs_link env w)) Socat = None"
proof (cases "processes w Socat")
  case None
  then show ?thesis
    by (simp add: stop_virtual_elrs_link_def)
next
  case (Some proc)
  define body where "body = block
            [if_then (\<lambda>w. returncode proc = None)
               (block
                  [call (Killpg (pid proc) SIGTERM) (os_killpg env (pid proc) SIGTERM),
                   wait_link env proc [0..<50],
                   if_then (\<lambda>w. \<not> seen_exited env proc 50)
                     (call (Killpg (pid proc) SIGKILL) (os_killpg env (pid proc) SIGKILL))]),
             event ''INFO'' (u ''server'') ''SOCAT_STOP'' (u ''socat PTY bridge stopped'')]"
  have "finishes body"
    unfolding body_def by (intro ends_intros returns_finishes [OF wait_link_returns])
  then have np: "fst (body w) \<noteq> Pending"
    by (simp add: finishes_def)
  obtain r w' where b: "body w = (r, w')"
    by (cases "body w")
  have "processes (snd (try_finally body (set_slot Socat None) w)) Socat = None"
    using np b by (cases r) (simp_all add: try_finally_def set_slot_result)
  then show ?thesis
    by (simp add: stop_link_unfold [OF Some] body_def)
qed

lemma stop_link_returns:
  assumes "link_stops env w"
  shows "fst (stop_virtual_elrs_link env w) = Return ()"
proof (cases "processes w Socat")
  case None
  then show ?thesis
    by (simp add: stop_virtual_elrs_link_def)
next
  case (Some proc)
  have k: "os_killpg env (pid proc) SIGTERM = None" "os_killpg env (pid proc) SIGKILL = None"
    using assms Some by (simp_all add: link_stops_def)
  have "returns (try_finally
         (block
            [if_then (\<lambda>w. returncode proc = None)
               (block
                  [call (Killpg (pid proc) SIGTERM) None,
                   wait_link env proc [0..<50],
                   if_then (\<lambda>w. \<not> seen_exited env proc 50)
                     (call (Killpg (pid proc) SIGKILL) None)]),
             event ''INFO'' (u ''server'') ''SOCAT_STOP'' (u ''socat PTY bridge stopped'')])
         (set_slot Socat None))"
    by (intro ends_intros returns_call_None)
  then show ?thesis
    by (simp add: stop_link_unfold [OF Some] k returns_def)
qed

subsection \<open>Stopping everything\<close>

lemma returnsD: "returns c \<Longrightarrow> c w = (Return (), snd (c w))"
  by (cases "c w") (auto simp: returns_def dest: spec [of _ w])

lemma andthen_returns: "returns c \<Longrightarrow> andthen c k w = k (snd (c w))"
  by (rule andthen_Return) (rule returnsD)

lemma block_Cons_returns: "returns c \<Longrightarrow> block (c # cs) w = block cs (snd (c w))"
  by (simp add: andthen_returns)

lemma logsD: "logs b k c \<Longrightarrow> evolves b k w (snd (c w))"
  by (simp add: logs_def)

lemma logs_gather [logs_intros]: "logs b 0 (gather_monitor_tasks me)"
  unfolding logs_def
  by (intro allI evolves_same_events)
     (simp_all add: gather_monitor_tasks_def split: option.split)

lemma offboard_stop_returns:
  "returns (try_except
          (block
             [px4_offboard_stop env,
              event ''INFO'' (u ''supervisor'') ''PX4_OFFBOARD_STOP''
                (u ''PX4 offboard mode stopped'')])
          (\<lambda>e. event ''WARN'' (u ''supervisor'') ''PX4_OFFBOARD_STOP_FAIL''
                 (u ''Failed to stop offboard: '' @ exc_str e)))"
  unfolding px4_offboard_stop_def by (intro ends_intros allI)

lemma offboard_stop_logs:
  "logs b 2 (try_except
          (block
             [px4_offboard_stop env,
              event ''INFO'' (u ''supervisor'') ''PX4_OFFBOARD_STOP''
                (u ''PX4 offboard mode stopped'')])
          (\<lambda>e. event ''WARN'' (u ''supervisor'') ''PX4_OFFBOARD_STOP_FAIL''
                 (u ''Failed to stop offboard: '' @ exc_str e)))"
  unfolding px4_offboard_stop_def by (rule logs_mono, (rule logs_intros | simp)+)

lemma pkill_returns: "returns (try_except (call Pkill (pkill env)) (\<lambda>e. ret ()))"
  by (intro ends_intros allI)

lemma pkill_logs: "logs b 0 (try_except (call Pkill (pkill env)) (\<lambda>e. ret ()))"
  by (rule logs_mono, (rule logs_intros | simp)+)

lemma stop_all_logs [logs_intros]: "logs False 20 (stop_all env me)"
  unfolding stop_all_def px4_offboard_stop_def stop_ground_def stop_air_def stop_relay_def
  by (rule logs_mono, (rule logs_intros | simp)+)

lemma evolves_strictD:
  assumes "evolves True k w w'"
  shows "shutting_down w' = shutting_down w" "monitor_tasks w' = monitor_tasks w"
    "status (state w') = status (state w)"
  using assms by (simp_all add: evolves_def)

lemma evolves_lands: "evolves b k w w' \<Longrightarrow> lands w' = lands w"
  by (simp add: evolves_def)

lemma evolves_slot_None: "evolves b k w w' \<Longrightarrow> processes w name = None \<Longrightarrow> processes w' name = None"
  unfolding evolves_def by metis

lemma evolves_link_stops: "evolves b k w w' \<Longrightarrow> link_stops env w \<Longrightarrow> link_stops env w'"
proof -
  assume e: "evolves b k w w'" and l: "link_stops env w"
  from e have "processes w' Socat = None \<or> processes w' Socat = processes w Socat"
    by (simp add: evolves_def)
  then show ?thesis
    using l by (auto simp: link_stops_def)
qed

lemma stop_all_cases:
  obtains
    (raised) e w' where "stop_all env me w = (Raise e, w')" "\<not> link_stops env w"
      "shutting_down w'" "status (state w') = u ''STOPPING''" "\<forall>name. processes w' name = None"
  | (pending) w' where "stop_all env me w = (Pending, w')" "in_monitor_tasks me w"
      "shutting_down w'" "status (state w') = u ''STOPPING''" "\<forall>name. processes w' name = None"
  | (returned) w' where "stop_all env me w = (Return (), w')" "\<not> in_monitor_tasks me w"
      "\<not> shutting_down w'" "status (state w') = u ''READY''" "monitor_tasks w' = []"
      "\<forall>name. processes w' name = None"
proof -
  define offb where "offb = try_except
          (block
             [px4_offboard_stop env,
              event ''INFO'' (u ''supervisor'') ''PX4_OFFBOARD_STOP''
                (u ''PX4 offboard mode stopped'')])
          (\<lambda>e. event ''WARN'' (u ''supervisor'') ''PX4_OFFBOARD_STOP_FAIL''
                 (u ''Failed to stop offboard: '' @ exc_str e))"
  define pk where "pk = try_except (call Pkill (pkill env)) (\<lambda>e. ret ())"
  define w1 where "w1 = w\<lparr>shutting_down := True\<rparr>"
  define w2 where "w2 = snd (status_to ''STOPPING'' w1)"
  define w3 where "w3 = snd (offb w2)"
  define w4 where "w4 = snd (stop_process env Ground w3)"
  define w5 where "w5 = snd (stop_process env Air w4)"
  define w6 where "w6 = snd (stop_process env Relay w5)"
  define rest where "rest = block
       [gather_monitor_tasks me,
        assign (\<lambda>w. w\<lparr>monitor_tasks := []\<rparr>),
        sleep 0.5,
        pk,
        status_to ''READY'',
        assign (\<lambda>w. w\<lparr>shutting_down := False\<rparr>)]"
  have ro: "returns offb"
    unfolding offb_def by (rule offboard_stop_returns)
  have rp: "returns pk"
    unfolding pk_def by (rule pkill_returns)
  have eq: "stop_all env me w = andthen (stop_virtual_elrs_link env) rest w6"
    unfolding stop_all_def stop_ground_def stop_air_def stop_relay_def
      offb_def [symmetric] pk_def [symmetric] rest_def
    by (simp add: andthen_returns returns_assign returns_status_to ro stop_process_returns
        w6_def w5_def w4_def w3_def w2_def w1_def assign_def)
  have w2: "w2 = w1\<lparr>state := snd (set_status (u ''STOPPING'') (state w1))\<rparr>"
    by (simp add: w2_def status_to_result)
  have e3: "evolves True 2 w2 w3"
    unfolding w3_def offb_def by (rule logsD [OF offboard_stop_logs])
  have e4: "evolves True 3 w3 w4"
    unfolding w4_def by (rule logsD [OF stop_process_logs])
  have e5: "evolves True 3 w4 w5"
    unfolding w5_def by (rule logsD [OF stop_process_logs])
  have e6: "evolves True 3 w5 w6"
    unfolding w6_def by (rule logsD [OF stop_process_logs])
  have e26: "evolves True (2 + 3 + 3 + 3) w2 w6"
    by (rule evolves_trans [OF evolves_trans [OF evolves_trans [OF e3 e4] e5] e6])
  have f6: "shutting_down w6" "status (state w6) = u ''STOPPING''"
    "monitor_tasks w6 = monitor_tasks w"
    using evolves_strictD [OF e26] by (simp_all add: w2 w1_def set_status_status)
  have l6: "link_stops env w6" if "link_stops env w"
  proof -
    have "link_stops env w2"
      using that by (simp add: link_stops_def w2 w1_def)
    from evolves_link_stops [OF e26 this] show ?thesis .
  qed
  obtain r7 w7 where s7: "stop_virtual_elrs_link env w6 = (r7, w7)"
    by (cases "stop_virtual_elrs_link env w6")
  have "evolves True 1 w6 (snd (stop_virtual_elrs_link env w6))"
    by (rule logsD [OF stop_link_logs])
  then have e7: "evolves True 1 w6 w7"
    by (simp add: s7)
  have f7: "shutting_down w7" "status (state w7) = u ''STOPPING''"
    "monitor_tasks w7 = monitor_tasks w"
    using evolves_strictD [OF e7] f6 by simp_all
  have c7: "processes w7 Socat = None"
    using stop_link_clears [of env w6] by (simp add: s7)
  have "processes w4 Ground = None" "processes w5 Air = None" "processes w6 Relay = None"
    by (simp_all add: w4_def w5_def w6_def stop_process_clears)
  then have "processes w7 Ground = None" "processes w7 Air = None" "processes w7 Relay = None"
    "processes w7 Socat = None"
    using evolves_slot_None [OF e5] evolves_slot_None [OF e6] evolves_slot_None [OF e7] c7
    by simp_all
  then have "processes w7 name = None" for name
    by (cases name) simp_all
  then have p7: "\<forall>name. processes w7 name = None"
    by simp
  have np: "r7 \<noteq> Pending"
    using stop_link_finishes [of env] s7 by (auto simp: finishes_def dest: spec [of _ w6])
  show ?thesis
  proof (cases r7)
    case Pending
    then show ?thesis
      using np by simp
  next
    case (Raise e)
    have "stop_all env me w = (Raise e, w7)"
      by (simp add: eq andthen_Raise s7 [unfolded Raise])
    moreover have "\<not> link_stops env w"
      using stop_link_returns [OF l6] s7 Raise by auto
    ultimately show ?thesis
      using f7 p7 by (rule_tac raised)
  next
    case (Return x)
    have a: "stop_all env me w = rest w7"
      by (simp add: eq andthen_Return s7 [unfolded Return])
    show ?thesis
    proof (cases "in_monitor_tasks me w")
      case True
      then have "gather_monitor_tasks me w7 = (Pending, w7)"
        by (auto simp: gather_monitor_tasks_def in_monitor_tasks_def f7 split: option.splits)
      then have "stop_all env me w = (Pending, w7)"
        by (simp add: a rest_def andthen_Pending)
      then show ?thesis
        using True f7 p7 by (rule_tac pending)
    next
      case False
      then have g: "gather_monitor_tasks me w7 = (Return (), w7)"
        by (auto simp: gather_monitor_tasks_def in_monitor_tasks_def f7 split: option.splits)
      define w8 where "w8 = w7\<lparr>monitor_tasks := []\<rparr>"
      define w9 where "w9 = snd (sleep 0.5 w8)"
      define w10 where "w10 = snd (pk w9)"
      define w11 where "w11 = snd (status_to ''READY'' w10)"
      define w12 where "w12 = w11\<lparr>shutting_down := False\<rparr>"
      have "rest w7 = (Return (), w12)"
        unfolding rest_def
        by (simp add: andthen_Return [of "gather_monitor_tasks me" w7, OF g] andthen_returns returns_assign returns_sleep rp
            returns_status_to assign_def ret_def w12_def w11_def w10_def w9_def w8_def)
      then have r: "stop_all env me w = (Return (), w12)"
        by (simp add: a)
      have e10: "evolves True (0 + 0) w8 w10"
        unfolding w10_def w9_def pk_def
        by (rule evolves_trans [OF logsD [OF logs_sleep] logsD [OF pkill_logs]])
      have "monitor_tasks w10 = []"
        using evolves_strictD(2) [OF e10] by (simp add: w8_def)
      then have "\<not> shutting_down w12" "status (state w12) = u ''READY''" "monitor_tasks w12 = []"
        by (simp_all add: w12_def w11_def status_to_result set_status_status)
      moreover have "\<forall>name. processes w12 name = None"
        using evolves_slot_None [OF e10] p7
        by (simp add: w12_def w11_def status_to_result w8_def)
      ultimately show ?thesis
        using r False by (rule_tac returned)
    qed
  qed
qed

lemma stop_all_clears: "processes (snd (stop_all env me w)) name = None"
  by (rule stop_all_cases [of env me w]) simp_all

lemma stop_all_finishes: "finishes (stop_all env None)"
  unfolding finishes_def
proof
  fix w
  show "fst (stop_all env None w) \<noteq> Pending"
    by (rule stop_all_cases [of env None w]) (simp_all add: in_monitor_tasks_def)
qed

subsection \<open>The monitor\<close>

lemma parse_line_finishes [ends_intros]: "finishes (parse_line name line)"
  by (cases name)
     (auto simp: finishes_def on_state_def outcome_of_def raise_def split: prod.split option.split)

lemma parse_line_control: "same_control w (snd (parse_line name line w))"
  by (cases name)
     (auto simp: same_control_def on_state_def raise_def split: prod.split option.split)

lemma parse_step_returns:
  "returns (try_except (parse_line name line)
             (\<lambda>e. event ''WARN'' (u ''server'') ''PARSE_ERROR''
                    (u ''Failed to parse '' @ role_name name @ u '' line: '' @ exc_str e)))"
  by (intro ends_intros allI)

lemma parse_step_control:
  "same_control w (snd (try_except (parse_line name line)
             (\<lambda>e. event ''WARN'' (u ''server'') ''PARSE_ERROR''
                    (u ''Failed to parse '' @ role_name name @ u '' line: '' @ exc_str e)) w))"
proof -
  obtain r w' where p: "parse_line name line w = (r, w')"
    by (cases "parse_line name line w")
  have "same_control w w'"
    using parse_line_control [of w name line] by (simp add: p)
  then show ?thesis
    by (cases r) (simp_all add: try_except_def p event_result same_control_def)
qed

lemma parse_lines_returns [ends_intros]: "returns (parse_lines name lines)"
  by (induction lines) (auto intro!: ends_intros parse_step_returns)

lemma parse_lines_control: "same_control w (snd (parse_lines name lines w))"
proof (induction lines arbitrary: w)
  case Nil
  show ?case
    by (simp add: ret_def same_control_def)
next
  case (Cons line rest)
  show ?case
  proof (cases "line = []")
    case True
    then show ?thesis
      using Cons by simp
  next
    case False
    define step where "step = try_except (parse_line name line)
             (\<lambda>e. event ''WARN'' (u ''server'') ''PARSE_ERROR''
                    (u ''Failed to parse '' @ role_name name @ u '' line: '' @ exc_str e))"
    have a: "same_control w (snd (step w))"
      unfolding step_def by (rule parse_step_control)
    have b: "same_control (snd (step w)) (snd (parse_lines name rest (snd (step w))))"
      by (rule Cons)
    have "parse_lines name (line # rest) w = parse_lines name rest (snd (step w))"
      using False parse_step_returns [of name line]
      by (simp add: step_def andthen_returns)
    then show ?thesis
      using a b by (simp add: same_control_def)
  qed
qed

lemma try_except_at: "m w = m' v \<Longrightarrow> try_except m h w = try_except m' h v"
  by (simp add: try_except_def)

lemma try_finally_at: "m w = m' v \<Longrightarrow> try_finally m fin w = try_finally m' fin v"
  by (simp add: try_finally_def)

lemma andthen_at: "m w = m' v \<Longrightarrow> andthen m k w = andthen m' k v"
  by (simp add: andthen_def then_with_def)

lemma andthen_assoc: "andthen (andthen a b) c = andthen a (andthen b c)"
  by (rule ext) (simp add: andthen_def then_with_def split: prod.split outcome.split)

lemma andthen_ret_left: "andthen (ret x) k = k"
  by (rule ext) (simp add: andthen_def then_with_def ret_def)

lemma andthen_ret_right: "andthen m (ret ()) = m"
  by (rule ext) (simp add: andthen_def then_with_def ret_def split: prod.split outcome.split)

lemma try_except_Return: "m w = (Return x, w') \<Longrightarrow> try_except m h w = (Return x, w')"
  by (simp add: try_except_def)

lemma try_except_Raise: "m w = (Raise e, w') \<Longrightarrow> try_except m h w = h e w'"
  by (simp add: try_except_def)

lemma try_finally_Return:
  assumes "m w = (Return x, w')" "returns fin"
  shows "try_finally m fin w = (Return x, snd (fin w'))"
proof -
  obtain v where "fin w' = (Return (), v)"
    using assms(2) by (cases "fin w'") (auto simp: returns_def dest: spec [of _ w'])
  then show ?thesis
    by (simp add: try_finally_def assms(1))
qed

lemma u_append: "u a @ u b = u (a @ b)"
  by (simp add: u_def)

lemma tail_safe:
  assumes "\<not> shutting_down v" "link_stops env v"
  obtains v' where
    "block
       [if_then (\<lambda>w. \<not> shutting_down w)
          (block [status_to ''READY'', stop_air env, stop_relay env, stop_virtual_elrs_link env]),
        if_then (\<lambda>w. \<not> shutting_down w) (status_to ''SAFE'')] v = (Return (), v')"
    "status (state v') = u ''SAFE''" "\<not> shutting_down v'" "lands v' = lands v"
    "\<exists>ev. recent 1 ev v' \<and> code ev = u ''STATUS_CHANGE'' \<and>
       msg ev = u ''Status changed from READY to SAFE''"
proof -
  define v1 where "v1 = snd (status_to ''READY'' v)"
  define v2 where "v2 = snd (stop_process env Air v1)"
  define v3 where "v3 = snd (stop_process env Relay v2)"
  define v4 where "v4 = snd (stop_virtual_elrs_link env v3)"
  define v5 where "v5 = snd (status_to ''SAFE'' v4)"
  have v1: "v1 = v\<lparr>state := snd (set_status (u ''READY'') (state v))\<rparr>"
    by (simp add: v1_def status_to_result)
  have e2: "evolves True 3 v1 v2"
    unfolding v2_def by (rule logsD [OF stop_process_logs])
  have e3: "evolves True 3 v2 v3"
    unfolding v3_def by (rule logsD [OF stop_process_logs])
  have e4: "evolves True 1 v3 v4"
    unfolding v4_def by (rule logsD [OF stop_link_logs])
  have e14: "evolves True (3 + 3 + 1) v1 v4"
    by (rule evolves_trans [OF evolves_trans [OF e2 e3] e4])
  have l3: "link_stops env v3"
  proof -
    have "link_stops env v1"
      using assms(2) by (simp add: link_stops_def v1)
    from evolves_link_stops [OF evolves_trans [OF e2 e3] this] show ?thesis .
  qed
  have s4: "stop_virtual_elrs_link env v3 = (Return (), v4)"
    using stop_link_returns [OF l3] by (cases "stop_virtual_elrs_link env v3") (simp add: v4_def)
  have f4: "\<not> shutting_down v4" "status (state v4) = u ''READY''" "lands v4 = lands v"
    using evolves_strictD [OF e14] evolves_lands [OF e14] assms(1)
    by (simp_all add: v1 set_status_status lands_def)
  have v5: "v5 = v4\<lparr>state := snd (set_status (u ''SAFE'') (state v4))\<rparr>"
    by (simp add: v5_def status_to_result)
  have b1: "block [status_to ''READY'', stop_air env, stop_relay env, stop_virtual_elrs_link env] v =
      (Return (), v4)"
    by (simp add: andthen_returns returns_status_to stop_process_returns stop_air_def
        stop_relay_def v1_def [symmetric] v2_def [symmetric] v3_def [symmetric]
        andthen_Return [of "stop_virtual_elrs_link env" v3, OF s4] ret_def)
  have "block
       [if_then (\<lambda>w. \<not> shutting_down w)
          (block [status_to ''READY'', stop_air env, stop_relay env, stop_virtual_elrs_link env]),
        if_then (\<lambda>w. \<not> shutting_down w) (status_to ''SAFE'')] v = (Return (), v5)"
    using assms(1) f4(1) b1
    by (simp add: andthen_def then_with_def if_then_def ret_def v5_def status_to_result)
  moreover have "status (state v5) = u ''SAFE''" "\<not> shutting_down v5" "lands v5 = lands v"
    using f4 by (simp_all add: v5 set_status_status lands_def)
  moreover have "\<exists>ev. recent 1 ev v5 \<and> code ev = u ''STATUS_CHANGE'' \<and>
       msg ev = u ''Status changed from READY to SAFE''"
  proof -
    define ev where "ev = make_event (u ''INFO'') (u ''server'') (u ''STATUS_CHANGE'')
          (u ''Status changed from '' @ status (state v4) @ u '' to '' @ u ''SAFE'') (state v4)"
    have "recent 1 ev v5"
      using deque_append_newest [of 500 ev "events (state v4)"]
      by (simp add: recent_def v5 set_status_events ev_def)
    moreover have "code ev = u ''STATUS_CHANGE''"
      by (simp add: ev_def make_event_def)
    moreover have "msg ev = u ''Status changed from READY to SAFE''"
      by (simp add: ev_def make_event_def f4 u_append)
    ultimately show ?thesis
      by blast
  qed
  ultimately show ?thesis
    by (rule that)
qed

lemma monitor_ground_unfold:
  assumes "processes w Ground = Some proc" "returncode proc \<noteq> Some 0"
  shows "monitor_process env me Ground lines w =
     try_finally
       (try_except
          (andthen (parse_lines Ground lines)
             (andthen
                (event ''ERROR'' (u ''ground'') ''PROCESS_CRASH''
                   (u ''ground'' @ u '' crashed with exit code '' @
                    str_exit_code (returncode proc)))
                (andthen (if_then (\<lambda>w. \<not> shutting_down w) (auto_land env me))
                   (block
                      [if_then (\<lambda>w. \<not> shutting_down w)
                         (block
                            [status_to ''READY'', stop_air env, stop_relay env,
                             stop_virtual_elrs_link env]),
                       if_then (\<lambda>w. \<not> shutting_down w) (status_to ''SAFE'')]))))
          (\<lambda>e. event ''ERROR'' (u ''server'') ''MONITOR_ERROR''
                 (u ''Error monitoring '' @ u ''ground'' @ u '': '' @ exc_str e)))
       (block [set_slot Ground None, set_pid Ground None]) w"
  using assms by (simp add: monitor_process_def on_exit_def andthen_assoc andthen_ret_right)

lemma auto_land_unfold:
  "andthen (auto_land env me) k w =
     andthen
       (case drone_land env of
          Some e \<Rightarrow> event ''ERROR'' (u ''server'') ''LAND_FAILED''
                      (u ''Failed to land drone: '' @ exc_str e)
        | None \<Rightarrow> try_except (block [sleep 5, stop_all env me])
                    (\<lambda>e. event ''ERROR'' (u ''server'') ''LAND_FAILED''
                           (u ''Failed to land drone: '' @ exc_str e)))
       k
       ((snd (event ''INFO'' (u ''server'') ''AUTO_LAND''
                (u ''Ground experiment complete, initiating landing sequence'') w))
          \<lparr>calls := calls (snd (event ''INFO'' (u ''server'') ''AUTO_LAND''
                (u ''Ground experiment complete, initiating landing sequence'') w)) @ [Land]\<rparr>)"
proof -
  define hL where "hL = (\<lambda>e. event ''ERROR'' (u ''server'') ''LAND_FAILED''
                           (u ''Failed to land drone: '' @ exc_str e))"
  define AUTO where "AUTO = event ''INFO'' (u ''server'') ''AUTO_LAND''
                (u ''Ground experiment complete, initiating landing sequence'')"
  define w2 where "w2 = snd (AUTO w)"
  define w3 where "w3 = w2\<lparr>calls := calls w2 @ [Land]\<rparr>"
  define TE where "TE = try_except (block [px4_land env, sleep 5, stop_all env me]) hL"
  define TE' where "TE' = (case drone_land env of Some e \<Rightarrow> hL e
                           | None \<Rightarrow> try_except (block [sleep 5, stop_all env me]) hL)"
  have al: "auto_land env me = andthen AUTO TE"
    unfolding auto_land_def AUTO_def TE_def hL_def block.simps andthen_ret_right ..
  have ra: "returns AUTO"
    unfolding AUTO_def by (rule returns_event)
  have "andthen (auto_land env me) k w = andthen AUTO (andthen TE k) w"
    unfolding al andthen_assoc ..
  also have "\<dots> = andthen TE k (snd (AUTO w))"
    using ra by (rule andthen_returns)
  finally have a: "andthen (auto_land env me) k w = andthen TE k w2"
    unfolding w2_def .
  have "TE w2 = TE' w3"
  proof (cases "drone_land env")
    case None
    have "call Land None w2 = (Return (), w3)"
      by (simp add: call_def w3_def)
    then have "block [px4_land env, sleep 5, stop_all env me] w2 =
        block [sleep 5, stop_all env me] w3"
      unfolding px4_land_def None by (rule block_Cons_Return)
    then have "TE w2 = try_except (block [sleep 5, stop_all env me]) hL w3"
      unfolding TE_def by (rule try_except_at)
    then show ?thesis
      by (simp only: TE'_def None option.case)
  next
    case (Some e)
    have "call Land (Some e) w2 = (Raise e, w3)"
      by (simp add: call_def w3_def)
    then have "block [px4_land env, sleep 5, stop_all env me] w2 = (Raise e, w3)"
      unfolding px4_land_def Some by (rule block_Cons_Raise)
    then have "TE w2 = hL e w3"
      unfolding TE_def by (rule try_except_Raise)
    then show ?thesis
      by (simp only: TE'_def Some option.case)
  qed
  then have "andthen TE k w2 = andthen TE' k w3"
    by (rule andthen_at)
  then show ?thesis
    unfolding a TE'_def hL_def w3_def w2_def AUTO_def .
qed

lemma same_control_lands: "same_control w w' \<Longrightarrow> lands w' = lands w"
  by (simp add: same_control_def lands_def)

lemma same_control_link_stops: "same_control w w' \<Longrightarrow> link_stops env w' = link_stops env w"
  by (simp add: same_control_def link_stops_def)

lemma same_control_in_tasks:
  "same_control w w' \<Longrightarrow> in_monitor_tasks me w' = in_monitor_tasks me w"
  by (auto simp: same_control_def in_monitor_tasks_def split: option.split)

lemma fin_returns: "returns (block [set_slot name None, set_pid name None])"
  by (intro ends_intros)

lemma fin_logs: "logs b 0 (block [set_slot name None, set_pid name None])"
  by (rule logs_mono, (rule logs_intros)+, simp)

lemma tail_logs:
  "logs False 9 (block
       [if_then (\<lambda>w. \<not> shutting_down w)
          (block [status_to ''READY'', stop_air env, stop_relay env, stop_virtual_elrs_link env]),
        if_then (\<lambda>w. \<not> shutting_down w) (status_to ''SAFE'')])"
  unfolding stop_air_def stop_relay_def by (rule logs_mono, (rule logs_intros)+, simp)

lemma after_land_logs:
  "logs False 40
     (try_finally
        (try_except
           (andthen
              (case r of
                 Some e \<Rightarrow> event ''ERROR'' (u ''server'') ''LAND_FAILED''
                             (u ''Failed to land drone: '' @ exc_str e)
               | None \<Rightarrow> try_except (block [sleep 5, stop_all env me])
                           (\<lambda>e. event ''ERROR'' (u ''server'') ''LAND_FAILED''
                                  (u ''Failed to land drone: '' @ exc_str e)))
              (block
                 [if_then (\<lambda>w. \<not> shutting_down w)
                    (block
                       [status_to ''READY'', stop_air env, stop_relay env,
                        stop_virtual_elrs_link env]),
                  if_then (\<lambda>w. \<not> shutting_down w) (status_to ''SAFE'')]))
           (\<lambda>e. event ''ERROR'' (u ''server'') ''MONITOR_ERROR''
                  (u ''Error monitoring '' @ u ''ground'' @ u '': '' @ exc_str e)))
        (block [set_slot Ground None, set_pid Ground None]))"
proof (cases r)
  case None
  show ?thesis
    unfolding None option.case
    by (rule logs_mono, rule logs_intros, rule logs_intros, rule logs_intros,
        rule logs_intros, rule logs_intros, rule logs_intros, rule logs_intros, rule stop_all_logs,
        rule logs_intros, rule logs_intros, rule tail_logs, rule logs_intros, rule fin_logs, simp)
next
  case (Some e)
  show ?thesis
    unfolding Some option.case
    by (rule logs_mono, rule logs_intros, rule logs_intros, rule logs_intros,
        rule logs_intros, rule tail_logs, rule logs_intros, rule fin_logs, simp)
qed

lemma event_recent:
  "recent 1 (make_event (u lv) sr (u cd) m (state w)) (snd (event lv sr cd m w))"
  using deque_append_newest [of 500 "make_event (u lv) sr (u cd) m (state w)" "events (state w)"]
  by (simp add: recent_def event_result add_event_events)

lemma evolves_recent:
  "evolves b k w w' \<Longrightarrow> recent m ev w \<Longrightarrow> m + k \<le> 500 \<Longrightarrow> recent (m + k) ev w'"
  by (simp add: evolves_def)


subsection \<open>The request handler\<close>


subsection \<open>Starting\<close>

lemma succeedsD: "succeeds c \<Longrightarrow> \<exists>x. c w = (Return x, snd (c w))"
  by (cases "c w") (auto simp: succeeds_def dest: spec [of _ w])

lemma succeeds_ret [ends_intros]: "succeeds (ret x)"
  by (simp add: succeeds_def ret_def)

lemma returns_succeeds: "returns c \<Longrightarrow> succeeds c"
  by (simp add: returns_def succeeds_def)

lemma succeeds_returns: "succeeds (c :: unit coro) \<Longrightarrow> returns c"
  by (simp add: returns_def succeeds_def)

lemma succeeds_then_with [ends_intros]:
  assumes "succeeds m" "\<And>x. succeeds (k x)"
  shows "succeeds (then_with m k)"
  unfolding succeeds_def
proof
  fix w
  obtain x where "m w = (Return x, snd (m w))"
    using succeedsD [OF assms(1)] by blast
  then have "then_with m k w = k x (snd (m w))"
    by (rule then_with_Return)
  then show "\<exists>y. fst (then_with m k w) = Return y"
    using assms(2) [of x] by (simp add: succeeds_def)
qed

lemma succeeds_try_except [ends_intros]:
  assumes "finishes m" "\<And>e. succeeds (h e)"
  shows "succeeds (try_except m h)"
  unfolding succeeds_def
proof
  fix w
  obtain r w' where mw: "m w = (r, w')"
    by (cases "m w")
  have "r \<noteq> Pending"
    using assms(1) mw by (auto simp: finishes_def dest: spec [of _ w])
  then show "\<exists>x. fst (try_except m h w) = Return x"
    using assms(2) mw by (cases r) (simp_all add: try_except_def succeeds_def)
qed

lemma succeeds_if [ends_intros]:
  "succeeds c \<Longrightarrow> succeeds d \<Longrightarrow> succeeds (if p then c else d)"
  by simp

lemma kill_pids_succeeds [ends_intros]: "succeeds (kill_pids env pattern pids killed_any)"
proof (induction pids arbitrary: killed_any)
  case Nil
  show ?case
    by (simp add: succeeds_ret)
next
  case (Cons pid_str rest)
  have a: "succeeds (then_with
                     (try_except
                        (andthen (call (Kill p) (os_kill env p))
                           (andthen
                              (event ''INFO'' (u ''supervisor'') ''CLEANUP''
                                 (u ''Killed stale process: '' @ pattern @ u '' (PID '' @
                                  str_int p @ u '')''))
                              (ret True)))
                        (\<lambda>e. ret killed_any))
                     (kill_pids env pattern rest))" for p
    by (intro ends_intros allI Cons)
  show ?case
    using a Cons by (simp split: sum.split)
qed

lemma cleanup_patterns_succeeds [ends_intros]:
  "succeeds (cleanup_patterns env patterns killed_any)"
proof (induction patterns arbitrary: killed_any)
  case Nil
  show ?case
    by (simp add: succeeds_ret)
next
  case (Cons pattern rest)
  have a: "succeeds (then_with (kill_pids env pattern pids killed_any) (cleanup_patterns env rest))"
    for pids
    by (intro ends_intros allI Cons)
  show ?case
    unfolding succeeds_def
  proof
    fix w
    show "\<exists>x. fst (cleanup_patterns env (pattern # rest) killed_any w) = Return x"
    proof (cases "pgrep env pattern")
      case (PgrepRaises e)
      then show ?thesis
        using Cons [of killed_any] by (cases e) (simp_all add: succeeds_def)
    next
      case (CompletedProcess rc out)
      then show ?thesis
        using Cons [of killed_any] a [of "split_lines (strip out)"] by (simp add: succeeds_def)
    qed
  qed
qed

lemma cleanup_returns [ends_intros]: "returns (cleanup_old_processes env)"
  unfolding cleanup_old_processes_def
  by (rule succeeds_returns) (intro ends_intros allI returns_succeeds [OF returns_sleep])

lemma start_all_begin_returns: "returns (start_all_begin env params)"
  unfolding start_all_begin_def by (intro ends_intros)

lemma start_link_finishes [ends_intros]: "finishes (start_virtual_elrs_link env)"
  unfolding finishes_def
proof
  fix w
  have a: "finishes (andthen
             (event ''ERROR'' (u ''server'') ''SOCAT_NOT_FOUND''
                (u ''socat not found. Install with: brew install socat''))
             (raise (RuntimeError (u ''socat not found'')) :: unit coro))"
    by (intro ends_intros)
  have b: "finishes (block
               [set_slot Socat (Some \<lparr>pid = n, returncode = None\<rparr>),
                event ''INFO'' (u ''server'') ''SOCAT_START''
                  (u ''socat PTY bridge started (PID '' @ str_int (int n) @ u '')'')])" for n
    by (intro ends_intros)
  note a' = a [unfolded finishes_def, rule_format, of w]
  note b' = b [unfolded finishes_def, rule_format, of _ "w\<lparr>calls := calls w @ [Spawn Socat]\<rparr>"]
  show "fst (start_virtual_elrs_link env w) \<noteq> Pending"
    using a' b' by (simp add: start_virtual_elrs_link_def split: sum.split)
qed

lemma start_process_finishes [ends_intros]: "finishes (start_process env name title)"
proof -
  have b: "finishes (block
                  [set_slot name (Some \<lparr>pid = n, returncode = None\<rparr>),
                   set_pid name (Some n),
                   event ''INFO'' (role_name name) ''PROCESS_START''
                     (title @ u '' started (PID '' @ str_int (int n) @ u '')''),
                   assign (\<lambda>w. w\<lparr>monitor_tasks :=
                                     monitor_tasks w @ [length (monitor_tasks w)]\<rparr>)])" for n
    by (intro ends_intros)
  have "finishes (\<lambda>w. case spawn env name of
              Inl e \<Rightarrow> (Raise e, w\<lparr>calls := calls w @ [Spawn name]\<rparr>)
            | Inr n \<Rightarrow>
                block
                  [set_slot name (Some \<lparr>pid = n, returncode = None\<rparr>),
                   set_pid name (Some n),
                   event ''INFO'' (role_name name) ''PROCESS_START''
                     (title @ u '' started (PID '' @ str_int (int n) @ u '')''),
                   assign (\<lambda>w. w\<lparr>monitor_tasks :=
                                     monitor_tasks w @ [length (monitor_tasks w)]\<rparr>)]
                  (w\<lparr>calls := calls w @ [Spawn name]\<rparr>))"
    unfolding finishes_def
  proof
    fix w
    note b' = b [unfolded finishes_def, rule_format, of _ "w\<lparr>calls := calls w @ [Spawn name]\<rparr>"]
    show "fst (case spawn env name of
              Inl e \<Rightarrow> (Raise e, w\<lparr>calls := calls w @ [Spawn name]\<rparr>)
            | Inr n \<Rightarrow>
                block
                  [set_slot name (Some \<lparr>pid = n, returncode = None\<rparr>),
                   set_pid name (Some n),
                   event ''INFO'' (role_name name) ''PROCESS_START''
                     (title @ u '' started (PID '' @ str_int (int n) @ u '')''),
                   assign (\<lambda>w. w\<lparr>monitor_tasks :=
                                     monitor_tasks w @ [length (monitor_tasks w)]\<rparr>)]
                  (w\<lparr>calls := calls w @ [Spawn name]\<rparr>)) \<noteq> Pending"
      using b' by (simp split: sum.split)
  qed
  then show ?thesis
    unfolding start_process_def
    by (intro ends_intros returns_finishes [OF stop_process_returns])
qed

lemma connect_finishes:
  "finishes (try_except
             (block
                [px4_connect env,
                 event ''INFO'' (u ''supervisor'') ''PX4_CONNECTED''
                   (u ''PX4 connected, telemetry streaming'')])
             (\<lambda>e. event ''WARN'' (u ''supervisor'') ''PX4_CONNECT_FAIL''
                    (u ''PX4 connection failed: '' @ exc_str e)))"
  unfolding px4_connect_def by (intro ends_intros allI)

lemma start_all_try_finishes: "finishes (start_all_try env params)"
proof -
  have "finishes (\<lambda>w. (Return (self_session_id w), w))"
    by (simp add: finishes_def)
  then show ?thesis
    unfolding start_all_try_def start_relay_def start_air_def start_ground_def px4_connect_def
    by (intro ends_intros allI)
qed

lemma block_append: "block (xs @ ys) = andthen (block xs) (block ys)"
  by (induction xs) (simp_all add: andthen_ret_left andthen_assoc)

lemma andthen_ReturnE:
  assumes "andthen m k w = (Return x, w')"
  obtains y v where "m w = (Return y, v)" "k v = (Return x, w')"
proof -
  obtain r v where mw: "m w = (r, v)"
    by (cases "m w")
  show ?thesis
    using assms mw that by (cases r) (simp_all add: andthen_def then_with_def)
qed

lemma start_all_try_Return:
  assumes "start_all_try env params w = (Return sid, w')"
  shows "status (state w') = u ''RAMPING''"
proof -
  define pre where "pre = [event ''INFO'' (u ''supervisor'') ''PX4_CONNECTING'' (u ''Connecting to PX4...''),
           try_except
             (block
                [px4_connect env,
                 event ''INFO'' (u ''supervisor'') ''PX4_CONNECTED''
                   (u ''PX4 connected, telemetry streaming'')])
             (\<lambda>e. event ''WARN'' (u ''supervisor'') ''PX4_CONNECT_FAIL''
                    (u ''PX4 connection failed: '' @ exc_str e)),
           start_virtual_elrs_link env,
           start_relay env,
           sleep 2.0,
           start_air env,
           sleep 2.0,
           start_ground env,
           sleep 1.0]"
  have "start_all_try env params =
      andthen (block (pre @ [status_to ''RAMPING''])) (\<lambda>w. (Return (self_session_id w), w))"
    by (simp add: start_all_try_def pre_def)
  then have "andthen (andthen (block pre) (block [status_to ''RAMPING'']))
      (\<lambda>w. (Return (self_session_id w), w)) w = (Return sid, w')"
    using assms by (simp only: block_append)
  then obtain y v where a: "andthen (block pre) (block [status_to ''RAMPING'']) w = (Return y, v)"
    and b: "(Return (self_session_id v), v) = (Return sid, w')"
    by (rule andthen_ReturnE)
  from a obtain z v' where c: "block [status_to ''RAMPING''] v' = (Return y, v)"
    by (rule andthen_ReturnE)
  have "v = snd (status_to ''RAMPING'' v')"
    using c by (simp add: andthen_returns [OF returns_status_to] ret_def)
  then have "status (state v) = u ''RAMPING''"
    by (simp add: status_to_result set_status_status)
  then show ?thesis
    using b by simp
qed

lemma not_running_if_no_process: "\<forall>name. processes w name = None \<Longrightarrow> \<not> is_running w"
  by (simp add: is_running_def)

text \<open>
  C2, as amended. The cleanup, the session reset and the status \<open>CONNECTING\<close> raise nothing:
  what the cleanup meets it catches. When the block of the \<open>try\<close> that follows them (the
  bridge start and the starts of relay, air and ground among its statements) returns,
  \<open>start_all\<close> returns the session id with status \<open>RAMPING\<close>. When it raises, \<open>start_all\<close>
  runs \<open>stop_all\<close>, after which no process is left in the table, and raises: a
  \<open>RuntimeError\<close> that carries the text of the exception, with status \<open>READY\<close> and the flag
  clear, if the bridge can be torn down, and else what the teardown raised.
\<close>

theorem start_all_rollback:
  "fst (start_all_begin env params w) = Return () \<and>
   (case start_all_try env params (snd (start_all_begin env params w)) of
      (Return sid, w2) \<Rightarrow>
        start_all env params w = (Return sid, w2) \<and> status (state w2) = u ''RAMPING''
    | (Raise e, w2) \<Rightarrow>
        (\<exists>e'. fst (start_all env params w) = Raise e') \<and>
        (\<forall>name. processes (snd (start_all env params w)) name = None) \<and>
        \<not> is_running (snd (start_all env params w)) \<and>
        (link_stops env w2 \<longrightarrow>
           fst (start_all env params w) =
             Raise (RuntimeError (u ''Failed to start experiment: '' @ exc_str e)) \<and>
           status (state (snd (start_all env params w))) = u ''READY'' \<and>
           \<not> shutting_down (snd (start_all env params w)))
    | (Pending, w2) \<Rightarrow> False)"
proof -
  define w1 where "w1 = snd (start_all_begin env params w)"
  have rb: "returns (start_all_begin env params)"
    by (rule start_all_begin_returns)
  have b: "fst (start_all_begin env params w) = Return ()"
    using rb by (simp add: returns_def)
  have sa: "start_all env params w =
      try_except (start_all_try env params) (start_all_except env) w1"
    unfolding start_all_def w1_def using rb by (rule andthen_returns)
  obtain r2 w2 where t: "start_all_try env params w1 = (r2, w2)"
    by (cases "start_all_try env params w1")
  have np: "r2 \<noteq> Pending"
    using start_all_try_finishes [of env params] t
    by (auto simp: finishes_def dest: spec [of _ w1])
  have "case (r2, w2) of
      (Return sid, w2) \<Rightarrow>
        start_all env params w = (Return sid, w2) \<and> status (state w2) = u ''RAMPING''
    | (Raise e, w2) \<Rightarrow>
        (\<exists>e'. fst (start_all env params w) = Raise e') \<and>
        (\<forall>name. processes (snd (start_all env params w)) name = None) \<and>
        \<not> is_running (snd (start_all env params w)) \<and>
        (link_stops env w2 \<longrightarrow>
           fst (start_all env params w) =
             Raise (RuntimeError (u ''Failed to start experiment: '' @ exc_str e)) \<and>
           status (state (snd (start_all env params w))) = u ''READY'' \<and>
           \<not> shutting_down (snd (start_all env params w)))
    | (Pending, w2) \<Rightarrow> False"
  proof (cases r2)
    case Pending
    then show ?thesis
      using np by simp
  next
    case (Return sid)
    have "start_all env params w = (Return sid, w2)"
      unfolding sa using t [unfolded Return] by (rule try_except_Return)
    moreover have "status (state w2) = u ''RAMPING''"
      using t [unfolded Return] by (rule start_all_try_Return)
    ultimately show ?thesis
      by (simp add: Return)
  next
    case (Raise e)
    define R where "R = RuntimeError (u ''Failed to start experiment: '' @ exc_str e)"
    define w3 where "w3 = snd (event ''ERROR'' (u ''server'') ''START_FAIL''
             (u ''Experiment start failed: '' @ exc_str e) w2)"
    have w3: "w3 = w2\<lparr>state := snd (add_event (u ''ERROR'') (u ''server'') (u ''START_FAIL'')
             (u ''Experiment start failed: '' @ exc_str e) (state w2))\<rparr>"
      by (simp add: w3_def event_result)
    have "start_all env params w = start_all_except env e w2"
      unfolding sa using t [unfolded Raise] by (rule try_except_Raise)
    also have "\<dots> = andthen (block [event ''ERROR'' (u ''server'') ''START_FAIL''
             (u ''Experiment start failed: '' @ exc_str e), stop_all env None]) (raise R) w2"
      by (simp add: start_all_except_def R_def)
    also have "\<dots> = andthen (stop_all env None) (raise R) w3"
      by (simp add: andthen_ret_right andthen_assoc andthen_returns [OF returns_event] w3_def)
    finally have se: "start_all env params w = andthen (stop_all env None) (raise R) w3" .
    have "(\<exists>e'. fst (start_all env params w) = Raise e') \<and>
        (\<forall>name. processes (snd (start_all env params w)) name = None) \<and>
        (link_stops env w2 \<longrightarrow>
           fst (start_all env params w) = Raise R \<and>
           status (state (snd (start_all env params w))) = u ''READY'' \<and>
           \<not> shutting_down (snd (start_all env params w)))"
    proof (rule stop_all_cases [of env None w3])
      fix e' w'
      assume a: "stop_all env None w3 = (Raise e', w')" "\<not> link_stops env w3"
        "\<forall>name. processes w' name = None"
      have "start_all env params w = (Raise e', w')"
        unfolding se using a(1) by (rule andthen_Raise)
      moreover have "\<not> link_stops env w2"
        using a(2) by (simp add: w3 link_stops_def)
      ultimately show ?thesis
        using a(3) by simp
    next
      fix w'
      assume "in_monitor_tasks None w3"
      then show ?thesis
        by (simp add: in_monitor_tasks_def)
    next
      fix w'
      assume a: "stop_all env None w3 = (Return (), w')" "\<not> shutting_down w'"
        "status (state w') = u ''READY''" "\<forall>name. processes w' name = None"
      have "start_all env params w = raise R w'"
        unfolding se using a(1) by (rule andthen_Return)
      then have "start_all env params w = (Raise R, w')"
        by (simp add: raise_def)
      then show ?thesis
        using a by simp
    qed
    then show ?thesis
      using not_running_if_no_process [of "snd (start_all env params w)"]
      by (simp add: Raise R_def)
  qed
  then show ?thesis
    using b unfolding w1_def [symmetric] t by simp
qed

subsection \<open>Example runs\<close>

lemmas run_defs = monitor_process_def on_exit_def auto_land_def stop_all_def stop_process_def
  stop_virtual_elrs_link_def stop_air_def stop_relay_def stop_ground_def px4_land_def
  px4_offboard_stop_def gather_monitor_tasks_def
  andthen_def then_with_def try_except_def try_finally_def if_then_def ret_def raise_def
  event_result status_to_result call_def sleep_def set_slot_def set_pid_def assign_def
  seen_exited_def

lemmas store_defs = set_status_def add_event_def make_event_def with_lock_def
  set_process_pid_def SharedState_def deque_append_def Let_def str_exit_code_def str_int_def
  digits_of.simps u_def upt_conv_Cons



text \<open>
  The run in which the landing succeeds: \<open>stop_all\<close>, called by the monitor task, waits for the
  tasks of the list, of which the monitor is one, and the handler goes no further.
\<close>

lemma monitor_process_waits_for_itself:
  "fst (monitor_process quiet_env (Some 2) Ground [] ground_crashed) = Pending \<and>
   status (state (snd (monitor_process quiet_env (Some 2) Ground [] ground_crashed))) =
     u ''STOPPING'' \<and>
   shutting_down (snd (monitor_process quiet_env (Some 2) Ground [] ground_crashed))"
  by (simp add: run_defs ground_crashed_def quiet_env_def ProcessSupervisor_def store_defs)

lemmas start_defs = start_all_def start_all_begin_def start_all_try_def start_all_except_def
  cleanup_old_processes_def process_patterns_def strip_def is_space_def
  start_virtual_elrs_link_def start_relay_def start_air_def start_ground_def start_process_def
  px4_connect_def start_session_def

lemma start_all_quiet:
  "fst (start_all quiet_env example_request idle) = Return (Some (u ''20251223_052932''))"
  by (simp add: start_defs run_defs idle_def quiet_env_def ProcessSupervisor_def store_defs)



end
